theory Spec2Isabelle
  imports Complex_Main
begin

section \<open>JavaScript values used by the data processor\<close>

text \<open>
  The data processor is JavaScript. Its strings are modelled as \<open>string\<close>. An ASCII text,
  which is what every example below uses, is the list of its characters. Any other text is the
  list of the bytes of its UTF-8 encoding, so that \<open>String.prototype.includes\<close> is the
  sublist test \<open>str_includes\<close> for every well-formed text. \<open>String.prototype.toLowerCase\<close>
  is the case mapping of Unicode, which is the JavaScript engine's work and not the
  repository's: it is a parameter \<open>lower\<close> of the model, a function on texts about which
  nothing is assumed. The length of a text is the length of its list, which is the number of
  its characters for an ASCII text. A value that may be \<open>undefined\<close> or \<open>null\<close> is an
  \<open>option\<close>. A number is a \<open>jsnum\<close>: \<open>NaN\<close>, an infinity, or an exact rational; the rounding
  of IEEE doubles is outside the model (every number in the examples below is an integer far
  below \<open>2^53\<close>, where doubles are exact).
\<close>

datatype jsnum = NaN | Fin rat | Inf bool

fun num_truthy :: "jsnum \<Rightarrow> bool" where
  "num_truthy NaN = False"
| "num_truthy (Fin r) = (r \<noteq> 0)"
| "num_truthy (Inf b) = True"

fun jmul :: "jsnum \<Rightarrow> jsnum \<Rightarrow> jsnum" where
  "jmul NaN y = NaN"
| "jmul x NaN = NaN"
| "jmul (Fin a) (Fin b) = Fin (a * b)"
| "jmul (Fin a) (Inf s) = (if a = 0 then NaN else Inf (if 0 < a then s else \<not> s))"
| "jmul (Inf s) (Fin b) = (if b = 0 then NaN else Inf (if 0 < b then s else \<not> s))"
| "jmul (Inf s) (Inf t) = Inf (s = t)"

fun jadd :: "jsnum \<Rightarrow> jsnum \<Rightarrow> jsnum" where
  "jadd NaN y = NaN"
| "jadd x NaN = NaN"
| "jadd (Fin a) (Fin b) = Fin (a + b)"
| "jadd (Fin a) (Inf s) = Inf s"
| "jadd (Inf s) (Fin b) = Inf s"
| "jadd (Inf s) (Inf t) = (if s = t then Inf s else NaN)"

fun jhalf :: "jsnum \<Rightarrow> jsnum" where
  "jhalf NaN = NaN"
| "jhalf (Fin a) = Fin (a / 2)"
| "jhalf (Inf s) = Inf s"

definition str_truthy :: "string option \<Rightarrow> bool" where
  "str_truthy v = (case v of None \<Rightarrow> False | Some s \<Rightarrow> s \<noteq> [])"

definition str_or :: "string option \<Rightarrow> string option \<Rightarrow> string option" where
  "str_or a b = (if str_truthy a then a else b)"

type_synonym case_fold = "string \<Rightarrow> string"

fun startsWith :: "string \<Rightarrow> string \<Rightarrow> bool" where
  "startsWith s [] = True"
| "startsWith [] (k # ks) = False"
| "startsWith (c # s) (k # ks) = (c = k \<and> startsWith s ks)"

fun str_includes :: "string \<Rightarrow> string \<Rightarrow> bool" where
  "str_includes [] k = (k = [])"
| "str_includes (c # s) k = (startsWith (c # s) k \<or> str_includes s k)"

subsection \<open>White space\<close>

text \<open>
  White space is what the white-space class of JavaScript's regular expressions, \<open>trim\<close>
  and the number parsers take for it: six ASCII characters (\<open>is_space\<close>) and, in a text
  that is not ASCII, the characters U+00A0 (\<open>space2\<close>, two bytes in UTF-8) and U+1680,
  U+2000 to U+200A, U+2028, U+2029, U+202F, U+205F, U+3000 and U+FEFF (\<open>space3\<close>, three
  bytes). \<open>remove_spaces\<close> deletes every white-space character of a text, as the
  \<open>replace\<close> of \<open>cleanNumber\<close> does; \<open>drop_spaces\<close> skips the white space at the head
  of a text, \<open>drop_spaces_rev\<close> does so for a text read backwards, and \<open>collapse\<close>
  replaces every run of white space by one space (its flag says that the character before was
  white space).
\<close>

definition is_space :: "char \<Rightarrow> bool" where
  "is_space c = (c \<in> set [CHR '' '', CHR 0x09, CHR 0x0A, CHR 0x0B, CHR 0x0C, CHR 0x0D])"

definition space2 :: "char \<Rightarrow> char \<Rightarrow> bool" where
  "space2 a b = (a = CHR 0xC2 \<and> b = CHR 0xA0)"

definition space3 :: "char \<Rightarrow> char \<Rightarrow> char \<Rightarrow> bool" where
  "space3 a b c =
     ((a = CHR 0xE1 \<and> b = CHR 0x9A \<and> c = CHR 0x80)
      \<or> (a = CHR 0xE2 \<and> b = CHR 0x80
          \<and> c \<in> set [CHR 0x80, CHR 0x81, CHR 0x82, CHR 0x83, CHR 0x84, CHR 0x85, CHR 0x86,
                      CHR 0x87, CHR 0x88, CHR 0x89, CHR 0x8A, CHR 0xA8, CHR 0xA9, CHR 0xAF])
      \<or> (a = CHR 0xE2 \<and> b = CHR 0x81 \<and> c = CHR 0x9F)
      \<or> (a = CHR 0xE3 \<and> b = CHR 0x80 \<and> c = CHR 0x80)
      \<or> (a = CHR 0xEF \<and> b = CHR 0xBB \<and> c = CHR 0xBF))"

fun remove_spaces :: "string \<Rightarrow> string" where
  "remove_spaces (a # b # c # s) =
     (if is_space a then remove_spaces (b # c # s)
      else if space2 a b then remove_spaces (c # s)
      else if space3 a b c then remove_spaces s
      else a # remove_spaces (b # c # s))"
| "remove_spaces [a, b] =
     (if is_space a then remove_spaces [b] else if space2 a b then [] else a # remove_spaces [b])"
| "remove_spaces [a] = (if is_space a then [] else [a])"
| "remove_spaces [] = []"

fun drop_spaces :: "string \<Rightarrow> string" where
  "drop_spaces (a # b # c # s) =
     (if is_space a then drop_spaces (b # c # s)
      else if space2 a b then drop_spaces (c # s)
      else if space3 a b c then drop_spaces s
      else a # b # c # s)"
| "drop_spaces [a, b] =
     (if is_space a then drop_spaces [b] else if space2 a b then [] else [a, b])"
| "drop_spaces [a] = (if is_space a then [] else [a])"
| "drop_spaces [] = []"

fun drop_spaces_rev :: "string \<Rightarrow> string" where
  "drop_spaces_rev (a # b # c # s) =
     (if is_space a then drop_spaces_rev (b # c # s)
      else if space2 b a then drop_spaces_rev (c # s)
      else if space3 c b a then drop_spaces_rev s
      else a # b # c # s)"
| "drop_spaces_rev [a, b] =
     (if is_space a then drop_spaces_rev [b] else if space2 b a then [] else [a, b])"
| "drop_spaces_rev [a] = (if is_space a then [] else [a])"
| "drop_spaces_rev [] = []"

fun collapse :: "bool \<Rightarrow> string \<Rightarrow> string" where
  "collapse inSpace (a # b # c # s) =
     (if is_space a then (if inSpace then [] else '' '') @ collapse True (b # c # s)
      else if space2 a b then (if inSpace then [] else '' '') @ collapse True (c # s)
      else if space3 a b c then (if inSpace then [] else '' '') @ collapse True s
      else a # collapse False (b # c # s))"
| "collapse inSpace [a, b] =
     (if is_space a then (if inSpace then [] else '' '') @ collapse True [b]
      else if space2 a b then (if inSpace then [] else '' '')
      else a # collapse False [b])"
| "collapse inSpace [a] = (if is_space a then (if inSpace then [] else '' '') else [a])"
| "collapse inSpace [] = []"

definition digit_chars :: string where
  "digit_chars = ''0123456789''"

definition is_digit :: "char \<Rightarrow> bool" where
  "is_digit c = (c \<in> set digit_chars)"

definition digit_val :: "char \<Rightarrow> nat" where
  "digit_val c =
     (case map_of (zip digit_chars [0, 1, 2, 3, 4, 5, 6, 7, 8, 9]) c of Some d \<Rightarrow> d | None \<Rightarrow> 0)"

definition digits_val :: "string \<Rightarrow> nat" where
  "digits_val ds = foldl (\<lambda>acc c. 10 * acc + digit_val c) 0 ds"

subsection \<open>Objects used as dictionaries\<close>

text \<open>
  An object used as a dictionary (a YAML mapping, an object literal) is the association list
  of its own properties, each key once, in the order they were written. It is an ordinary
  object, so reading a property \<open>obj[key]\<close> finds the own property of that name or else, when
  the key names a member of \<open>Object.prototype\<close>, that inherited member: a function (the
  object \<open>Object.prototype\<close> itself for \<open>__proto__\<close>), which is truthy and is neither a
  string nor a number. A value read from a dictionary is therefore a \<open>jsv\<close>: \<open>Val v\<close> for an
  own value, \<open>Proto name\<close> for the inherited member of that name; \<open>None\<close> is \<open>undefined\<close>.
\<close>

datatype 'a jsv = Val 'a | Proto string

definition object_prototype :: "string list" where
  "object_prototype =
     [''constructor'', ''__defineGetter__'', ''__defineSetter__'', ''hasOwnProperty'',
      ''__lookupGetter__'', ''__lookupSetter__'', ''isPrototypeOf'', ''propertyIsEnumerable'',
      ''toString'', ''valueOf'', ''__proto__'', ''toLocaleString'']"

definition js_get :: "(string \<times> 'a) list \<Rightarrow> string \<Rightarrow> 'a jsv option" where
  "js_get obj key =
     (case map_of obj key of
        Some v \<Rightarrow> Some (Val v)
      | None \<Rightarrow> (if key \<in> set object_prototype then Some (Proto key) else None))"

definition text_truthy :: "string jsv option \<Rightarrow> bool" where
  "text_truthy v = (case v of None \<Rightarrow> False | Some (Val s) \<Rightarrow> s \<noteq> [] | Some (Proto m) \<Rightarrow> True)"

definition id_truthy :: "nat jsv option \<Rightarrow> bool" where
  "id_truthy v = (case v of None \<Rightarrow> False | Some (Val n) \<Rightarrow> n \<noteq> 0 | Some (Proto m) \<Rightarrow> True)"

text \<open>
  \<open>Object.entries\<close> walks the own properties only: first the keys that are array indices
  (canonical decimal numerals below \<open>2^32 - 1\<close>, which is 4294967295) in ascending numeric
  order, then the other keys in the order they were written. Two canonical numerals compare
  as their numbers do when the shorter one, or of two of the same length the one that is
  smaller digit by digit, counts as the smaller.
\<close>

fun digits_less :: "string \<Rightarrow> string \<Rightarrow> bool" where
  "digits_less (x # xs) (y # ys) =
     (digit_val x < digit_val y \<or> (digit_val x = digit_val y \<and> digits_less xs ys))"
| "digits_less xs ys = False"

definition index_less :: "string \<Rightarrow> string \<Rightarrow> bool" where
  "index_less a b = (length a < length b \<or> (length a = length b \<and> digits_less a b))"

definition is_index :: "string \<Rightarrow> bool" where
  "is_index k =
     (k \<noteq> [] \<and> list_all is_digit k \<and> (k = ''0'' \<or> hd k \<noteq> CHR ''0'')
      \<and> index_less k ''4294967295'')"

fun insert_entry :: "string \<times> 'a \<Rightarrow> (string \<times> 'a) list \<Rightarrow> (string \<times> 'a) list" where
  "insert_entry kv [] = [kv]"
| "insert_entry kv (x # xs) =
     (if index_less (fst kv) (fst x) then kv # x # xs else x # insert_entry kv xs)"

definition entries :: "(string \<times> 'a) list \<Rightarrow> (string \<times> 'a) list" where
  "entries obj =
     foldr insert_entry (filter (\<lambda>kv. is_index (fst kv)) obj) []
     @ filter (\<lambda>kv. \<not> is_index (fst kv)) obj"

text \<open>
  \<open>parseFloat\<close>: leading white space is skipped, then the longest prefix that is a decimal
  literal (sign, digits, fraction, exponent) or \<open>Infinity\<close> is read; with no such prefix the
  result is \<open>NaN\<close>.
\<close>

definition split_sign :: "string \<Rightarrow> bool \<times> string" where
  "split_sign s =
     (case s of
        c # r \<Rightarrow> (if c = CHR ''-'' then (True, r) else if c = CHR ''+'' then (False, r) else (False, s))
      | [] \<Rightarrow> (False, s))"

definition exponent_of :: "string \<Rightarrow> int" where
  "exponent_of s =
     (case s of
        [] \<Rightarrow> 0
      | c # r \<Rightarrow>
          (if c = CHR ''e'' \<or> c = CHR ''E'' then
             (let (neg, t) = split_sign r; ds = takeWhile is_digit t
              in if ds = [] then 0 else (if neg then - int (digits_val ds) else int (digits_val ds)))
           else 0))"

definition parseFloat :: "string \<Rightarrow> jsnum" where
  "parseFloat s =
     (let (neg, s2) = split_sign (drop_spaces s)
      in if startsWith s2 ''Infinity'' then Inf (\<not> neg)
         else
           (let ip = takeWhile is_digit s2;
                r1 = dropWhile is_digit s2;
                fp = (case r1 of c # t \<Rightarrow> (if c = CHR ''.'' then takeWhile is_digit t else []) | [] \<Rightarrow> []);
                r2 = (case r1 of c # t \<Rightarrow> (if c = CHR ''.'' then dropWhile is_digit t else r1) | [] \<Rightarrow> [])
            in if ip = [] \<and> fp = [] then NaN
               else
                 (let m = of_nat (digits_val ip) + of_nat (digits_val fp) / 10 ^ length fp;
                      v = m * 10 powi (exponent_of r2)
                  in Fin (if neg then - v else v))))"

section \<open>The regular-expression engine\<close>

text \<open>
  \<open>new RegExp(source, 'i')\<close> followed by \<open>text.match(regex)\<close> (or \<open>regex.test(text)\<close>) is the
  JavaScript engine's work, not the repository's. It is a parameter \<open>rx\<close> of the model: for a
  pattern source and a text it answers that the source does not compile (the constructor
  throws a SyntaxError), that the text does not match, or the match array (element 0 the whole
  match, then the capture groups, \<open>None\<close> for a group that took no part).
\<close>

datatype rx_result = RxInvalid | RxNoMatch | RxMatch "string option list"

type_synonym regex_engine = "string \<Rightarrow> string \<Rightarrow> rx_result"

definition is_match :: "rx_result \<Rightarrow> bool" where
  "is_match r = (case r of RxMatch m \<Rightarrow> True | RxNoMatch \<Rightarrow> False | RxInvalid \<Rightarrow> False)"

definition match_group :: "string option list \<Rightarrow> nat option \<Rightarrow> string option" where
  "match_group m i = (case i of None \<Rightarrow> None | Some n \<Rightarrow> (if n < length m then m ! n else None))"

section \<open>Salary parser (utils/salary\_parser.js)\<close>

record salary_pattern =
  sp_regex :: string
  sp_type :: string
  sp_multiplier :: "jsnum option"
  sp_currency :: "string option"
  sp_currency_group :: "nat option"
  sp_min_group :: "nat option"
  sp_max_group :: "nat option"
  sp_value_group :: "nat option"

record ai_fallback =
  af_enabled :: bool
  af_prompt :: "string option"

record salary_config =
  sc_method :: "string option"
  sc_patterns :: "salary_pattern list"
  sc_default_currency :: "string option"
  sc_ai_fallback :: "ai_fallback option"

record salary_info =
  s_min :: "jsnum option"
  s_max :: "jsnum option"
  s_average :: "jsnum option"
  s_currency :: "string option"
  s_type :: string

definition cleanNumber :: "string option \<Rightarrow> jsnum" where
  "cleanNumber str =
     (if \<not> str_truthy str then Fin 0
      else parseFloat (remove_spaces (filter (\<lambda>c. c \<noteq> CHR '','') (the str))))"

definition pattern_multiplier :: "salary_pattern \<Rightarrow> jsnum" where
  "pattern_multiplier p =
     (case sp_multiplier p of None \<Rightarrow> Fin 1 | Some k \<Rightarrow> (if num_truthy k then k else Fin 1))"

definition pattern_currency :: "string option list \<Rightarrow> salary_pattern \<Rightarrow> salary_config \<Rightarrow> string option" where
  "pattern_currency m p cfg =
     str_or (sp_currency p) (str_or (match_group m (sp_currency_group p)) (sc_default_currency cfg))"

definition extractSalaryFromMatch ::
  "string option list \<Rightarrow> salary_pattern \<Rightarrow> salary_config \<Rightarrow> salary_info option" where
  "extractSalaryFromMatch m p cfg =
     (let multiplier = pattern_multiplier p;
          currency = pattern_currency m p cfg
      in if sp_type p = ''range'' then
           (let mn = jmul (cleanNumber (match_group m (sp_min_group p))) multiplier;
                mx = jmul (cleanNumber (match_group m (sp_max_group p))) multiplier
            in Some \<lparr>s_min = Some mn, s_max = Some mx, s_average = Some (jhalf (jadd mn mx)),
                     s_currency = currency, s_type = ''range''\<rparr>)
         else if sp_type p = ''min'' then
           (let minVal = jmul (cleanNumber (match_group m (sp_value_group p))) multiplier
            in Some \<lparr>s_min = Some minVal, s_max = None, s_average = Some minVal,
                     s_currency = currency, s_type = ''min''\<rparr>)
         else if sp_type p = ''max'' then
           (let maxVal = jmul (cleanNumber (match_group m (sp_value_group p))) multiplier
            in Some \<lparr>s_min = None, s_max = Some maxVal, s_average = Some maxVal,
                     s_currency = currency, s_type = ''max''\<rparr>)
         else if sp_type p = ''exact'' then
           (let exact = jmul (cleanNumber (match_group m (sp_value_group p))) multiplier
            in Some \<lparr>s_min = Some exact, s_max = Some exact, s_average = Some exact,
                     s_currency = currency, s_type = ''exact''\<rparr>)
         else if sp_type p = ''negotiable'' then
           Some \<lparr>s_min = None, s_max = None, s_average = None,
                 s_currency = sc_default_currency cfg, s_type = ''negotiable''\<rparr>
         else None)"

text \<open>
  The loop of \<open>parseManual\<close>: a pattern whose source does not compile is logged and skipped
  (the \<open>catch\<close>), one that does not match is skipped, and the first one that matches ends the
  loop with whatever \<open>extractSalaryFromMatch\<close> returns.
\<close>

fun parseManual_patterns ::
  "regex_engine \<Rightarrow> string \<Rightarrow> salary_config \<Rightarrow> salary_pattern list \<Rightarrow> salary_info option" where
  "parseManual_patterns rx salaryText cfg [] = None"
| "parseManual_patterns rx salaryText cfg (p # ps) =
     (case rx (sp_regex p) salaryText of
        RxMatch m \<Rightarrow> extractSalaryFromMatch m p cfg
      | RxNoMatch \<Rightarrow> parseManual_patterns rx salaryText cfg ps
      | RxInvalid \<Rightarrow> parseManual_patterns rx salaryText cfg ps)"

definition parseManual :: "regex_engine \<Rightarrow> string \<Rightarrow> salary_config option \<Rightarrow> salary_info option" where
  "parseManual rx salaryText salaryConfig =
     (case salaryConfig of
        None \<Rightarrow> None
      | Some cfg \<Rightarrow> parseManual_patterns rx salaryText cfg (sc_patterns cfg))"

text \<open>
  \<open>parseSalary\<close> is a synchronous function, and \<open>parseWithAI\<close> is \<open>async\<close>: when the AI branch
  is taken the caller receives the promise object itself, which \<open>transformJob\<close> never awaits.
  The promise is the value \<open>SalaryPromise\<close>; reading \<open>average\<close> or \<open>currency\<close> from it gives
  \<open>undefined\<close>.
\<close>

datatype salary_result = SalaryNull | SalaryInfo salary_info | SalaryPromise

definition config_method :: "string option \<Rightarrow> string" where
  "config_method m = (if str_truthy m then the m else ''manual'')"

definition fallback_enabled :: "ai_fallback option \<Rightarrow> bool" where
  "fallback_enabled f = (case f of None \<Rightarrow> False | Some a \<Rightarrow> af_enabled a)"

definition parseSalary :: "regex_engine \<Rightarrow> string option \<Rightarrow> salary_config option \<Rightarrow> salary_result" where
  "parseSalary rx salaryText salaryConfig =
     (if \<not> str_truthy salaryText then SalaryNull
      else
        (let method = config_method (case salaryConfig of None \<Rightarrow> None | Some c \<Rightarrow> sc_method c);
             manualResult =
               (if method = ''manual'' \<or> method = ''ai''
                then parseManual rx (the salaryText) salaryConfig else None)
         in case manualResult of
              Some info \<Rightarrow> SalaryInfo info
            | None \<Rightarrow>
                (if fallback_enabled (case salaryConfig of None \<Rightarrow> None | Some c \<Rightarrow> sc_ai_fallback c)
                    \<and> method = ''ai''
                 then SalaryPromise else SalaryNull)))"

section \<open>The AI adapter\<close>

text \<open>
  \<open>aiProcessor.process(prompt, text)\<close> calls an external service and never throws: every
  failure (disabled, no key, daily limit, network error) is the value \<open>null\<close>. It is a
  parameter \<open>ai\<close> of the model. Its answer is \<open>null\<close>, a text, or a parsed JSON object, of
  which the model keeps the one property the processor reads, \<open>cleaned_description\<close>.
\<close>

datatype ai_value = AiNull | AiText string | AiObject "string option"

type_synonym ai_adapter = "string option \<Rightarrow> string \<Rightarrow> ai_value"

section \<open>Experience mapper (utils/experience\_mapper.js)\<close>

record experience_config =
  ec_method :: "string option"
  ec_mappings :: "(string \<times> string) list"
  ec_default :: "string option"
  ec_ai_fallback :: "ai_fallback option"

definition referenceMap :: "(string \<times> nat) list" where
  "referenceMap =
     [(''Internship'', 1), (''Entry'', 2), (''Mid'', 3), (''Senior'', 4), (''Lead'', 5),
      (''Executive'', 6)]"

definition experience_default :: "experience_config option \<Rightarrow> string option" where
  "experience_default cfg =
     str_or (case cfg of None \<Rightarrow> None | Some c \<Rightarrow> ec_default c) (Some ''Entry'')"

definition partial_match :: "case_fold \<Rightarrow> string \<Rightarrow> string \<times> string \<Rightarrow> bool" where
  "partial_match lower lowerText kv =
     (str_includes lowerText (lower (fst kv)) \<or> str_includes (lower (fst kv)) lowerText)"

text \<open>
  \<open>mapManual\<close>: the direct match reads \<open>mappings[experienceText]\<close> on an ordinary object, so a
  text that names a member of \<open>Object.prototype\<close> is a direct hit and that member is returned.
  The loop over \<open>Object.entries(mappings)\<close> returns the value of the first entry whose key
  contains the text or is contained in it, both in lower case.
\<close>

definition mapManual ::
  "case_fold \<Rightarrow> string \<Rightarrow> experience_config option \<Rightarrow> string jsv option" where
  "mapManual lower experienceText experienceConfig =
     (let mappings = (case experienceConfig of None \<Rightarrow> [] | Some c \<Rightarrow> ec_mappings c)
      in if text_truthy (js_get mappings experienceText) then js_get mappings experienceText
         else map_option (\<lambda>kv. Val (snd kv))
                (find (partial_match lower (lower experienceText)) (entries mappings)))"

text \<open>
  \<open>mapWithAI\<close> returns the adapter's answer when \<open>this.referenceMap[result]\<close> is truthy, which
  it is for the six level names and for the names of the members of \<open>Object.prototype\<close>.
\<close>

definition mapWithAI :: "ai_adapter \<Rightarrow> string \<Rightarrow> string option \<Rightarrow> string option" where
  "mapWithAI ai experienceText prompt =
     (case ai prompt experienceText of
        AiText r \<Rightarrow> (if id_truthy (js_get referenceMap r) then Some r else None)
      | AiNull \<Rightarrow> None
      | AiObject d \<Rightarrow> None)"

definition mapExperience ::
  "ai_adapter \<Rightarrow> case_fold \<Rightarrow> string option \<Rightarrow> experience_config option \<Rightarrow> string jsv option" where
  "mapExperience ai lower experienceText cfg =
     (if \<not> str_truthy experienceText then map_option Val (experience_default cfg)
      else
        (let method = config_method (case cfg of None \<Rightarrow> None | Some c \<Rightarrow> ec_method c);
             manualResult =
               (if method = ''manual'' \<or> method = ''ai''
                then mapManual lower (the experienceText) cfg else None)
         in if text_truthy manualResult then manualResult
            else
              (let fb = (case cfg of None \<Rightarrow> None | Some c \<Rightarrow> ec_ai_fallback c);
                   aiResult =
                     (if fallback_enabled fb
                      then mapWithAI ai (the experienceText) (af_prompt (the fb)) else None)
               in if str_truthy aiResult then map_option Val aiResult
                  else map_option Val (experience_default cfg))))"

text \<open>
  \<open>getExperienceLevelId\<close> is \<open>this.referenceMap[experienceName] || 2\<close>. A name is looked up
  as it is. A value that is no string is first converted to one: \<open>undefined\<close> to the text
  \<open>undefined\<close>, a member of \<open>Object.prototype\<close> to the source text of the function (to
  \<open>[object Object]\<close> for \<open>__proto__\<close>); none of these names a property, so the result is 2.
\<close>

definition getExperienceLevelId :: "string jsv option \<Rightarrow> nat jsv" where
  "getExperienceLevelId experienceName =
     (case experienceName of
        None \<Rightarrow> Val 2
      | Some (Val n) \<Rightarrow>
          (if id_truthy (js_get referenceMap n) then the (js_get referenceMap n) else Val 2)
      | Some (Proto m) \<Rightarrow> Val 2)"

section \<open>Location normalizer (utils/location\_normalizer.js)\<close>

datatype js_error = TypeError | SyntaxError | RangeError

record country_pattern =
  cp_regex :: string
  cp_code :: "string option"

record location_config =
  lc_method :: "string option"
  lc_city_mappings :: "(string \<times> string) list"
  lc_country_patterns :: "country_pattern list"
  lc_remote_keywords :: "string list"
  lc_hybrid_keywords :: "string list"
  lc_default_country :: "string option"
  lc_ai_fallback :: "ai_fallback option"

record location_info =
  l_city :: "string option"
  l_country :: "string option"
  l_isRemote :: bool
  l_isHybrid :: "bool option"

definition keyword_hit :: "case_fold \<Rightarrow> string \<Rightarrow> string list \<Rightarrow> bool" where
  "keyword_hit lower locationText keywords =
     list_ex (\<lambda>keyword. str_includes (lower locationText) (lower keyword)) keywords"

definition map_city :: "string \<Rightarrow> (string \<times> string) list \<Rightarrow> string" where
  "map_city locationText cityMappings =
     (case find (\<lambda>kv. str_includes locationText (fst kv)) (entries cityMappings) of
        Some kv \<Rightarrow> snd kv
      | None \<Rightarrow> locationText)"

text \<open>
  The country loop builds each \<open>RegExp\<close> outside any \<open>try\<close>: a pattern that does not compile
  throws out of \<open>normalizeManual\<close>.
\<close>

fun detect_country ::
  "regex_engine \<Rightarrow> string \<Rightarrow> string option \<Rightarrow> country_pattern list \<Rightarrow> js_error + string option" where
  "detect_country rx locationText countryCode [] = Inr countryCode"
| "detect_country rx locationText countryCode (p # ps) =
     (case rx (cp_regex p) locationText of
        RxInvalid \<Rightarrow> Inl SyntaxError
      | RxMatch m \<Rightarrow> Inr (cp_code p)
      | RxNoMatch \<Rightarrow> detect_country rx locationText countryCode ps)"

text \<open>
  The lists are read with \<open>locationConfig?.\<close>, but the default country is read as
  \<open>locationConfig.default_country\<close>: with no location section the function throws a TypeError.
\<close>

definition normalizeManual ::
  "regex_engine \<Rightarrow> case_fold \<Rightarrow> string \<Rightarrow> location_config option \<Rightarrow> js_error + location_info" where
  "normalizeManual rx lower locationText locationConfig =
     (case locationConfig of
        None \<Rightarrow> Inl TypeError
      | Some cfg \<Rightarrow>
          (let isRemote = keyword_hit lower locationText (lc_remote_keywords cfg);
               isHybrid = keyword_hit lower locationText (lc_hybrid_keywords cfg);
               city = map_city locationText (lc_city_mappings cfg)
           in case detect_country rx locationText (str_or (lc_default_country cfg) (Some ''VNM''))
                     (lc_country_patterns cfg) of
                Inl e \<Rightarrow> Inl e
              | Inr countryCode \<Rightarrow>
                  Inr \<lparr>l_city = (if isRemote then Some ''Remote'' else Some city),
                       l_country = countryCode, l_isRemote = isRemote,
                       l_isHybrid = Some isHybrid\<rparr>))"

datatype location_result = LocationInfo location_info | LocationPromise

definition default_country :: "location_config option \<Rightarrow> string option" where
  "default_country cfg =
     str_or (case cfg of None \<Rightarrow> None | Some c \<Rightarrow> lc_default_country c) (Some ''VNM'')"

definition normalizeLocation ::
  "regex_engine \<Rightarrow> case_fold \<Rightarrow> string option \<Rightarrow> location_config option
     \<Rightarrow> js_error + location_result" where
  "normalizeLocation rx lower locationText cfg =
     (if \<not> str_truthy locationText then
        Inr (LocationInfo \<lparr>l_city = None, l_country = default_country cfg, l_isRemote = False,
                            l_isHybrid = None\<rparr>)
      else
        (let method = config_method (case cfg of None \<Rightarrow> None | Some c \<Rightarrow> lc_method c)
         in if method = ''manual'' \<or> method = ''ai'' then
              (case normalizeManual rx lower (the locationText) cfg of
                 Inl e \<Rightarrow> Inl e
               | Inr info \<Rightarrow> Inr (LocationInfo info))
            else if fallback_enabled (case cfg of None \<Rightarrow> None | Some c \<Rightarrow> lc_ai_fallback c) then
              Inr LocationPromise
            else
              Inr (LocationInfo \<lparr>l_city = locationText, l_country = default_country cfg,
                                  l_isRemote = False, l_isHybrid = None\<rparr>)))"

section \<open>Date parser (utils/date\_parser.js)\<close>

text \<open>
  The clock and the calendar are JavaScript's \<open>Date\<close>. They are the parameter \<open>clock\<close>:
  \<open>ck_today\<close> is \<open>new Date().toISOString().split('T')[0]\<close>; \<open>ck_days_ago n\<close> and
  \<open>ck_months_ago n\<close> are the same after \<open>setDate(getDate() - n)\<close> and
  \<open>setMonth(getMonth() - n)\<close>, \<open>None\<close> when the date left the representable range (then
  \<open>toISOString\<close> throws a RangeError); \<open>ck_parse text\<close> is the date part of
  \<open>new Date(text)\<close>, \<open>None\<close> for an invalid date.
\<close>

record clock =
  ck_today :: string
  ck_days_ago :: "int \<Rightarrow> string option"
  ck_months_ago :: "int \<Rightarrow> string option"
  ck_parse :: "string \<Rightarrow> string option"

record relative_pattern =
  rp_regex :: string
  rp_unit :: "string option"

record date_config =
  dc_method :: "string option"
  dc_relative :: "relative_pattern list"
  dc_formats :: "string list"
  dc_ai_fallback :: "ai_fallback option"

definition hex_chars :: string where
  "hex_chars = ''0123456789abcdefABCDEF''"

definition hex_val :: "char \<Rightarrow> nat" where
  "hex_val c =
     (case map_of (zip hex_chars
             [0, 1, 2, 3, 4, 5, 6, 7, 8, 9, 10, 11, 12, 13, 14, 15, 10, 11, 12, 13, 14, 15]) c of
        Some d \<Rightarrow> d
      | None \<Rightarrow> 0)"

text \<open>\<open>parseInt\<close> with no radix: white space, a sign, then hexadecimal after \<open>0x\<close>, decimal
  otherwise; \<open>None\<close> is \<open>NaN\<close>.\<close>

definition parseInt :: "string option \<Rightarrow> int option" where
  "parseInt v =
     (case v of
        None \<Rightarrow> None
      | Some s \<Rightarrow>
          (let (neg, t) = split_sign (drop_spaces s);
               hex = (startsWith t ''0x'' \<or> startsWith t ''0X'');
               ds = (if hex then takeWhile (\<lambda>c. c \<in> set hex_chars) (drop 2 t)
                     else takeWhile is_digit t);
               n = (if hex then foldl (\<lambda>acc c. 16 * acc + hex_val c) 0 ds else digits_val ds)
           in if ds = [] then None else Some (if neg then - int n else int n)))"

definition calculateRelativeDate ::
  "clock \<Rightarrow> string option \<Rightarrow> string option \<Rightarrow> js_error + string option" where
  "calculateRelativeDate ck v unit =
     (let amount = parseInt v;
          shifted =
            (if unit = Some ''days'' then Some (\<lambda>n. ck_days_ago ck n)
             else if unit = Some ''weeks'' then Some (\<lambda>n. ck_days_ago ck (n * 7))
             else if unit = Some ''months'' then Some (\<lambda>n. ck_months_ago ck n)
             else None)
      in case shifted of
           None \<Rightarrow> Inr None
         | Some f \<Rightarrow>
             (case amount of
                None \<Rightarrow> Inl RangeError
              | Some n \<Rightarrow> (case f n of None \<Rightarrow> Inl RangeError | Some d \<Rightarrow> Inr (Some d))))"

text \<open>
  The relative loop: \<open>None\<close> when the loop ran to its end, \<open>Some r\<close> when a pattern matched
  and the function returned \<open>r\<close> (which is \<open>null\<close> for an unknown unit). An exception inside
  the \<open>try\<close> (a pattern that does not compile, the RangeError of an invalid date) moves on to
  the next pattern.
\<close>

fun relative_loop ::
  "regex_engine \<Rightarrow> clock \<Rightarrow> string \<Rightarrow> relative_pattern list \<Rightarrow> string option option" where
  "relative_loop rx ck dateText [] = None"
| "relative_loop rx ck dateText (p # ps) =
     (case rx (rp_regex p) dateText of
        RxMatch m \<Rightarrow>
          (case calculateRelativeDate ck (match_group m (Some 1)) (rp_unit p) of
             Inl e \<Rightarrow> relative_loop rx ck dateText ps
           | Inr r \<Rightarrow> Some r)
      | RxNoMatch \<Rightarrow> relative_loop rx ck dateText ps
      | RxInvalid \<Rightarrow> relative_loop rx ck dateText ps)"

definition tryParseFormat :: "clock \<Rightarrow> string \<Rightarrow> string \<Rightarrow> string option" where
  "tryParseFormat ck dateText format = ck_parse ck dateText"

fun formats_loop :: "clock \<Rightarrow> string \<Rightarrow> string list \<Rightarrow> string option" where
  "formats_loop ck dateText [] = None"
| "formats_loop ck dateText (f # fs) =
     (let parsed = tryParseFormat ck dateText f
      in if str_truthy parsed then parsed else formats_loop ck dateText fs)"

definition date_parseManual ::
  "regex_engine \<Rightarrow> clock \<Rightarrow> string \<Rightarrow> date_config option \<Rightarrow> string option" where
  "date_parseManual rx ck dateText dateConfig =
     (case relative_loop rx ck dateText
             (case dateConfig of None \<Rightarrow> [] | Some c \<Rightarrow> dc_relative c) of
        Some r \<Rightarrow> r
      | None \<Rightarrow> formats_loop ck dateText (case dateConfig of None \<Rightarrow> [] | Some c \<Rightarrow> dc_formats c))"

datatype date_result = DateNull | DateText string | DatePromise

definition parseDate ::
  "regex_engine \<Rightarrow> clock \<Rightarrow> string option \<Rightarrow> date_config option \<Rightarrow> date_result" where
  "parseDate rx ck dateText cfg =
     (if \<not> str_truthy dateText then DateNull
      else
        (let method = config_method (case cfg of None \<Rightarrow> None | Some c \<Rightarrow> dc_method c);
             manualResult =
               (if method = ''manual'' \<or> method = ''ai''
                then date_parseManual rx ck (the dateText) cfg else None)
         in if str_truthy manualResult then DateText (the manualResult)
            else if fallback_enabled (case cfg of None \<Rightarrow> None | Some c \<Rightarrow> dc_ai_fallback c)
            then DatePromise
            else DateNull))"

section \<open>Base processor (processors/BaseProcessor.js)\<close>

record description_config =
  dsc_method :: "string option"
  dsc_ai_enabled :: bool
  dsc_ai_prompt :: "string option"

record source_config =
  cfg_platform_id :: "nat option"
  cfg_salary :: "salary_config option"
  cfg_experience_level :: "experience_config option"
  cfg_location :: "location_config option"
  cfg_date :: "date_config option"
  cfg_description :: "description_config option"

text \<open>The global configuration's reference tables (\<open>globalConfig.reference_tables\<close>).\<close>

record global_config =
  gc_currencies :: "(string \<times> nat) list"
  gc_platforms :: "(string \<times> nat) list"

text \<open>
  A row of the raw store as \<open>getUnprocessedJobs\<close> returns it. \<open>r_listed_time\<close> is the date
  text handed to the date parser; \<open>r_crawled_time\<close> is a timestamp, kept as a number.
\<close>

record raw_job =
  r_job_id :: string
  r_job_title :: string
  r_description :: "string option"
  r_salary :: "string option"
  r_experience_level :: "string option"
  r_location :: "string option"
  r_applies :: "int option"
  r_listed_time :: "string option"
  r_url :: string
  r_crawled_time :: nat
  r_company_name :: "string option"
  r_company_location :: "string option"
  r_company_url :: "string option"

record company_data =
  c_name :: "string option"
  c_location :: "string option"
  c_domain :: "string option"

datatype posted_date = PostedText string | PostedPromise

record clean_job =
  j_company :: company_data
  j_title :: string
  j_description :: "string option"
  j_salaryPerMonth :: "jsnum option"
  j_currencyId :: "nat jsv option"
  j_experienceLevelId :: "nat jsv"
  j_location :: "string option"
  j_countryCode :: "string option"
  j_applicantCount :: "int option"
  j_postedDate :: posted_date
  j_platformId :: "nat jsv option"
  j_postUrl :: string
  j_crawledTime :: nat
  j_rawJobId :: string

text \<open>
  What the processor takes from its runtime: the regular-expression engine, the case mapping
  of \<open>toLowerCase\<close>, the AI adapter, the clock, and \<open>new URL(url).hostname\<close> (\<open>None\<close> when the
  URL constructor throws).
\<close>

record runtime =
  rt_rx :: regex_engine
  rt_lower :: case_fold
  rt_ai :: ai_adapter
  rt_clock :: clock
  rt_hostname :: "string \<Rightarrow> string option"

record processor =
  pr_platformName :: string
  pr_config :: source_config

function strip_tags :: "string \<Rightarrow> string" where
  "strip_tags [] = []"
| "strip_tags (c # s) =
     (if c = CHR ''<'' \<and> CHR ''>'' \<in> set s
      then CHR '' '' # strip_tags (tl (dropWhile (\<lambda>d. d \<noteq> CHR ''>'') s))
      else c # strip_tags s)"
  by pat_completeness auto
termination
  by (relation "measure length")
    (auto simp: less_Suc_eq_le intro!: le_trans [OF diff_le_self length_dropWhile_le])

definition collapse_spaces :: "string \<Rightarrow> string" where
  "collapse_spaces s = collapse False s"

definition trim :: "string \<Rightarrow> string" where
  "trim s = rev (drop_spaces_rev (rev (drop_spaces s)))"

text \<open>\<open>substring(0, 10000)\<close> counts characters, which \<open>take\<close> does for an ASCII text.\<close>

definition simpleCleanHtml :: "string option \<Rightarrow> string option" where
  "simpleCleanHtml html =
     (if \<not> str_truthy html then None
      else Some (take 10000 (trim (collapse_spaces (strip_tags (the html))))))"

definition processDescription ::
  "ai_adapter \<Rightarrow> description_config option \<Rightarrow> string option \<Rightarrow> string option" where
  "processDescription ai descConfig descriptionText =
     (if \<not> str_truthy descriptionText then None
      else
        (let useAi = (case descConfig of None \<Rightarrow> False
                      | Some d \<Rightarrow> dsc_method d = Some ''ai'' \<and> dsc_ai_enabled d);
             prompt = str_or (case descConfig of None \<Rightarrow> None | Some d \<Rightarrow> dsc_ai_prompt d)
                        (Some ''Clean this job description, remove HTML, keep only relevant info: {text}'')
         in case (if useAi then ai prompt (the descriptionText) else AiNull) of
              AiObject cd \<Rightarrow> (if str_truthy cd then cd else simpleCleanHtml descriptionText)
            | AiText t \<Rightarrow> Some t
            | AiNull \<Rightarrow> simpleCleanHtml descriptionText))"

definition extractDomain :: "(string \<Rightarrow> string option) \<Rightarrow> string option \<Rightarrow> string option" where
  "extractDomain hostname url = (if \<not> str_truthy url then None else hostname (the url))"

definition getCurrencyId :: "string option \<Rightarrow> global_config \<Rightarrow> nat jsv option" where
  "getCurrencyId currency globalConfig =
     (let currencyMap = gc_currencies globalConfig;
          key = (case currency of None \<Rightarrow> ''undefined'' | Some c \<Rightarrow> c)
      in if id_truthy (js_get currencyMap key) then js_get currencyMap key
         else js_get currencyMap ''VND'')"

definition salary_average :: "salary_result \<Rightarrow> jsnum option" where
  "salary_average salaryInfo =
     (case salaryInfo of SalaryInfo i \<Rightarrow> s_average i | SalaryNull \<Rightarrow> None | SalaryPromise \<Rightarrow> None)"

definition salary_currency :: "salary_result \<Rightarrow> string option" where
  "salary_currency salaryInfo =
     (case salaryInfo of SalaryInfo i \<Rightarrow> s_currency i | SalaryNull \<Rightarrow> None | SalaryPromise \<Rightarrow> None)"

definition num_or_null :: "jsnum option \<Rightarrow> jsnum option" where
  "num_or_null v = (case v of None \<Rightarrow> None | Some x \<Rightarrow> (if num_truthy x then Some x else None))"

definition transformJob ::
  "runtime \<Rightarrow> processor \<Rightarrow> raw_job \<Rightarrow> global_config \<Rightarrow> js_error + clean_job" where
  "transformJob rt this rawJob globalConfig =
     (let config = pr_config this;
          salaryInfo = parseSalary (rt_rx rt) (r_salary rawJob) (cfg_salary config);
          experienceLevel =
            mapExperience (rt_ai rt) (rt_lower rt) (r_experience_level rawJob)
              (cfg_experience_level config);
          experienceLevelId = getExperienceLevelId experienceLevel
      in case normalizeLocation (rt_rx rt) (rt_lower rt) (r_location rawJob) (cfg_location config) of
           Inl e \<Rightarrow> Inl e
         | Inr locationInfo \<Rightarrow>
             (let postedDate =
                    (case parseDate (rt_rx rt) (rt_clock rt) (r_listed_time rawJob) (cfg_date config) of
                       DateText d \<Rightarrow> PostedText d
                     | DatePromise \<Rightarrow> PostedPromise
                     | DateNull \<Rightarrow> PostedText (ck_today (rt_clock rt)));
                  description =
                    processDescription (rt_ai rt) (cfg_description config) (r_description rawJob);
                  currencyId = getCurrencyId (salary_currency salaryInfo) globalConfig;
                  platformId =
                    (if id_truthy (js_get (gc_platforms globalConfig) (pr_platformName this))
                     then js_get (gc_platforms globalConfig) (pr_platformName this)
                     else map_option Val (cfg_platform_id config))
              in Inr \<lparr>j_company =
                         \<lparr>c_name = r_company_name rawJob, c_location = r_company_location rawJob,
                            c_domain = extractDomain (rt_hostname rt) (r_company_url rawJob)\<rparr>,
                       j_title = r_job_title rawJob,
                       j_description = description,
                       j_salaryPerMonth = num_or_null (salary_average salaryInfo),
                       j_currencyId = currencyId,
                       j_experienceLevelId = experienceLevelId,
                       j_location =
                         (case locationInfo of LocationInfo i \<Rightarrow> l_city i | LocationPromise \<Rightarrow> None),
                       j_countryCode =
                         (case locationInfo of LocationInfo i \<Rightarrow> l_country i | LocationPromise \<Rightarrow> None),
                       j_applicantCount =
                         (case r_applies rawJob of None \<Rightarrow> None
                          | Some n \<Rightarrow> (if n \<noteq> 0 then Some n else None)),
                       j_postedDate = postedDate,
                       j_platformId = platformId,
                       j_postUrl = r_url rawJob,
                       j_crawledTime = r_crawled_time rawJob,
                       j_rawJobId = r_job_id rawJob\<rparr>))"

text \<open>
  \<open>processJobs\<close>: every record is transformed inside its own \<open>try\<close>; an exception counts
  the record as failed, records it in the error list and leaves it out of the result. The base
  \<open>transformJob\<close> never returns \<open>null\<close>, and the five source processors only delegate to it,
  so the branch for a falsy result is not reached.
\<close>

record stats =
  st_processed :: nat
  st_success :: nat
  st_failed :: nat
  st_errors :: "(string \<times> string \<times> js_error) list"

definition empty_stats :: stats where
  "empty_stats = \<lparr>st_processed = 0, st_success = 0, st_failed = 0, st_errors = []\<rparr>"

fun processJobs_loop ::
  "runtime \<Rightarrow> processor \<Rightarrow> global_config \<Rightarrow> stats \<Rightarrow> clean_job list \<Rightarrow> raw_job list
     \<Rightarrow> clean_job list \<times> stats" where
  "processJobs_loop rt this g st acc [] = (acc, st)"
| "processJobs_loop rt this g st acc (rawJob # rest) =
     (case transformJob rt this rawJob g of
        Inr job \<Rightarrow>
          processJobs_loop rt this g
            (st\<lparr>st_processed := st_processed st + 1, st_success := st_success st + 1\<rparr>)
            (acc @ [job]) rest
      | Inl e \<Rightarrow>
          processJobs_loop rt this g
            (st\<lparr>st_processed := st_processed st + 1, st_failed := st_failed st + 1,
                st_errors := st_errors st @ [(r_job_id rawJob, r_job_title rawJob, e)]\<rparr>)
            acc rest)"

definition processJobs ::
  "runtime \<Rightarrow> processor \<Rightarrow> stats \<Rightarrow> raw_job list \<Rightarrow> global_config \<Rightarrow> clean_job list \<times> stats" where
  "processJobs rt this st rawJobs g = processJobs_loop rt this g st [] rawJobs"

text \<open>A raw record is transformed when \<open>transformJob\<close> returns a candidate for it.\<close>

definition transformed :: "runtime \<Rightarrow> processor \<Rightarrow> global_config \<Rightarrow> raw_job \<Rightarrow> bool" where
  "transformed rt this g rawJob =
     (case transformJob rt this rawJob g of Inl e \<Rightarrow> False | Inr job \<Rightarrow> True)"

section \<open>The two stores\<close>

text \<open>
  The stores are PostgreSQL databases; the model keeps their tables as lists of rows in
  insertion order and gives each statement of the database services its result on them.
  A generated UUID is the next number of a counter, and every id is truthy. Of the schema the
  model has the uniqueness of \<open>JobPost.PostUrl\<close>, the uniqueness of \<open>Company (Name, Domain)\<close>
  (which a null domain never violates), the \<open>NOT NULL\<close> columns and the foreign key from
  \<open>JobPost.CompanyId\<close> to \<open>Company\<close>. What PostgreSQL decides from the values of a row alone
  is a parameter, kept with the store: \<open>db_refuses row\<close> says that some value of the row
  cannot be stored in its column (a title of more than 500 characters, a location of more than
  255, a salary outside \<open>DECIMAL(10, 2)\<close>, a value that is no date or no integer),
  \<open>db_dangling row\<close> that its currency, experience level or platform is not in the reference
  table, \<open>db_refuses_company\<close> that a value of a company cannot be stored, and \<open>db_lower\<close> is
  SQL's \<open>LOWER\<close>. A statement that violates a constraint raises \<open>DbError\<close>. PostgreSQL finds
  a refused value or a null in a \<open>NOT NULL\<close> column before it looks for a conflict on
  \<open>PostUrl\<close>, and checks the foreign keys only of a row it has inserted. Connection failures
  are outside the model. Of a stored job post the model keeps the columns some statement
  reads.
\<close>

datatype db_error = DbError | RequiredField string

record company_row =
  co_id :: nat
  co_name :: string
  co_location :: "string option"
  co_domain :: "string option"

record job_row =
  jr_id :: nat
  jr_companyId :: nat
  jr_title :: string
  jr_platformId :: nat
  jr_postUrl :: string

text \<open>
  The values handed to an \<open>INSERT INTO JobPost\<close>: the four columns the statements of the
  model read, and the nine others.
\<close>

record job_columns =
  x_description :: "string option"
  x_salaryPerMonth :: "jsnum option"
  x_currencyId :: "nat jsv option"
  x_experienceLevelId :: "nat jsv option"
  x_location :: "string option"
  x_countryCode :: "string option"
  x_applicantCount :: "int option"
  x_postedDate :: "posted_date option"
  x_crawledTime :: "nat option"

record job_data =
  jd_companyId :: "nat option"
  jd_title :: "string option"
  jd_platformId :: "nat jsv option"
  jd_postUrl :: "string option"
  jd_columns :: job_columns

record clean_db =
  db_companies :: "company_row list"
  db_jobs :: "job_row list"
  db_next :: nat
  db_refuses :: "job_data \<Rightarrow> bool"
  db_dangling :: "job_data \<Rightarrow> bool"
  db_refuses_company :: "company_data \<Rightarrow> bool"
  db_lower :: "string \<Rightarrow> string"

record raw_row =
  rr_job :: raw_job
  rr_platform :: string
  rr_processed :: bool

text \<open>The platform id of a row as an integer; a member of \<open>Object.prototype\<close> is none.\<close>

definition platform_of :: "job_data \<Rightarrow> nat option" where
  "platform_of d =
     (case jd_platformId d of None \<Rightarrow> None | Some (Val n) \<Rightarrow> Some n | Some (Proto m) \<Rightarrow> None)"

text \<open>The errors PostgreSQL raises before it looks at the uniqueness of \<open>PostUrl\<close>.\<close>

definition job_rejected :: "clean_db \<Rightarrow> job_data \<Rightarrow> bool" where
  "job_rejected db d =
     (jd_companyId d = None \<or> jd_title d = None \<or> platform_of d = None \<or> jd_postUrl d = None
      \<or> db_refuses db d)"

definition company_known :: "clean_db \<Rightarrow> nat option \<Rightarrow> bool" where
  "company_known db companyId =
     (case companyId of
        None \<Rightarrow> False
      | Some c \<Rightarrow> list_ex (\<lambda>r. co_id r = c) (db_companies db))"

text \<open>The foreign keys, checked once the row is inserted.\<close>

definition fk_violated :: "clean_db \<Rightarrow> job_data \<Rightarrow> bool" where
  "fk_violated db d = (\<not> company_known db (jd_companyId d) \<or> db_dangling db d)"

definition new_job_row :: "clean_db \<Rightarrow> job_data \<Rightarrow> job_row" where
  "new_job_row db d =
     \<lparr>jr_id = db_next db, jr_companyId = the (jd_companyId d), jr_title = the (jd_title d),
      jr_platformId = the (platform_of d), jr_postUrl = the (jd_postUrl d)\<rparr>"

definition add_job :: "clean_db \<Rightarrow> job_data \<Rightarrow> clean_db" where
  "add_job db d = db\<lparr>db_jobs := db_jobs db @ [new_job_row db d], db_next := db_next db + 1\<rparr>"

text \<open>The URLs of the job posts of a clean store.\<close>

definition urls :: "clean_db \<Rightarrow> string set" where
  "urls db = jr_postUrl ` set (db_jobs db)"

subsection \<open>The orchestrator's database service (class DatabaseService)\<close>

text \<open>\<open>ORDER BY crawled_time ASC LIMIT n\<close>; rows with equal times keep their stored order.\<close>

definition getUnprocessedJobs :: "raw_row list \<Rightarrow> string \<Rightarrow> nat \<Rightarrow> raw_job list" where
  "getUnprocessedJobs raw platform limit =
     take limit
       (sort_key r_crawled_time
          (map rr_job (filter (\<lambda>r. \<not> rr_processed r \<and> rr_platform r = platform) raw)))"

definition markJobsProcessed :: "raw_row list \<Rightarrow> string list \<Rightarrow> raw_row list" where
  "markJobsProcessed raw jobIds =
     map (\<lambda>r. if r_job_id (rr_job r) \<in> set jobIds then r\<lparr>rr_processed := True\<rparr> else r) raw"

text \<open>\<open>INSERT INTO Company ... ON CONFLICT (Name, Domain) DO UPDATE SET Location ... RETURNING Id\<close>.\<close>

definition upsertCompany :: "clean_db \<Rightarrow> company_data \<Rightarrow> db_error + clean_db \<times> nat" where
  "upsertCompany db companyData =
     (case c_name companyData of
        None \<Rightarrow> Inl DbError
      | Some name \<Rightarrow>
          (if db_refuses_company db companyData then Inl DbError
           else
             (case find (\<lambda>r. co_name r = name \<and> c_domain companyData \<noteq> None
                               \<and> co_domain r = c_domain companyData) (db_companies db) of
                Some row \<Rightarrow>
                  Inr (db\<lparr>db_companies :=
                             map (\<lambda>r. if co_id r = co_id row
                                       then r\<lparr>co_location := c_location companyData\<rparr> else r)
                               (db_companies db)\<rparr>,
                       co_id row)
              | None \<Rightarrow>
                  Inr (db\<lparr>db_companies :=
                             db_companies db @
                               [\<lparr>co_id = db_next db, co_name = name,
                                 co_location = c_location companyData,
                                 co_domain = c_domain companyData\<rparr>],
                           db_next := db_next db + 1\<rparr>,
                       db_next db))))"

text \<open>
  \<open>INSERT INTO JobPost ... ON CONFLICT (PostUrl) DO NOTHING RETURNING Id\<close>, then
  \<open>result.rows[0]?.id\<close>: on a conflict no row is returned and the result is \<open>undefined\<close>.
\<close>

definition insertJobPost :: "clean_db \<Rightarrow> job_data \<Rightarrow> db_error + clean_db \<times> nat option" where
  "insertJobPost db jobData =
     (if job_rejected db jobData then Inl DbError
      else if list_ex (\<lambda>r. Some (jr_postUrl r) = jd_postUrl jobData) (db_jobs db) then Inr (db, None)
      else if fk_violated db jobData then Inl DbError
      else Inr (add_job db jobData, Some (db_next db)))"

subsection \<open>The function-style database module (createCompany, createJobPost)\<close>

definition findJobByUrl :: "clean_db \<Rightarrow> string option \<Rightarrow> nat option" where
  "findJobByUrl db url =
     map_option jr_id (find (\<lambda>r. Some (jr_postUrl r) = url) (db_jobs db))"

definition sql_trim :: "string \<Rightarrow> string" where
  "sql_trim s = rev (dropWhile (\<lambda>c. c = CHR '' '') (rev (dropWhile (\<lambda>c. c = CHR '' '') s)))"

definition title_key :: "clean_db \<Rightarrow> string \<Rightarrow> string" where
  "title_key db t = db_lower db (sql_trim t)"

text \<open>
  Both lookups catch every error of their query and answer \<open>null\<close>; a platform id that is no
  integer makes the second query fail, so it finds nothing.
\<close>

definition findJobByCompanyTitlePlatform ::
  "clean_db \<Rightarrow> nat option \<Rightarrow> string option \<Rightarrow> nat jsv option \<Rightarrow> nat option" where
  "findJobByCompanyTitlePlatform db companyId title platformId =
     map_option jr_id
       (find (\<lambda>r. Some (jr_companyId r) = companyId
                 \<and> map_option (title_key db) title = Some (title_key db (jr_title r))
                 \<and> Some (Val (jr_platformId r)) = platformId) (db_jobs db))"

record create_result =
  cr_created :: bool
  cr_jobId :: nat

definition createJobPost :: "clean_db \<Rightarrow> job_data \<Rightarrow> db_error + clean_db \<times> create_result" where
  "createJobPost db jobData =
     (case findJobByUrl db (jd_postUrl jobData) of
        Some existingJobId \<Rightarrow> Inr (db, \<lparr>cr_created = False, cr_jobId = existingJobId\<rparr>)
      | None \<Rightarrow>
          (case findJobByCompanyTitlePlatform db (jd_companyId jobData) (jd_title jobData)
                  (jd_platformId jobData) of
             Some existingJobId \<Rightarrow> Inr (db, \<lparr>cr_created = False, cr_jobId = existingJobId\<rparr>)
           | None \<Rightarrow>
               (if job_rejected db jobData \<or> fk_violated db jobData then Inl DbError
                else Inr (add_job db jobData, \<lparr>cr_created = True, cr_jobId = db_next db\<rparr>))))"

definition markJobsAsProcessed :: "raw_row list \<Rightarrow> string list \<Rightarrow> raw_row list" where
  "markJobsAsProcessed raw jobIds = (if jobIds = [] then raw else markJobsProcessed raw jobIds)"

section \<open>Orchestrator (index.js)\<close>

text \<open>
  The body of the loop over the sources in \<open>processAllPlatforms\<close>: fetch the batch, transform
  it, upsert the company and insert the job post of every transformed record inside a \<open>try\<close>
  of its own, collect the raw id of each record whose insert returned an id, and mark the
  collected ids with one update.
\<close>

definition job_data_of :: "nat \<Rightarrow> clean_job \<Rightarrow> job_data" where
  "job_data_of companyId job =
     \<lparr>jd_companyId = Some companyId, jd_title = Some (j_title job),
      jd_platformId = j_platformId job, jd_postUrl = Some (j_postUrl job),
      jd_columns =
        \<lparr>x_description = j_description job, x_salaryPerMonth = j_salaryPerMonth job,
         x_currencyId = j_currencyId job, x_experienceLevelId = Some (j_experienceLevelId job),
         x_location = j_location job, x_countryCode = j_countryCode job,
         x_applicantCount = j_applicantCount job, x_postedDate = Some (j_postedDate job),
         x_crawledTime = Some (j_crawledTime job)\<rparr>\<rparr>"

fun insert_loop :: "clean_db \<Rightarrow> string list \<Rightarrow> clean_job list \<Rightarrow> clean_db \<times> string list" where
  "insert_loop db processedJobIds [] = (db, processedJobIds)"
| "insert_loop db processedJobIds (job # rest) =
     (case upsertCompany db (j_company job) of
        Inl e \<Rightarrow> insert_loop db processedJobIds rest
      | Inr (db1, companyId) \<Rightarrow>
          (case insertJobPost db1 (job_data_of companyId job) of
             Inl e \<Rightarrow> insert_loop db1 processedJobIds rest
           | Inr (db2, Some jobId) \<Rightarrow> insert_loop db2 (processedJobIds @ [j_rawJobId job]) rest
           | Inr (db2, None) \<Rightarrow> insert_loop db2 processedJobIds rest))"

record cycle_result =
  cy_raw :: "raw_row list"
  cy_clean :: clean_db
  cy_marked :: "string list"
  cy_stats :: stats

definition process_platform ::
  "runtime \<Rightarrow> processor \<Rightarrow> global_config \<Rightarrow> string \<Rightarrow> nat \<Rightarrow> raw_row list \<Rightarrow> clean_db
     \<Rightarrow> cycle_result" where
  "process_platform rt this g platformName batchSize raw db =
     (let rawJobs = getUnprocessedJobs raw platformName batchSize
      in if rawJobs = [] then
           \<lparr>cy_raw = raw, cy_clean = db, cy_marked = [], cy_stats = empty_stats\<rparr>
         else
           (let (transformedJobs, st) = processJobs rt this empty_stats rawJobs g;
                (db', processedJobIds) = insert_loop db [] transformedJobs
            in \<lparr>cy_raw = (if processedJobIds \<noteq> [] then markJobsProcessed raw processedJobIds
                           else raw),
                 cy_clean = db', cy_marked = processedJobIds, cy_stats = st\<rparr>))"

subsection \<open>The re-entrancy flag\<close>

text \<open>
  JavaScript runs each callback to its next \<open>await\<close> without interleaving, so the test and
  the setting of \<open>isProcessing\<close> at the head of \<open>processAllPlatforms\<close> are one step. The
  model is a transition system over the flag and counters of what happened: \<open>Invoke\<close> is a
  call of \<open>processAllPlatforms\<close>, \<open>Tick\<close> the scheduled callback (which tests the flag itself
  before it calls), \<open>Finish\<close> a running cycle reaching its last line, and \<open>Abort\<close> an exception
  leaving a running cycle (the function has no \<open>finally\<close>, so the flag stays set).
\<close>

record app =
  isProcessing :: bool
  running :: nat
  started :: nat
  dropped :: nat

datatype app_event = Invoke | Tick | Finish | Abort

definition app_init :: app where
  "app_init = \<lparr>isProcessing = False, running = 0, started = 0, dropped = 0\<rparr>"

definition processAllPlatforms_enter :: "app \<Rightarrow> app" where
  "processAllPlatforms_enter s =
     (if isProcessing s then s\<lparr>dropped := dropped s + 1\<rparr>
      else s\<lparr>isProcessing := True, running := running s + 1, started := started s + 1\<rparr>)"

fun app_step :: "app \<Rightarrow> app_event \<Rightarrow> app" where
  "app_step s Invoke = processAllPlatforms_enter s"
| "app_step s Tick =
     (if \<not> isProcessing s then processAllPlatforms_enter s else s\<lparr>dropped := dropped s + 1\<rparr>)"
| "app_step s Finish =
     (if 0 < running s then s\<lparr>isProcessing := False, running := running s - 1\<rparr> else s)"
| "app_step s Abort = (if 0 < running s then s\<lparr>running := running s - 1\<rparr> else s)"

definition app_run :: "app_event list \<Rightarrow> app" where
  "app_run evs = foldl app_step app_init evs"

text \<open>The invariant of the flag: at most one running cycle, and a running cycle holds the flag.\<close>

definition app_inv :: "app \<Rightarrow> bool" where
  "app_inv s = (running s \<le> 1 \<and> (running s = 1 \<longrightarrow> isProcessing s))"

section \<open>Batch processing with duplicate checking (BaseProcessor.batchProcess)\<close>

text \<open>
  \<open>processJob\<close> is the abstract method of the base class (it throws unless a subclass
  implements it); it is the parameter \<open>processJob\<close>. \<open>this.platformId\<close> is whatever the
  subclass stored, the parameter \<open>platformId\<close>.
\<close>

definition insertCleanJob ::
  "nat jsv option \<Rightarrow> clean_db \<Rightarrow> job_data \<Rightarrow> db_error + clean_db \<times> create_result" where
  "insertCleanJob platformId db jobData =
     (if jd_companyId jobData = None then Inl (RequiredField ''company_id'')
      else if \<not> str_truthy (jd_title jobData) then Inl (RequiredField ''title'')
      else if \<not> str_truthy (jd_postUrl jobData) then Inl (RequiredField ''post_url'')
      else createJobPost db (jobData\<lparr>jd_platformId := platformId\<rparr>))"

text \<open>
  The three fields \<open>insertCleanJob\<close> requires, and what it means that its job post is in a
  store: \<open>createJobPost\<close> finds it there by its URL or by company, title and platform.
\<close>

definition required_fields :: "job_data \<Rightarrow> bool" where
  "required_fields d =
     (jd_companyId d \<noteq> None \<and> str_truthy (jd_title d) \<and> str_truthy (jd_postUrl d))"

definition post_stored :: "clean_db \<Rightarrow> nat jsv option \<Rightarrow> job_data \<Rightarrow> bool" where
  "post_stored db platformId d =
     (findJobByUrl db (jd_postUrl d) \<noteq> None
      \<or> findJobByCompanyTitlePlatform db (jd_companyId d) (jd_title d) platformId \<noteq> None)"

text \<open>A store extends another when it has the same companies and schema and more job posts.\<close>

definition store_extends :: "clean_db \<Rightarrow> clean_db \<Rightarrow> bool" where
  "store_extends db db' =
     (db_companies db' = db_companies db \<and> db_refuses db' = db_refuses db
      \<and> db_dangling db' = db_dangling db \<and> db_lower db' = db_lower db
      \<and> take (length (db_jobs db)) (db_jobs db') = db_jobs db)"

record batch_results =
  br_total :: nat
  br_processed :: nat
  br_created :: nat
  br_skipped :: nat
  br_errors :: nat
  br_processedJobIds :: "string list"

fun batch_loop ::
  "(raw_job \<Rightarrow> js_error + job_data option) \<Rightarrow> nat jsv option \<Rightarrow> clean_db \<Rightarrow> batch_results
     \<Rightarrow> raw_job list \<Rightarrow> clean_db \<times> batch_results" where
  "batch_loop processJob platformId db results [] = (db, results)"
| "batch_loop processJob platformId db results (rawJob # rest) =
     (case processJob rawJob of
        Inl e \<Rightarrow>
          batch_loop processJob platformId db (results\<lparr>br_errors := br_errors results + 1\<rparr>) rest
      | Inr None \<Rightarrow>
          batch_loop processJob platformId db (results\<lparr>br_errors := br_errors results + 1\<rparr>) rest
      | Inr (Some cleanJob) \<Rightarrow>
          (case insertCleanJob platformId db cleanJob of
             Inl e \<Rightarrow>
               batch_loop processJob platformId db
                 (results\<lparr>br_errors := br_errors results + 1\<rparr>) rest
           | Inr (db', r) \<Rightarrow>
               batch_loop processJob platformId db'
                 (results
                    \<lparr>br_created := br_created results + (if cr_created r then 1 else 0),
                     br_skipped := br_skipped results + (if cr_created r then 0 else 1),
                     br_processed := br_processed results + 1,
                     br_processedJobIds := br_processedJobIds results @ [r_job_id rawJob]\<rparr>)
                 rest))"

text \<open>
  A turn of the batch loop collects the id of its record when \<open>processJob\<close> returns a job
  for it and \<open>insertCleanJob\<close> returns normally on the store of that turn.
\<close>

definition turn_marks ::
  "(raw_job \<Rightarrow> js_error + job_data option) \<Rightarrow> nat jsv option \<Rightarrow> clean_db \<Rightarrow> raw_job \<Rightarrow> bool" where
  "turn_marks processJob platformId db rawJob =
     (case processJob rawJob of
        Inl e \<Rightarrow> False
      | Inr None \<Rightarrow> False
      | Inr (Some cleanJob) \<Rightarrow>
          (case insertCleanJob platformId db cleanJob of Inl e \<Rightarrow> False | Inr r \<Rightarrow> True))"

definition batchProcess ::
  "(raw_job \<Rightarrow> js_error + job_data option) \<Rightarrow> nat jsv option \<Rightarrow> raw_row list \<Rightarrow> clean_db
     \<Rightarrow> raw_job list \<Rightarrow> raw_row list \<times> clean_db \<times> batch_results" where
  "batchProcess processJob platformId raw db rawJobs =
     (let (db', results) =
            batch_loop processJob platformId db
              \<lparr>br_total = length rawJobs, br_processed = 0, br_created = 0, br_skipped = 0,
                br_errors = 0, br_processedJobIds = []\<rparr> rawJobs
      in ((if br_processedJobIds results \<noteq> []
           then markJobsAsProcessed raw (br_processedJobIds results) else raw),
          db', results))"

section \<open>Concrete inputs\<close>

text \<open>The configurations, engines and records at which the theorems below are instantiated.\<close>

text \<open>
  The texts of the examples are ASCII, where \<open>toLowerCase\<close> (and SQL's \<open>LOWER\<close>) replaces
  the letters A to Z and nothing else.
\<close>

definition upper_chars :: string where
  "upper_chars = ''ABCDEFGHIJKLMNOPQRSTUVWXYZ''"

definition lower_chars :: string where
  "lower_chars = ''abcdefghijklmnopqrstuvwxyz''"

definition lower_char :: "char \<Rightarrow> char" where
  "lower_char c = (case map_of (zip upper_chars lower_chars) c of Some d \<Rightarrow> d | None \<Rightarrow> c)"

definition ascii_lower :: case_fold where
  "ascii_lower s = map lower_char s"

definition range_pattern :: salary_pattern where
  "range_pattern =
     \<lparr>sp_regex = ''([0-9]+) *Mil *- *([0-9]+) *Mil *(VND|USD)'', sp_type = ''range'',
      sp_multiplier = Some (Fin 1000000), sp_currency = Some ''VND'', sp_currency_group = None,
      sp_min_group = Some 1, sp_max_group = Some 2, sp_value_group = None\<rparr>"

definition range_config :: salary_config where
  "range_config =
     \<lparr>sc_method = Some ''manual'', sc_patterns = [range_pattern],
      sc_default_currency = Some ''VND'', sc_ai_fallback = None\<rparr>"

definition range_engine :: regex_engine where
  "range_engine source text =
     (if source = sp_regex range_pattern \<and> text = ''15 Mil - 25 Mil VND''
      then RxMatch [Some ''15 Mil - 25 Mil VND'', Some ''15'', Some ''25'', Some ''VND'']
      else RxNoMatch)"

definition loose_pattern :: salary_pattern where
  "loose_pattern =
     \<lparr>sp_regex = ''(.+) *Mil'', sp_type = ''exact'', sp_multiplier = Some (Fin 1000000),
      sp_currency = Some ''VND'', sp_currency_group = None, sp_min_group = None,
      sp_max_group = None, sp_value_group = Some 1\<rparr>"

definition upto_pattern :: salary_pattern where
  "upto_pattern =
     \<lparr>sp_regex = ''Up to ([0-9]+) *Mil'', sp_type = ''max'', sp_multiplier = Some (Fin 1000000),
      sp_currency = Some ''VND'', sp_currency_group = None, sp_min_group = None,
      sp_max_group = None, sp_value_group = Some 1\<rparr>"

definition loose_config :: salary_config where
  "loose_config =
     \<lparr>sc_method = Some ''manual'', sc_patterns = [loose_pattern, upto_pattern],
      sc_default_currency = Some ''VND'', sc_ai_fallback = None\<rparr>"

text \<open>
  Patterns whose number group is \<open>(.+)\<close>, and texts in which that group captures more than a
  number.
\<close>

definition loose_range_pattern :: salary_pattern where
  "loose_range_pattern =
     \<lparr>sp_regex = ''(.+) *- *([0-9]+) *Mil'', sp_type = ''range'',
      sp_multiplier = Some (Fin 1000000), sp_currency = Some ''VND'', sp_currency_group = None,
      sp_min_group = Some 1, sp_max_group = Some 2, sp_value_group = None\<rparr>"

definition loose_min_pattern :: salary_pattern where
  "loose_min_pattern =
     \<lparr>sp_regex = ''From (.+) *Mil'', sp_type = ''min'', sp_multiplier = Some (Fin 1000000),
      sp_currency = Some ''VND'', sp_currency_group = None, sp_min_group = None,
      sp_max_group = None, sp_value_group = Some 1\<rparr>"

definition loose_max_pattern :: salary_pattern where
  "loose_max_pattern =
     \<lparr>sp_regex = ''Up to (.+) *Mil'', sp_type = ''max'', sp_multiplier = Some (Fin 1000000),
      sp_currency = Some ''VND'', sp_currency_group = None, sp_min_group = None,
      sp_max_group = None, sp_value_group = Some 1\<rparr>"

definition loose_upper_pattern :: salary_pattern where
  "loose_upper_pattern =
     \<lparr>sp_regex = ''([0-9]+) *- *(.+) *Mil'', sp_type = ''range'',
      sp_multiplier = Some (Fin 1000000), sp_currency = Some ''VND'', sp_currency_group = None,
      sp_min_group = Some 1, sp_max_group = Some 2, sp_value_group = None\<rparr>"

definition loose_engine :: regex_engine where
  "loose_engine source text =
     (if text = ''Up to 20 Mil'' \<and> source = ''(.+) *Mil''
      then RxMatch [Some ''Up to 20 Mil'', Some ''Up to 20 '']
      else if text = ''Up to 20 Mil'' \<and> source = ''Up to ([0-9]+) *Mil''
      then RxMatch [Some ''Up to 20 Mil'', Some ''20'']
      else if text = ''From 15 - 25 Mil'' \<and> source = ''(.+) *- *([0-9]+) *Mil''
      then RxMatch [Some ''From 15 - 25 Mil'', Some ''From 15 '', Some ''25'']
      else if text = ''From about 15 Mil'' \<and> source = ''From (.+) *Mil''
      then RxMatch [Some ''From about 15 Mil'', Some ''about 15 '']
      else if text = ''Up to around 20 Mil'' \<and> source = ''Up to (.+) *Mil''
      then RxMatch [Some ''Up to around 20 Mil'', Some ''around 20 '']
      else if text = ''15 - about 25 Mil'' \<and> source = ''([0-9]+) *- *(.+) *Mil''
      then RxMatch [Some ''15 - about 25 Mil'', Some ''15'', Some ''about 25 '']
      else RxNoMatch)"

text \<open>
  A runtime for the examples: a clock reading 2026-01-15 whose \<open>Date\<close> rejects the one text
  the examples hand to it (\<open>soon\<close>) and which is tabulated for no other argument (the examples
  shift no date), an AI adapter that is switched off, and a URL parser tabulated for one URL.
  The regular-expression engine of each example is tabulated for the patterns and texts of the
  example.
\<close>

definition fixed_clock :: clock where
  "fixed_clock =
     \<lparr>ck_today = ''2026-01-15'',
      ck_days_ago = (\<lambda>n. if n = 0 then Some ''2026-01-15'' else None),
      ck_months_ago = (\<lambda>n. if n = 0 then Some ''2026-01-15'' else None),
      ck_parse = (\<lambda>t. None)\<rparr>"

definition ai_off :: ai_adapter where
  "ai_off prompt t = AiNull"

definition demo_hostname :: "string \<Rightarrow> string option" where
  "demo_hostname url = (if url = ''https://www.acme.vn/careers'' then Some ''www.acme.vn'' else None)"

definition demo_global :: global_config where
  "demo_global =
     \<lparr>gc_currencies = [(''VND'', 1), (''USD'', 2)],
      gc_platforms = [(''LinkedIn'', 1), (''CareerViet'', 3), (''TopCV'', 4)]\<rparr>"

definition demo_location :: location_config where
  "demo_location =
     \<lparr>lc_method = Some ''manual'',
      lc_city_mappings = [(''HCM'', ''Ho Chi Minh City''), (''Remote'', ''Anywhere'')],
      lc_country_patterns = [], lc_remote_keywords = [''remote'', ''work from home''],
      lc_hybrid_keywords = [''hybrid''], lc_default_country = Some ''VNM'',
      lc_ai_fallback = None\<rparr>"

definition demo_raw :: raw_job where
  "demo_raw =
     \<lparr>r_job_id = ''job-1'', r_job_title = ''Backend Developer'', r_description = None,
      r_salary = None, r_experience_level = None, r_location = None, r_applies = None,
      r_listed_time = None, r_url = ''https://jobs.example/1'', r_crawled_time = 1,
      r_company_name = Some ''Acme'', r_company_location = None, r_company_url = None\<rparr>"

definition zero_pattern :: salary_pattern where
  "zero_pattern =
     \<lparr>sp_regex = ''([0-9]+) *VND'', sp_type = ''exact'', sp_multiplier = None,
      sp_currency = Some ''VND'', sp_currency_group = None, sp_min_group = None,
      sp_max_group = None, sp_value_group = Some 1\<rparr>"

definition zero_engine :: regex_engine where
  "zero_engine source t =
     (if source = ''([0-9]+) *VND'' \<and> t = ''0 VND'' then RxMatch [Some ''0 VND'', Some ''0'']
      else RxNoMatch)"

definition zero_runtime :: runtime where
  "zero_runtime =
     \<lparr>rt_rx = zero_engine, rt_lower = ascii_lower, rt_ai = ai_off, rt_clock = fixed_clock,
      rt_hostname = demo_hostname\<rparr>"

definition zero_processor :: processor where
  "zero_processor =
     \<lparr>pr_platformName = ''TopCV'',
      pr_config =
        \<lparr>cfg_platform_id = Some 4,
         cfg_salary =
           Some \<lparr>sc_method = Some ''manual'', sc_patterns = [zero_pattern],
                  sc_default_currency = Some ''VND'', sc_ai_fallback = None\<rparr>,
         cfg_experience_level = None, cfg_location = Some demo_location, cfg_date = None,
         cfg_description = None\<rparr>\<rparr>"

definition demo_experience :: experience_config where
  "demo_experience =
     \<lparr>ec_method = Some ''manual'',
      ec_mappings = [(''Senior'', ''Senior''), (''Junior'', ''Entry''), (''Intern'', ''Internship'')],
      ec_default = Some ''Mid'', ec_ai_fallback = None\<rparr>"

definition ago_pattern :: relative_pattern where
  "ago_pattern = \<lparr>rp_regex = ''([0-9]+) days? ago'', rp_unit = Some ''days''\<rparr>"

definition demo_date :: date_config where
  "demo_date =
     \<lparr>dc_method = Some ''manual'', dc_relative = [ago_pattern],
      dc_formats = [''YYYY-MM-DD'', ''DD/MM/YYYY''], dc_ai_fallback = None\<rparr>"

definition date_processor :: processor where
  "date_processor =
     \<lparr>pr_platformName = ''TopCV'',
      pr_config =
        \<lparr>cfg_platform_id = Some 4, cfg_salary = None, cfg_experience_level = None,
         cfg_location = Some demo_location, cfg_date = Some demo_date,
         cfg_description = None\<rparr>\<rparr>"

text \<open>
  PostgreSQL's verdicts on the rows of the examples under the schema: the lengths of title,
  location and country code, the range of \<open>DECIMAL(10, 2)\<close>, a posted date that is a promise
  object, an id that is a member of \<open>Object.prototype\<close>; and the reference tables as the
  schema fills them (two currencies, six experience levels, six platforms).
\<close>

definition too_long :: "nat \<Rightarrow> string option \<Rightarrow> bool" where
  "too_long n v = (case v of None \<Rightarrow> False | Some s \<Rightarrow> n < length s)"

definition is_member :: "nat jsv option \<Rightarrow> bool" where
  "is_member v = (case v of None \<Rightarrow> False | Some (Val n) \<Rightarrow> False | Some (Proto m) \<Rightarrow> True)"

definition not_in_table :: "nat list \<Rightarrow> nat jsv option \<Rightarrow> bool" where
  "not_in_table ids v =
     (case v of None \<Rightarrow> False | Some (Val n) \<Rightarrow> n \<notin> set ids | Some (Proto m) \<Rightarrow> False)"

definition pg_refuses :: "job_data \<Rightarrow> bool" where
  "pg_refuses d =
     (too_long 500 (jd_title d) \<or> too_long 255 (x_location (jd_columns d))
      \<or> too_long 3 (x_countryCode (jd_columns d))
      \<or> x_postedDate (jd_columns d) = Some PostedPromise
      \<or> is_member (x_currencyId (jd_columns d)) \<or> is_member (x_experienceLevelId (jd_columns d))
      \<or> (case x_salaryPerMonth (jd_columns d) of
            None \<Rightarrow> False
          | Some NaN \<Rightarrow> False
          | Some (Fin r) \<Rightarrow> 99999999995 / 1000 \<le> \<bar>r\<bar>
          | Some (Inf b) \<Rightarrow> True))"

definition pg_dangling :: "job_data \<Rightarrow> bool" where
  "pg_dangling d =
     (not_in_table [1, 2, 3, 4, 5, 6] (jd_platformId d)
      \<or> not_in_table [1, 2] (x_currencyId (jd_columns d))
      \<or> not_in_table [1, 2, 3, 4, 5, 6] (x_experienceLevelId (jd_columns d)))"

definition pg_refuses_company :: "company_data \<Rightarrow> bool" where
  "pg_refuses_company c =
     (too_long 255 (c_name c) \<or> too_long 255 (c_location c) \<or> too_long 255 (c_domain c))"

definition no_columns :: job_columns where
  "no_columns =
     \<lparr>x_description = None, x_salaryPerMonth = None, x_currencyId = None,
      x_experienceLevelId = None, x_location = None, x_countryCode = None,
      x_applicantCount = None, x_postedDate = None, x_crawledTime = None\<rparr>"

text \<open>A clean store with one company and one job post, and a repost of that job under a new URL.\<close>

definition one_job_store :: clean_db where
  "one_job_store =
     \<lparr>db_companies =
        [\<lparr>co_id = 1, co_name = ''Acme'', co_location = None, co_domain = Some ''acme.vn''\<rparr>],
      db_jobs =
        [\<lparr>jr_id = 2, jr_companyId = 1, jr_title = ''Backend Developer'', jr_platformId = 4,
          jr_postUrl = ''https://jobs.example/1''\<rparr>],
      db_next = 3, db_refuses = pg_refuses, db_dangling = pg_dangling,
      db_refuses_company = pg_refuses_company, db_lower = ascii_lower\<rparr>"

definition repost :: job_data where
  "repost =
     \<lparr>jd_companyId = Some 1, jd_title = Some '' backend developer'',
      jd_platformId = Some (Val 4), jd_postUrl = Some ''https://jobs.example/2'',
      jd_columns = no_columns\<rparr>"

definition same_url_post :: job_data where
  "same_url_post =
     \<lparr>jd_companyId = Some 1, jd_title = Some ''Backend Developer (updated)'',
      jd_platformId = Some (Val 4), jd_postUrl = Some ''https://jobs.example/1'',
      jd_columns = no_columns\<rparr>"

text \<open>A source configuration with no \<open>location\<close> section, and one whose country pattern does
  not compile.\<close>

definition nolocation_processor :: processor where
  "nolocation_processor =
     \<lparr>pr_platformName = ''TopCV'',
      pr_config =
        \<lparr>cfg_platform_id = Some 4, cfg_salary = None, cfg_experience_level = None,
         cfg_location = None, cfg_date = None, cfg_description = None\<rparr>\<rparr>"

definition badregex_location :: location_config where
  "badregex_location = demo_location\<lparr>lc_country_patterns := [\<lparr>cp_regex = ''(Viet'', cp_code = Some ''VNM''\<rparr>]\<rparr>"

definition badregex_engine :: regex_engine where
  "badregex_engine source t = (if source = ''(Viet'' then RxInvalid else RxNoMatch)"

definition hanoi_raw :: raw_job where
  "hanoi_raw =
     demo_raw\<lparr>r_job_id := ''job-2'', r_job_title := ''Data Analyst'', r_location := Some ''Ha Noi'',
              r_url := ''https://jobs.example/2'', r_crawled_time := 2\<rparr>"

definition two_row_store :: "raw_row list" where
  "two_row_store =
     [\<lparr>rr_job = demo_raw, rr_platform = ''TopCV'', rr_processed = False\<rparr>,
      \<lparr>rr_job = hanoi_raw, rr_platform = ''TopCV'', rr_processed = False\<rparr>]"

definition empty_db :: clean_db where
  "empty_db =
     \<lparr>db_companies = [], db_jobs = [], db_next = 1, db_refuses = pg_refuses,
      db_dangling = pg_dangling, db_refuses_company = pg_refuses_company,
      db_lower = ascii_lower\<rparr>"

definition badregex_processor :: processor where
  "badregex_processor =
     nolocation_processor
       \<lparr>pr_config := (pr_config nolocation_processor)\<lparr>cfg_location := Some badregex_location\<rparr>\<rparr>"

definition badregex_runtime :: runtime where
  "badregex_runtime = zero_runtime\<lparr>rt_rx := badregex_engine\<rparr>"

text \<open>An implementation of the abstract \<open>processJob\<close> for the examples of \<open>batchProcess\<close>.\<close>

definition demo_processJob :: "raw_job \<Rightarrow> js_error + job_data option" where
  "demo_processJob rawJob =
     (if r_location rawJob = Some ''Ha Long'' then Inl TypeError
      else
        Inr (Some \<lparr>jd_companyId = Some 1, jd_title = Some (r_job_title rawJob),
                    jd_platformId = None, jd_postUrl = Some (r_url rawJob),
                    jd_columns = no_columns\<rparr>))"

definition one_row_store :: "raw_row list" where
  "one_row_store = [\<lparr>rr_job = demo_raw, rr_platform = ''TopCV'', rr_processed = False\<rparr>]"

text \<open>A record whose location names a remote job, and a third record of the raw store.\<close>

definition remote_raw :: raw_job where
  "remote_raw = hanoi_raw\<lparr>r_location := Some ''Remote - Ha Noi''\<rparr>"

definition halong_raw :: raw_job where
  "halong_raw =
     demo_raw\<lparr>r_job_id := ''job-3'', r_job_title := ''Tour Guide'', r_location := Some ''Ha Long'',
              r_url := ''https://jobs.example/3'', r_crawled_time := 3\<rparr>"

definition three_row_store :: "raw_row list" where
  "three_row_store =
     two_row_store @ [\<lparr>rr_job = halong_raw, rr_platform = ''TopCV'', rr_processed = False\<rparr>]"

text \<open>An AI adapter that answers every question with the text \<open>constructor\<close>, and an
  experience section that asks it.\<close>

definition ai_constructor :: ai_adapter where
  "ai_constructor prompt t = AiText ''constructor''"

definition ai_experience :: experience_config where
  "ai_experience =
     demo_experience\<lparr>ec_ai_fallback := Some \<lparr>af_enabled = True, af_prompt = Some ''Level?''\<rparr>\<rparr>"

section \<open>Salary parser: properties\<close>

lemma cleanNumber_15: "cleanNumber (Some ''15'') = Fin 15"
  by code_simp

lemma cleanNumber_25: "cleanNumber (Some ''25'') = Fin 25"
  by code_simp

lemma range_fields:
  assumes "sp_type p = ''range''"
  shows "extractSalaryFromMatch m p cfg =
     Some \<lparr>s_min = Some (jmul (cleanNumber (match_group m (sp_min_group p))) (pattern_multiplier p)),
           s_max = Some (jmul (cleanNumber (match_group m (sp_max_group p))) (pattern_multiplier p)),
           s_average = Some (jhalf (jadd (jmul (cleanNumber (match_group m (sp_min_group p))) (pattern_multiplier p))
                                        (jmul (cleanNumber (match_group m (sp_max_group p))) (pattern_multiplier p)))),
           s_currency = pattern_currency m p cfg, s_type = ''range''\<rparr>"
  using assms by (simp add: extractSalaryFromMatch_def Let_def)

lemma parseManual_patterns_skip:
  "list_all (\<lambda>q. \<not> is_match (rx (sp_regex q) salaryText)) qs \<Longrightarrow>
   parseManual_patterns rx salaryText cfg (qs @ ps) = parseManual_patterns rx salaryText cfg ps"
  by (induction qs) (auto simp: is_match_def split: rx_result.splits)

lemma exact_fields:
  assumes "sp_type p = ''exact''"
  shows "extractSalaryFromMatch m p cfg =
     Some \<lparr>s_min = Some (jmul (cleanNumber (match_group m (sp_value_group p))) (pattern_multiplier p)),
           s_max = Some (jmul (cleanNumber (match_group m (sp_value_group p))) (pattern_multiplier p)),
           s_average = Some (jmul (cleanNumber (match_group m (sp_value_group p))) (pattern_multiplier p)),
           s_currency = pattern_currency m p cfg, s_type = ''exact''\<rparr>"
  using assms by (simp add: extractSalaryFromMatch_def Let_def)

text \<open>
  C3. For the text \<open>15 Mil - 25 Mil VND\<close>, matched by a range pattern with multiplier
  1,000,000 whose bound groups capture \<open>15\<close> and \<open>25\<close> and whose currency is VND, the salary
  parser returns min 15,000,000, max 25,000,000, average 20,000,000, currency VND and kind
  range. For every range match each captured bound is multiplied by the pattern's multiplier
  (\<open>pattern.multiplier || 1\<close>, which is the configured multiplier whenever that is a non-zero
  number) and the average is half the sum of the two products.
\<close>

theorem salary_range:
  "(list_all (\<lambda>q. \<not> is_match (rx (sp_regex q) ''15 Mil - 25 Mil VND'')) qs
    \<and> sc_patterns cfg = qs @ p # ps
    \<and> rx (sp_regex p) ''15 Mil - 25 Mil VND'' = RxMatch m
    \<and> sp_type p = ''range'' \<and> sp_multiplier p = Some (Fin 1000000)
    \<and> match_group m (sp_min_group p) = Some ''15'' \<and> match_group m (sp_max_group p) = Some ''25''
    \<and> pattern_currency m p cfg = Some ''VND''
    \<longrightarrow> parseManual rx ''15 Mil - 25 Mil VND'' (Some cfg)
          = Some \<lparr>s_min = Some (Fin 15000000), s_max = Some (Fin 25000000),
                   s_average = Some (Fin 20000000), s_currency = Some ''VND'', s_type = ''range''\<rparr>
        \<and> (config_method (sc_method cfg) = ''manual'' \<or> config_method (sc_method cfg) = ''ai''
           \<longrightarrow> parseSalary rx (Some ''15 Mil - 25 Mil VND'') (Some cfg)
               = SalaryInfo \<lparr>s_min = Some (Fin 15000000), s_max = Some (Fin 25000000),
                             s_average = Some (Fin 20000000), s_currency = Some ''VND'',
                             s_type = ''range''\<rparr>))
   \<and> (sp_type q = ''range'' \<longrightarrow>
        extractSalaryFromMatch m' q c
          = Some \<lparr>s_min = Some (jmul (cleanNumber (match_group m' (sp_min_group q))) (pattern_multiplier q)),
                   s_max = Some (jmul (cleanNumber (match_group m' (sp_max_group q))) (pattern_multiplier q)),
                   s_average =
                     Some (jhalf (jadd
                       (jmul (cleanNumber (match_group m' (sp_min_group q))) (pattern_multiplier q))
                       (jmul (cleanNumber (match_group m' (sp_max_group q))) (pattern_multiplier q)))),
                   s_currency = pattern_currency m' q c, s_type = ''range''\<rparr>)
   \<and> (sp_multiplier q = Some k \<and> num_truthy k \<longrightarrow> pattern_multiplier q = k)"
proof (intro conjI impI)
  assume a: "list_all (\<lambda>q. \<not> is_match (rx (sp_regex q) ''15 Mil - 25 Mil VND'')) qs
    \<and> sc_patterns cfg = qs @ p # ps
    \<and> rx (sp_regex p) ''15 Mil - 25 Mil VND'' = RxMatch m
    \<and> sp_type p = ''range'' \<and> sp_multiplier p = Some (Fin 1000000)
    \<and> match_group m (sp_min_group p) = Some ''15'' \<and> match_group m (sp_max_group p) = Some ''25''
    \<and> pattern_currency m p cfg = Some ''VND''"
  then have "parseManual rx ''15 Mil - 25 Mil VND'' (Some cfg)
      = parseManual_patterns rx ''15 Mil - 25 Mil VND'' cfg (p # ps)"
    by (simp add: parseManual_def parseManual_patterns_skip)
  also have "\<dots> = extractSalaryFromMatch m p cfg"
    using a by simp
  also have "\<dots> = Some \<lparr>s_min = Some (Fin 15000000), s_max = Some (Fin 25000000),
                 s_average = Some (Fin 20000000), s_currency = Some ''VND'', s_type = ''range''\<rparr>"
    using a by (simp add: range_fields cleanNumber_15 cleanNumber_25 pattern_multiplier_def)
  finally show r: "parseManual rx ''15 Mil - 25 Mil VND'' (Some cfg)
        = Some \<lparr>s_min = Some (Fin 15000000), s_max = Some (Fin 25000000),
                 s_average = Some (Fin 20000000), s_currency = Some ''VND'', s_type = ''range''\<rparr>" .
  assume "config_method (sc_method cfg) = ''manual'' \<or> config_method (sc_method cfg) = ''ai''"
  with r show "parseSalary rx (Some ''15 Mil - 25 Mil VND'') (Some cfg)
               = SalaryInfo \<lparr>s_min = Some (Fin 15000000), s_max = Some (Fin 25000000),
                             s_average = Some (Fin 20000000), s_currency = Some ''VND'',
                             s_type = ''range''\<rparr>"
    by (auto simp: parseSalary_def Let_def str_truthy_def)
next
  assume "sp_type q = ''range''"
  then show "extractSalaryFromMatch m' q c
          = Some \<lparr>s_min = Some (jmul (cleanNumber (match_group m' (sp_min_group q))) (pattern_multiplier q)),
                   s_max = Some (jmul (cleanNumber (match_group m' (sp_max_group q))) (pattern_multiplier q)),
                   s_average =
                     Some (jhalf (jadd
                       (jmul (cleanNumber (match_group m' (sp_min_group q))) (pattern_multiplier q))
                       (jmul (cleanNumber (match_group m' (sp_max_group q))) (pattern_multiplier q)))),
                   s_currency = pattern_currency m' q c, s_type = ''range''\<rparr>"
    by (rule range_fields)
next
  assume "sp_multiplier q = Some k \<and> num_truthy k"
  then show "pattern_multiplier q = k"
    by (simp add: pattern_multiplier_def)
qed

theorem salary_range_witness:
  "parseManual range_engine ''15 Mil - 25 Mil VND'' (Some range_config)
     = Some \<lparr>s_min = Some (Fin 15000000), s_max = Some (Fin 25000000),
              s_average = Some (Fin 20000000), s_currency = Some ''VND'', s_type = ''range''\<rparr>
   \<and> parseSalary range_engine (Some ''15 Mil - 25 Mil VND'') (Some range_config)
     = SalaryInfo \<lparr>s_min = Some (Fin 15000000), s_max = Some (Fin 25000000),
                   s_average = Some (Fin 20000000), s_currency = Some ''VND'', s_type = ''range''\<rparr>
   \<and> extractSalaryFromMatch [Some ''15 Mil - 25 Mil VND'', Some ''15'', Some ''25'', Some ''VND'']
        range_pattern range_config
     = Some \<lparr>s_min = Some (Fin 15000000), s_max = Some (Fin 25000000),
              s_average = Some (Fin 20000000), s_currency = Some ''VND'', s_type = ''range''\<rparr>
   \<and> pattern_multiplier range_pattern = Fin 1000000"
proof -
  let ?m = "[Some ''15 Mil - 25 Mil VND'', Some ''15'', Some ''25'', Some ''VND'']"
  have h: "list_all (\<lambda>q. \<not> is_match (range_engine (sp_regex q) ''15 Mil - 25 Mil VND'')) []
    \<and> sc_patterns range_config = [] @ range_pattern # []
    \<and> range_engine (sp_regex range_pattern) ''15 Mil - 25 Mil VND'' = RxMatch ?m
    \<and> sp_type range_pattern = ''range'' \<and> sp_multiplier range_pattern = Some (Fin 1000000)
    \<and> match_group ?m (sp_min_group range_pattern) = Some ''15''
    \<and> match_group ?m (sp_max_group range_pattern) = Some ''25''
    \<and> pattern_currency ?m range_pattern range_config = Some ''VND''"
    by (simp add: range_engine_def range_pattern_def range_config_def match_group_def
        pattern_currency_def str_or_def str_truthy_def)
  have k: "config_method (sc_method range_config) = ''manual''"
    by (simp add: range_config_def config_method_def str_truthy_def)
  have t: "sp_type range_pattern = ''range''"
    and u: "sp_multiplier range_pattern = Some (Fin 1000000) \<and> num_truthy (Fin 1000000)"
    by (simp_all add: range_pattern_def)
  note inst = salary_range [of range_engine "[]" range_config range_pattern "[]" ?m range_pattern
      ?m range_config "Fin 1000000"]
  from inst h have c1: "parseManual range_engine ''15 Mil - 25 Mil VND'' (Some range_config)
     = Some \<lparr>s_min = Some (Fin 15000000), s_max = Some (Fin 25000000),
              s_average = Some (Fin 20000000), s_currency = Some ''VND'', s_type = ''range''\<rparr>"
    by blast
  from inst h k have c2: "parseSalary range_engine (Some ''15 Mil - 25 Mil VND'') (Some range_config)
     = SalaryInfo \<lparr>s_min = Some (Fin 15000000), s_max = Some (Fin 25000000),
                   s_average = Some (Fin 20000000), s_currency = Some ''VND'', s_type = ''range''\<rparr>"
    by blast
  from inst t have c3: "extractSalaryFromMatch ?m range_pattern range_config
     = Some \<lparr>s_min = Some (jmul (cleanNumber (match_group ?m (sp_min_group range_pattern)))
                               (pattern_multiplier range_pattern)),
              s_max = Some (jmul (cleanNumber (match_group ?m (sp_max_group range_pattern)))
                               (pattern_multiplier range_pattern)),
              s_average =
                Some (jhalf (jadd
                  (jmul (cleanNumber (match_group ?m (sp_min_group range_pattern)))
                     (pattern_multiplier range_pattern))
                  (jmul (cleanNumber (match_group ?m (sp_max_group range_pattern)))
                     (pattern_multiplier range_pattern)))),
              s_currency = pattern_currency ?m range_pattern range_config, s_type = ''range''\<rparr>"
    by blast
  from inst u have c4: "pattern_multiplier range_pattern = Fin 1000000"
    by blast
  from h c3 c4 have c3': "extractSalaryFromMatch ?m range_pattern range_config
     = Some \<lparr>s_min = Some (Fin 15000000), s_max = Some (Fin 25000000),
              s_average = Some (Fin 20000000), s_currency = Some ''VND'', s_type = ''range''\<rparr>"
    by (simp add: cleanNumber_15 cleanNumber_25)
  from c1 c2 c3' c4 show ?thesis by blast
qed

lemma cleanNumber_upto: "cleanNumber (Some ''Up to 20 '') = NaN"
  by code_simp

lemma cleanNumber_NaN_iff:
  "(cleanNumber g = NaN)
     = (\<exists>s. g = Some s \<and> s \<noteq> []
          \<and> parseFloat (remove_spaces (filter (\<lambda>c. c \<noteq> CHR '','') s)) = NaN)"
  by (cases g) (auto simp: cleanNumber_def str_truthy_def)

lemma jadd_NaN_right: "jadd x NaN = NaN"
  by (cases x) simp_all

lemma min_fields:
  assumes "sp_type p = ''min''"
  shows "extractSalaryFromMatch m p cfg =
     Some \<lparr>s_min = Some (jmul (cleanNumber (match_group m (sp_value_group p))) (pattern_multiplier p)),
           s_max = None,
           s_average = Some (jmul (cleanNumber (match_group m (sp_value_group p))) (pattern_multiplier p)),
           s_currency = pattern_currency m p cfg, s_type = ''min''\<rparr>"
  using assms by (simp add: extractSalaryFromMatch_def Let_def)

lemma max_fields:
  assumes "sp_type p = ''max''"
  shows "extractSalaryFromMatch m p cfg =
     Some \<lparr>s_min = None,
           s_max = Some (jmul (cleanNumber (match_group m (sp_value_group p))) (pattern_multiplier p)),
           s_average = Some (jmul (cleanNumber (match_group m (sp_value_group p))) (pattern_multiplier p)),
           s_currency = pattern_currency m p cfg, s_type = ''max''\<rparr>"
  using assms by (simp add: extractSalaryFromMatch_def Let_def)

lemma first_match:
  assumes "list_all (\<lambda>q. \<not> is_match (rx (sp_regex q) salaryText)) qs"
    and "rx (sp_regex p) salaryText = RxMatch m"
    and "sc_patterns cfg = qs @ p # ps"
  shows "parseManual rx salaryText (Some cfg) = extractSalaryFromMatch m p cfg"
proof -
  have "parseManual rx salaryText (Some cfg) = parseManual_patterns rx salaryText cfg (p # ps)"
    using assms(1,3) by (simp add: parseManual_def parseManual_patterns_skip)
  with assms(2) show ?thesis by simp
qed

lemma cleanNumber_20: "cleanNumber (Some ''20'') = Fin 20"
  by code_simp

text \<open>
  C4, as stated, fails: with the patterns \<open>(.+) *Mil\<close> (exact) and then
  \<open>Up to ([0-9]+) *Mil\<close> (max), the text \<open>Up to 20 Mil\<close> matches the first pattern with the
  group \<open>Up to 20 \<close>, which is no number. The parser returns the first pattern's result with
  \<open>NaN\<close> in every numeric field; the second pattern, which alone gives 20,000,000, is never
  tried.
\<close>

theorem salary_nan_counterexample:
  "parseManual loose_engine ''Up to 20 Mil'' (Some loose_config)
     = Some \<lparr>s_min = Some NaN, s_max = Some NaN, s_average = Some NaN,
              s_currency = Some ''VND'', s_type = ''exact''\<rparr>
   \<and> parseManual loose_engine ''Up to 20 Mil'' (Some (loose_config\<lparr>sc_patterns := [upto_pattern]\<rparr>))
     = Some \<lparr>s_min = None, s_max = Some (Fin 20000000), s_average = Some (Fin 20000000),
              s_currency = Some ''VND'', s_type = ''max''\<rparr>"
  by (simp add: parseManual_def loose_config_def loose_engine_def loose_pattern_def upto_pattern_def
      extractSalaryFromMatch_def Let_def match_group_def cleanNumber_upto cleanNumber_20
      pattern_multiplier_def pattern_currency_def str_or_def str_truthy_def)

text \<open>
  C4, amended. For every salary text and ordered pattern list, if a pattern's regex matches
  (no earlier pattern having matched) but one of its captured numeric groups fails to parse as
  a number (after stripping thousands-separators and white space, surrounding or inner), that
  pattern is still the match: the parser returns that pattern's result and tries no later
  pattern. The result holds \<open>NaN\<close> in the bound computed from that group and in the
  average: in all three numeric fields of an exact pattern, in the one bound and the average
  of a min or max pattern, and for a range pattern in that bound and the average while the
  other bound is its own group's number times the multiplier. A group fails to parse exactly
  when it is a non-empty text whose rest, once commas and white space are removed, has no
  numeric prefix.
\<close>

theorem salary_first_match_wins:
  "(list_all (\<lambda>q. \<not> is_match (rx (sp_regex q) salaryText)) qs \<and> rx (sp_regex p) salaryText = RxMatch m
      \<and> sc_patterns cfg = qs @ p # ps
    \<longrightarrow> parseManual rx salaryText (Some cfg) = extractSalaryFromMatch m p cfg
        \<and> (sp_type p = ''exact'' \<and> cleanNumber (match_group m (sp_value_group p)) = NaN
           \<longrightarrow> parseManual rx salaryText (Some cfg)
               = Some \<lparr>s_min = Some NaN, s_max = Some NaN, s_average = Some NaN,
                        s_currency = pattern_currency m p cfg, s_type = ''exact''\<rparr>)
        \<and> (sp_type p = ''min'' \<and> cleanNumber (match_group m (sp_value_group p)) = NaN
           \<longrightarrow> parseManual rx salaryText (Some cfg)
               = Some \<lparr>s_min = Some NaN, s_max = None, s_average = Some NaN,
                        s_currency = pattern_currency m p cfg, s_type = ''min''\<rparr>)
        \<and> (sp_type p = ''max'' \<and> cleanNumber (match_group m (sp_value_group p)) = NaN
           \<longrightarrow> parseManual rx salaryText (Some cfg)
               = Some \<lparr>s_min = None, s_max = Some NaN, s_average = Some NaN,
                        s_currency = pattern_currency m p cfg, s_type = ''max''\<rparr>)
        \<and> (sp_type p = ''range'' \<and> cleanNumber (match_group m (sp_min_group p)) = NaN
           \<longrightarrow> parseManual rx salaryText (Some cfg)
               = Some \<lparr>s_min = Some NaN,
                        s_max = Some (jmul (cleanNumber (match_group m (sp_max_group p)))
                                        (pattern_multiplier p)),
                        s_average = Some NaN,
                        s_currency = pattern_currency m p cfg, s_type = ''range''\<rparr>)
        \<and> (sp_type p = ''range'' \<and> cleanNumber (match_group m (sp_max_group p)) = NaN
           \<longrightarrow> parseManual rx salaryText (Some cfg)
               = Some \<lparr>s_min = Some (jmul (cleanNumber (match_group m (sp_min_group p)))
                                        (pattern_multiplier p)),
                        s_max = Some NaN,
                        s_average = Some NaN,
                        s_currency = pattern_currency m p cfg, s_type = ''range''\<rparr>))
   \<and> (cleanNumber v = NaN)
       = (\<exists>s. v = Some s \<and> s \<noteq> []
            \<and> parseFloat (remove_spaces (filter (\<lambda>c. c \<noteq> CHR '','') s)) = NaN)"
proof (intro conjI impI)
  assume a: "list_all (\<lambda>q. \<not> is_match (rx (sp_regex q) salaryText)) qs \<and> rx (sp_regex p) salaryText = RxMatch m
      \<and> sc_patterns cfg = qs @ p # ps"
  then show f: "parseManual rx salaryText (Some cfg) = extractSalaryFromMatch m p cfg"
    using first_match [of rx salaryText qs p m cfg ps] by blast
  {
    assume "sp_type p = ''exact'' \<and> cleanNumber (match_group m (sp_value_group p)) = NaN"
    then show "parseManual rx salaryText (Some cfg)
               = Some \<lparr>s_min = Some NaN, s_max = Some NaN, s_average = Some NaN,
                        s_currency = pattern_currency m p cfg, s_type = ''exact''\<rparr>"
      by (simp add: f exact_fields)
  }
  {
    assume "sp_type p = ''min'' \<and> cleanNumber (match_group m (sp_value_group p)) = NaN"
    then show "parseManual rx salaryText (Some cfg)
               = Some \<lparr>s_min = Some NaN, s_max = None, s_average = Some NaN,
                        s_currency = pattern_currency m p cfg, s_type = ''min''\<rparr>"
      by (simp add: f min_fields)
  }
  {
    assume "sp_type p = ''max'' \<and> cleanNumber (match_group m (sp_value_group p)) = NaN"
    then show "parseManual rx salaryText (Some cfg)
               = Some \<lparr>s_min = None, s_max = Some NaN, s_average = Some NaN,
                        s_currency = pattern_currency m p cfg, s_type = ''max''\<rparr>"
      by (simp add: f max_fields)
  }
  {
    assume "sp_type p = ''range'' \<and> cleanNumber (match_group m (sp_min_group p)) = NaN"
    then show "parseManual rx salaryText (Some cfg)
               = Some \<lparr>s_min = Some NaN,
                        s_max = Some (jmul (cleanNumber (match_group m (sp_max_group p)))
                                        (pattern_multiplier p)),
                        s_average = Some NaN,
                        s_currency = pattern_currency m p cfg, s_type = ''range''\<rparr>"
      by (simp add: f range_fields)
  }
  {
    assume "sp_type p = ''range'' \<and> cleanNumber (match_group m (sp_max_group p)) = NaN"
    then show "parseManual rx salaryText (Some cfg)
               = Some \<lparr>s_min = Some (jmul (cleanNumber (match_group m (sp_min_group p)))
                                        (pattern_multiplier p)),
                        s_max = Some NaN,
                        s_average = Some NaN,
                        s_currency = pattern_currency m p cfg, s_type = ''range''\<rparr>"
      by (simp add: f range_fields jadd_NaN_right)
  }
next
  show "(cleanNumber v = NaN)
       = (\<exists>s. v = Some s \<and> s \<noteq> []
            \<and> parseFloat (remove_spaces (filter (\<lambda>c. c \<noteq> CHR '','') s)) = NaN)"
    by (rule cleanNumber_NaN_iff)
qed

lemma loose_currency:
  "sp_currency p = Some ''VND'' \<Longrightarrow> pattern_currency m p cfg = Some ''VND''"
  by (simp add: pattern_currency_def str_or_def str_truthy_def)

lemma parseFloat_upto:
  "parseFloat (remove_spaces (filter (\<lambda>c. c \<noteq> CHR '','') ''Up to 20 '')) = NaN"
  by code_simp

lemma cleanNumber_about15: "cleanNumber (Some ''about 15 '') = NaN"
  by code_simp

lemma cleanNumber_around20: "cleanNumber (Some ''around 20 '') = NaN"
  by code_simp

lemma cleanNumber_from15: "cleanNumber (Some ''From 15 '') = NaN"
  by code_simp

lemma cleanNumber_about25: "cleanNumber (Some ''about 25 '') = NaN"
  by code_simp

theorem salary_first_match_wins_witness:
  "parseManual loose_engine ''Up to 20 Mil'' (Some loose_config)
     = Some \<lparr>s_min = Some NaN, s_max = Some NaN, s_average = Some NaN,
              s_currency = Some ''VND'', s_type = ''exact''\<rparr>
   \<and> parseManual loose_engine ''From about 15 Mil''
        (Some (loose_config\<lparr>sc_patterns := [upto_pattern, loose_min_pattern]\<rparr>))
     = Some \<lparr>s_min = Some NaN, s_max = None, s_average = Some NaN,
              s_currency = Some ''VND'', s_type = ''min''\<rparr>
   \<and> parseManual loose_engine ''Up to around 20 Mil''
        (Some (loose_config\<lparr>sc_patterns := [loose_max_pattern]\<rparr>))
     = Some \<lparr>s_min = None, s_max = Some NaN, s_average = Some NaN,
              s_currency = Some ''VND'', s_type = ''max''\<rparr>
   \<and> parseManual loose_engine ''From 15 - 25 Mil''
        (Some (loose_config\<lparr>sc_patterns := [loose_range_pattern]\<rparr>))
     = Some \<lparr>s_min = Some NaN, s_max = Some (Fin 25000000), s_average = Some NaN,
              s_currency = Some ''VND'', s_type = ''range''\<rparr>
   \<and> parseManual loose_engine ''15 - about 25 Mil''
        (Some (loose_config\<lparr>sc_patterns := [loose_upper_pattern]\<rparr>))
     = Some \<lparr>s_min = Some (Fin 15000000), s_max = Some NaN, s_average = Some NaN,
              s_currency = Some ''VND'', s_type = ''range''\<rparr>"
proof -
  let ?m1 = "[Some ''Up to 20 Mil'', Some ''Up to 20 '']"
  let ?m2 = "[Some ''From about 15 Mil'', Some ''about 15 '']"
  let ?m3 = "[Some ''Up to around 20 Mil'', Some ''around 20 '']"
  let ?m4 = "[Some ''From 15 - 25 Mil'', Some ''From 15 '', Some ''25'']"
  let ?m5 = "[Some ''15 - about 25 Mil'', Some ''15'', Some ''about 25 '']"
  let ?c2 = "loose_config\<lparr>sc_patterns := [upto_pattern, loose_min_pattern]\<rparr>"
  let ?c3 = "loose_config\<lparr>sc_patterns := [loose_max_pattern]\<rparr>"
  let ?c4 = "loose_config\<lparr>sc_patterns := [loose_range_pattern]\<rparr>"
  let ?c5 = "loose_config\<lparr>sc_patterns := [loose_upper_pattern]\<rparr>"
  note i1 = salary_first_match_wins [of loose_engine "''Up to 20 Mil''" "[]" loose_pattern ?m1
      loose_config "[upto_pattern]" "Some ''Up to 20 ''"]
  note i2 = salary_first_match_wins [of loose_engine "''From about 15 Mil''" "[upto_pattern]"
      loose_min_pattern ?m2 ?c2 "[]" "Some ''about 15 ''"]
  note i3 = salary_first_match_wins [of loose_engine "''Up to around 20 Mil''" "[]"
      loose_max_pattern ?m3 ?c3 "[]" "Some ''around 20 ''"]
  note i4 = salary_first_match_wins [of loose_engine "''From 15 - 25 Mil''" "[]"
      loose_range_pattern ?m4 ?c4 "[]" "Some ''From 15 ''"]
  note i5 = salary_first_match_wins [of loose_engine "''15 - about 25 Mil''" "[]"
      loose_upper_pattern ?m5 ?c5 "[]" "Some ''about 25 ''"]
  have n1: "cleanNumber (Some ''Up to 20 '') = NaN"
    using i1 parseFloat_upto by blast
  have h1: "list_all (\<lambda>q. \<not> is_match (loose_engine (sp_regex q) ''Up to 20 Mil'')) []
      \<and> loose_engine (sp_regex loose_pattern) ''Up to 20 Mil'' = RxMatch ?m1
      \<and> sc_patterns loose_config = [] @ loose_pattern # [upto_pattern]"
    by (simp add: loose_engine_def loose_pattern_def loose_config_def)
  have t1: "sp_type loose_pattern = ''exact''
      \<and> cleanNumber (match_group ?m1 (sp_value_group loose_pattern)) = NaN"
    by (simp add: loose_pattern_def match_group_def n1)
  have k1: "pattern_currency ?m1 loose_pattern loose_config = Some ''VND''"
    by (rule loose_currency) (simp add: loose_pattern_def)
  from i1 h1 t1 have "parseManual loose_engine ''Up to 20 Mil'' (Some loose_config)
     = Some \<lparr>s_min = Some NaN, s_max = Some NaN, s_average = Some NaN,
              s_currency = pattern_currency ?m1 loose_pattern loose_config, s_type = ''exact''\<rparr>"
    by blast
  then have c1: "parseManual loose_engine ''Up to 20 Mil'' (Some loose_config)
     = Some \<lparr>s_min = Some NaN, s_max = Some NaN, s_average = Some NaN,
              s_currency = Some ''VND'', s_type = ''exact''\<rparr>"
    by (simp only: k1)
  have h2: "list_all (\<lambda>q. \<not> is_match (loose_engine (sp_regex q) ''From about 15 Mil'')) [upto_pattern]
      \<and> loose_engine (sp_regex loose_min_pattern) ''From about 15 Mil'' = RxMatch ?m2
      \<and> sc_patterns ?c2 = [upto_pattern] @ loose_min_pattern # []"
    by (simp add: loose_engine_def loose_min_pattern_def upto_pattern_def is_match_def)
  have t2: "sp_type loose_min_pattern = ''min''
      \<and> cleanNumber (match_group ?m2 (sp_value_group loose_min_pattern)) = NaN"
    by (simp add: loose_min_pattern_def match_group_def cleanNumber_about15)
  have k2: "pattern_currency ?m2 loose_min_pattern ?c2 = Some ''VND''"
    by (rule loose_currency) (simp add: loose_min_pattern_def)
  from i2 h2 t2 have "parseManual loose_engine ''From about 15 Mil'' (Some ?c2)
     = Some \<lparr>s_min = Some NaN, s_max = None, s_average = Some NaN,
              s_currency = pattern_currency ?m2 loose_min_pattern ?c2, s_type = ''min''\<rparr>"
    by blast
  then have c2: "parseManual loose_engine ''From about 15 Mil'' (Some ?c2)
     = Some \<lparr>s_min = Some NaN, s_max = None, s_average = Some NaN,
              s_currency = Some ''VND'', s_type = ''min''\<rparr>"
    by (simp only: k2)
  have h3: "list_all (\<lambda>q. \<not> is_match (loose_engine (sp_regex q) ''Up to around 20 Mil'')) []
      \<and> loose_engine (sp_regex loose_max_pattern) ''Up to around 20 Mil'' = RxMatch ?m3
      \<and> sc_patterns ?c3 = [] @ loose_max_pattern # []"
    by (simp add: loose_engine_def loose_max_pattern_def)
  have t3: "sp_type loose_max_pattern = ''max''
      \<and> cleanNumber (match_group ?m3 (sp_value_group loose_max_pattern)) = NaN"
    by (simp add: loose_max_pattern_def match_group_def cleanNumber_around20)
  have k3: "pattern_currency ?m3 loose_max_pattern ?c3 = Some ''VND''"
    by (rule loose_currency) (simp add: loose_max_pattern_def)
  from i3 h3 t3 have "parseManual loose_engine ''Up to around 20 Mil'' (Some ?c3)
     = Some \<lparr>s_min = None, s_max = Some NaN, s_average = Some NaN,
              s_currency = pattern_currency ?m3 loose_max_pattern ?c3, s_type = ''max''\<rparr>"
    by blast
  then have c3: "parseManual loose_engine ''Up to around 20 Mil'' (Some ?c3)
     = Some \<lparr>s_min = None, s_max = Some NaN, s_average = Some NaN,
              s_currency = Some ''VND'', s_type = ''max''\<rparr>"
    by (simp only: k3)
  have h4: "list_all (\<lambda>q. \<not> is_match (loose_engine (sp_regex q) ''From 15 - 25 Mil'')) []
      \<and> loose_engine (sp_regex loose_range_pattern) ''From 15 - 25 Mil'' = RxMatch ?m4
      \<and> sc_patterns ?c4 = [] @ loose_range_pattern # []"
    by (simp add: loose_engine_def loose_range_pattern_def)
  have t4: "sp_type loose_range_pattern = ''range''
      \<and> cleanNumber (match_group ?m4 (sp_min_group loose_range_pattern)) = NaN"
    by (simp add: loose_range_pattern_def match_group_def cleanNumber_from15)
  have k4: "pattern_currency ?m4 loose_range_pattern ?c4 = Some ''VND''"
    by (rule loose_currency) (simp add: loose_range_pattern_def)
  have v4: "jmul (cleanNumber (match_group ?m4 (sp_max_group loose_range_pattern)))
      (pattern_multiplier loose_range_pattern) = Fin 25000000"
    by (simp add: loose_range_pattern_def match_group_def cleanNumber_25 pattern_multiplier_def)
  from i4 h4 t4 have "parseManual loose_engine ''From 15 - 25 Mil'' (Some ?c4)
     = Some \<lparr>s_min = Some NaN,
              s_max = Some (jmul (cleanNumber (match_group ?m4 (sp_max_group loose_range_pattern)))
                              (pattern_multiplier loose_range_pattern)),
              s_average = Some NaN,
              s_currency = pattern_currency ?m4 loose_range_pattern ?c4, s_type = ''range''\<rparr>"
    by blast
  then have c4: "parseManual loose_engine ''From 15 - 25 Mil'' (Some ?c4)
     = Some \<lparr>s_min = Some NaN, s_max = Some (Fin 25000000), s_average = Some NaN,
              s_currency = Some ''VND'', s_type = ''range''\<rparr>"
    by (simp only: k4 v4)
  have h5: "list_all (\<lambda>q. \<not> is_match (loose_engine (sp_regex q) ''15 - about 25 Mil'')) []
      \<and> loose_engine (sp_regex loose_upper_pattern) ''15 - about 25 Mil'' = RxMatch ?m5
      \<and> sc_patterns ?c5 = [] @ loose_upper_pattern # []"
    by (simp add: loose_engine_def loose_upper_pattern_def)
  have t5: "sp_type loose_upper_pattern = ''range''
      \<and> cleanNumber (match_group ?m5 (sp_max_group loose_upper_pattern)) = NaN"
    by (simp add: loose_upper_pattern_def match_group_def cleanNumber_about25)
  have k5: "pattern_currency ?m5 loose_upper_pattern ?c5 = Some ''VND''"
    by (rule loose_currency) (simp add: loose_upper_pattern_def)
  have v5: "jmul (cleanNumber (match_group ?m5 (sp_min_group loose_upper_pattern)))
      (pattern_multiplier loose_upper_pattern) = Fin 15000000"
    by (simp add: loose_upper_pattern_def match_group_def cleanNumber_15 pattern_multiplier_def)
  from i5 h5 t5 have "parseManual loose_engine ''15 - about 25 Mil'' (Some ?c5)
     = Some \<lparr>s_min = Some (jmul (cleanNumber (match_group ?m5 (sp_min_group loose_upper_pattern)))
                              (pattern_multiplier loose_upper_pattern)),
              s_max = Some NaN,
              s_average = Some NaN,
              s_currency = pattern_currency ?m5 loose_upper_pattern ?c5, s_type = ''range''\<rparr>"
    by blast
  then have c5: "parseManual loose_engine ''15 - about 25 Mil'' (Some ?c5)
     = Some \<lparr>s_min = Some (Fin 15000000), s_max = Some NaN, s_average = Some NaN,
              s_currency = Some ''VND'', s_type = ''range''\<rparr>"
    by (simp only: k5 v5)
  from c1 c2 c3 c4 c5 show ?thesis by blast
qed

section \<open>Base processor: properties\<close>

lemma cleanNumber_0: "cleanNumber (Some ''0'') = Fin 0"
  by code_simp

lemma transformJob_salary:
  assumes "normalizeLocation (rt_rx rt) (rt_lower rt) (r_location rawJob) (cfg_location (pr_config this)) = Inr loc"
  shows "\<exists>job. transformJob rt this rawJob g = Inr job
     \<and> j_salaryPerMonth job
       = num_or_null (salary_average
           (parseSalary (rt_rx rt) (r_salary rawJob) (cfg_salary (pr_config this))))"
  using assms by (simp add: transformJob_def Let_def)

lemma num_or_null_falsy:
  "v = None \<or> v = Some NaN \<or> v = Some (Fin 0) \<Longrightarrow> num_or_null v = None"
  by (auto simp: num_or_null_def)

text \<open>
  C10. When the parsed salary has a falsy average (absent, \<open>NaN\<close> or 0), the candidate record's
  monthly salary is \<open>null\<close>, never 0: \<open>transformJob\<close> builds the field as
  \<open>salaryInfo?.average || null\<close>. An exact-type pattern that captures the text \<open>0\<close> gives such
  an average.
\<close>

theorem zero_salary_is_null:
  "(normalizeLocation (rt_rx rt) (rt_lower rt) (r_location rawJob) (cfg_location (pr_config this)) = Inr loc
    \<and> parseSalary (rt_rx rt) (r_salary rawJob) (cfg_salary (pr_config this)) = sal
    \<and> (salary_average sal = None \<or> salary_average sal = Some NaN
        \<or> salary_average sal = Some (Fin 0))
    \<longrightarrow> (\<exists>job. transformJob rt this rawJob g = Inr job \<and> j_salaryPerMonth job = None))
   \<and> (sp_type p = ''exact'' \<and> match_group m (sp_value_group p) = Some ''0''
    \<longrightarrow> (\<exists>info. extractSalaryFromMatch m p cfg = Some info
          \<and> (s_average info = Some (Fin 0) \<or> s_average info = Some NaN)))"
proof (intro conjI impI)
  assume a: "normalizeLocation (rt_rx rt) (rt_lower rt) (r_location rawJob) (cfg_location (pr_config this)) = Inr loc
    \<and> parseSalary (rt_rx rt) (r_salary rawJob) (cfg_salary (pr_config this)) = sal
    \<and> (salary_average sal = None \<or> salary_average sal = Some NaN
        \<or> salary_average sal = Some (Fin 0))"
  then obtain job where j: "transformJob rt this rawJob g = Inr job"
    and s: "j_salaryPerMonth job = num_or_null (salary_average sal)"
    using transformJob_salary [of rt rawJob this loc g] by auto
  from a have "num_or_null (salary_average sal) = None"
    by (intro num_or_null_falsy) simp
  with j s show "\<exists>job. transformJob rt this rawJob g = Inr job \<and> j_salaryPerMonth job = None"
    by simp
next
  assume a: "sp_type p = ''exact'' \<and> match_group m (sp_value_group p) = Some ''0''"
  have "jmul (Fin 0) (pattern_multiplier p) = Fin 0 \<or> jmul (Fin 0) (pattern_multiplier p) = NaN"
    by (cases "pattern_multiplier p") auto
  with a show "\<exists>info. extractSalaryFromMatch m p cfg = Some info
          \<and> (s_average info = Some (Fin 0) \<or> s_average info = Some NaN)"
    by (simp add: extractSalaryFromMatch_def Let_def cleanNumber_0)
qed

lemma zero_parse:
  "parseSalary zero_engine (Some ''0 VND'') (cfg_salary (pr_config zero_processor))
     = SalaryInfo \<lparr>s_min = Some (Fin 0), s_max = Some (Fin 0), s_average = Some (Fin 0),
                   s_currency = Some ''VND'', s_type = ''exact''\<rparr>"
  by (simp add: parseSalary_def zero_processor_def str_truthy_def config_method_def parseManual_def
      zero_pattern_def zero_engine_def extractSalaryFromMatch_def Let_def match_group_def
      cleanNumber_0 pattern_multiplier_def pattern_currency_def str_or_def)

theorem zero_salary_is_null_witness:
  "parseSalary (rt_rx zero_runtime) (r_salary (demo_raw\<lparr>r_salary := Some ''0 VND''\<rparr>))
       (cfg_salary (pr_config zero_processor))
     = SalaryInfo \<lparr>s_min = Some (Fin 0), s_max = Some (Fin 0), s_average = Some (Fin 0),
                   s_currency = Some ''VND'', s_type = ''exact''\<rparr>
   \<and> (\<exists>job. transformJob zero_runtime zero_processor (demo_raw\<lparr>r_salary := Some ''0 VND''\<rparr>)
               demo_global = Inr job
          \<and> j_salaryPerMonth job = None)
   \<and> (\<exists>info. extractSalaryFromMatch [Some ''0 VND'', Some ''0''] zero_pattern
                (the (cfg_salary (pr_config zero_processor))) = Some info
          \<and> (s_average info = Some (Fin 0) \<or> s_average info = Some NaN))"
proof -
  have l: "normalizeLocation (rt_rx zero_runtime) (rt_lower zero_runtime) (r_location (demo_raw\<lparr>r_salary := Some ''0 VND''\<rparr>))
      (cfg_location (pr_config zero_processor))
    = Inr (LocationInfo \<lparr>l_city = None, l_country = Some ''VNM'', l_isRemote = False,
                          l_isHybrid = None\<rparr>)"
    by (simp add: normalizeLocation_def demo_raw_def str_truthy_def default_country_def
        zero_processor_def demo_location_def str_or_def)
  have s: "parseSalary (rt_rx zero_runtime) (r_salary (demo_raw\<lparr>r_salary := Some ''0 VND''\<rparr>))
       (cfg_salary (pr_config zero_processor))
     = SalaryInfo \<lparr>s_min = Some (Fin 0), s_max = Some (Fin 0), s_average = Some (Fin 0),
                   s_currency = Some ''VND'', s_type = ''exact''\<rparr>"
    using zero_parse by (simp add: zero_runtime_def)
  have e: "sp_type zero_pattern = ''exact''
      \<and> match_group [Some ''0 VND'', Some ''0''] (sp_value_group zero_pattern) = Some ''0''"
    by (simp add: zero_pattern_def match_group_def)
  show ?thesis
    using zero_salary_is_null [of zero_runtime "demo_raw\<lparr>r_salary := Some ''0 VND''\<rparr>"
        zero_processor
        "LocationInfo \<lparr>l_city = None, l_country = Some ''VNM'', l_isRemote = False,
                          l_isHybrid = None\<rparr>"
        "SalaryInfo \<lparr>s_min = Some (Fin 0), s_max = Some (Fin 0), s_average = Some (Fin 0),
                   s_currency = Some ''VND'', s_type = ''exact''\<rparr>"
        demo_global zero_pattern "[Some ''0 VND'', Some ''0'']"
        "the (cfg_salary (pr_config zero_processor))"] l s e
    by (simp add: salary_average_def)
qed

section \<open>Experience mapper: properties\<close>

lemma experience_default_value:
  "experience_default cfg \<noteq> None \<and> experience_default cfg \<noteq> Some []"
  by (simp add: experience_default_def str_or_def str_truthy_def split: option.splits)

lemma mapExperience_not_null: "mapExperience ai lower experienceText cfg \<noteq> None"
  using experience_default_value [of cfg]
  by (auto simp: mapExperience_def Let_def text_truthy_def str_truthy_def split: option.splits)

lemma js_get_unknown:
  "map_of obj key = None \<Longrightarrow> key \<notin> set object_prototype \<Longrightarrow> js_get obj key = None"
  by (simp add: js_get_def)

lemma js_get_member:
  "map_of obj key = None \<Longrightarrow> key \<in> set object_prototype \<Longrightarrow> js_get obj key = Some (Proto key)"
  by (simp add: js_get_def)

lemma mapManual_none:
  assumes "map_of (ec_mappings c) t = None" and "t \<notin> set object_prototype"
    and "find (partial_match lower (lower t)) (entries (ec_mappings c)) = None"
  shows "mapManual lower t (Some c) = None"
  using assms by (simp add: mapManual_def js_get_unknown text_truthy_def)

lemma mapManual_member:
  assumes "map_of (case cfg of None \<Rightarrow> [] | Some c \<Rightarrow> ec_mappings c) t = None"
    and "t \<in> set object_prototype"
  shows "mapManual lower t cfg = Some (Proto t)"
  using assms by (simp add: mapManual_def js_get_member text_truthy_def)

lemma level_id_unknown:
  assumes "n \<notin> set (map fst referenceMap)" and "n \<notin> set object_prototype"
  shows "getExperienceLevelId (Some (Val n)) = Val 2"
proof -
  from assms(1) have "map_of referenceMap n = None"
    by (simp add: map_of_eq_None_iff)
  with assms(2) have "js_get referenceMap n = None"
    by (simp add: js_get_def)
  then show ?thesis by (simp add: getExperienceLevelId_def id_truthy_def)
qed

lemma level_id_member:
  assumes "n \<in> set object_prototype"
  shows "getExperienceLevelId (Some (Val n)) = Proto n"
proof -
  from assms have "map_of referenceMap n = None"
    by (auto simp: referenceMap_def object_prototype_def)
  with assms have "js_get referenceMap n = Some (Proto n)"
    by (simp add: js_get_def)
  then show ?thesis by (simp add: getExperienceLevelId_def id_truthy_def)
qed

text \<open>
  What the experience mapper does for every text and name that is not the name of a member of
  \<open>Object.prototype\<close>: the mapping never returns \<open>null\<close>; with no direct entry, no entry
  matching as a substring in either direction (in lower case), and the AI fallback disabled or
  giving nothing, the result is the configured default, or \<open>Entry\<close> when none is configured
  or the source has no experience section; the id lookup maps the six level names to 1..6 and
  every other name to 2. For the name of a member of \<open>Object.prototype\<close> the direct match and
  the id lookup both return that member.
\<close>

lemma experience_mapping_outside_prototype:
  "mapExperience ai lower experienceText cfg \<noteq> None
   \<and> (experienceText = Some t \<and> t \<noteq> [] \<and> t \<notin> set object_prototype \<and> cfg = Some c
      \<and> map_of (ec_mappings c) t = None
      \<and> find (partial_match lower (lower t)) (entries (ec_mappings c)) = None
      \<and> (\<not> fallback_enabled (ec_ai_fallback c)
          \<or> mapWithAI ai t (af_prompt (the (ec_ai_fallback c))) = None)
      \<longrightarrow> mapExperience ai lower experienceText cfg
          = Some (Val (if str_truthy (ec_default c) then the (ec_default c) else ''Entry'')))
   \<and> (u \<notin> set object_prototype \<longrightarrow> mapExperience ai lower (Some u) None = Some (Val ''Entry''))
   \<and> (n \<notin> set [''Internship'', ''Entry'', ''Mid'', ''Senior'', ''Lead'', ''Executive'']
      \<and> n \<notin> set object_prototype
      \<longrightarrow> getExperienceLevelId (Some (Val n)) = Val 2)
   \<and> map (\<lambda>l. getExperienceLevelId (Some (Val l)))
        [''Internship'', ''Entry'', ''Mid'', ''Senior'', ''Lead'', ''Executive'']
      = [Val 1, Val 2, Val 3, Val 4, Val 5, Val 6]
   \<and> (m \<in> set object_prototype
      \<longrightarrow> mapExperience ai lower (Some m) None = Some (Proto m)
        \<and> getExperienceLevelId (Some (Val m)) = Proto m)"
proof (intro conjI impI)
  show "mapExperience ai lower experienceText cfg \<noteq> None"
    by (rule mapExperience_not_null)
next
  assume a: "experienceText = Some t \<and> t \<noteq> [] \<and> t \<notin> set object_prototype \<and> cfg = Some c
      \<and> map_of (ec_mappings c) t = None
      \<and> find (partial_match lower (lower t)) (entries (ec_mappings c)) = None
      \<and> (\<not> fallback_enabled (ec_ai_fallback c)
          \<or> mapWithAI ai t (af_prompt (the (ec_ai_fallback c))) = None)"
  then have m: "mapManual lower t (Some c) = None"
    by (simp add: mapManual_none)
  from a m show "mapExperience ai lower experienceText cfg
          = Some (Val (if str_truthy (ec_default c) then the (ec_default c) else ''Entry''))"
    by (auto simp: mapExperience_def Let_def str_truthy_def text_truthy_def experience_default_def
        str_or_def split: option.splits)
next
  assume "u \<notin> set object_prototype"
  then have "mapManual lower u None = None"
    by (simp add: mapManual_def js_get_def text_truthy_def entries_def)
  then show "mapExperience ai lower (Some u) None = Some (Val ''Entry'')"
    by (simp add: mapExperience_def Let_def experience_default_def str_or_def str_truthy_def
        text_truthy_def config_method_def fallback_enabled_def)
next
  assume "n \<notin> set [''Internship'', ''Entry'', ''Mid'', ''Senior'', ''Lead'', ''Executive'']
      \<and> n \<notin> set object_prototype"
  then show "getExperienceLevelId (Some (Val n)) = Val 2"
    by (intro level_id_unknown) (simp_all add: referenceMap_def)
next
  show "map (\<lambda>l. getExperienceLevelId (Some (Val l)))
        [''Internship'', ''Entry'', ''Mid'', ''Senior'', ''Lead'', ''Executive'']
      = [Val 1, Val 2, Val 3, Val 4, Val 5, Val 6]"
    by (simp add: getExperienceLevelId_def referenceMap_def js_get_def id_truthy_def)
next
  assume m: "m \<in> set object_prototype"
  then have ne: "m \<noteq> []"
    by (auto simp: object_prototype_def)
  from m have "mapManual lower m None = Some (Proto m)"
    by (intro mapManual_member) simp_all
  with ne show "mapExperience ai lower (Some m) None = Some (Proto m)"
    by (simp add: mapExperience_def Let_def str_truthy_def text_truthy_def config_method_def)
next
  assume "m \<in> set object_prototype"
  then show "getExperienceLevelId (Some (Val m)) = Proto m"
    by (rule level_id_member)
qed

text \<open>
  C6 does not hold for the names of the members of \<open>Object.prototype\<close>. The mapping table and
  the level table are ordinary objects and are read with \<open>table[name]\<close>. For the experience
  text \<open>constructor\<close>, which no entry of the mapping table matches, \<open>mapExperience\<close> returns
  the inherited function \<open>Object\<close> and not the configured default \<open>Mid\<close> (nor \<open>Entry\<close> with no
  experience section); \<open>getExperienceLevelId\<close> returns the inherited member for the names
  \<open>constructor\<close> and \<open>toString\<close> and not the id 2, although it returns 2 for the unknown name
  \<open>Principal\<close>; and \<open>mapWithAI\<close> accepts the answer \<open>constructor\<close> as a level, so that with
  the AI fallback the pipeline hands that function to the id lookup's caller as the level id.
\<close>

theorem prototype_name_is_not_defaulted:
  "mapExperience ai_off ascii_lower (Some ''constructor'') (Some demo_experience)
     = Some (Proto ''constructor'')
   \<and> experience_default (Some demo_experience) = Some ''Mid''
   \<and> mapExperience ai_off ascii_lower (Some ''Chuyen vien'') (Some demo_experience)
     = Some (Val ''Mid'')
   \<and> mapExperience ai_off ascii_lower (Some ''constructor'') None = Some (Proto ''constructor'')
   \<and> getExperienceLevelId (Some (Val ''constructor'')) = Proto ''constructor''
   \<and> getExperienceLevelId (Some (Val ''toString'')) = Proto ''toString''
   \<and> getExperienceLevelId (Some (Val ''Principal'')) = Val 2
   \<and> mapExperience ai_constructor ascii_lower (Some ''Chuyen vien'') (Some ai_experience)
     = Some (Val ''constructor'')
   \<and> getExperienceLevelId
        (mapExperience ai_constructor ascii_lower (Some ''Chuyen vien'') (Some ai_experience))
     = Proto ''constructor''"
  by code_simp

section \<open>Location normalizer: properties\<close>

text \<open>
  The country loop returns unless it meets a pattern that does not compile before it meets
  one that matches; then it throws.
\<close>

lemma detect_country_returns:
  "(\<exists>cc. detect_country rx t d ps = Inr cc)
     = (\<not> (\<exists>qs p rest. ps = qs @ p # rest \<and> list_all (\<lambda>q. rx (cp_regex q) t = RxNoMatch) qs
              \<and> rx (cp_regex p) t = RxInvalid))"
proof (induction ps)
  case Nil
  then show ?case by simp
next
  case (Cons a ps)
  show ?case
  proof (cases "rx (cp_regex a) t")
    case RxInvalid
    then have "a # ps = [] @ a # ps \<and> list_all (\<lambda>q. rx (cp_regex q) t = RxNoMatch) []
        \<and> rx (cp_regex a) t = RxInvalid"
      by simp
    then have "\<exists>qs p rest. a # ps = qs @ p # rest
        \<and> list_all (\<lambda>q. rx (cp_regex q) t = RxNoMatch) qs \<and> rx (cp_regex p) t = RxInvalid"
      by blast
    with RxInvalid show ?thesis by simp
  next
    case (RxMatch m)
    have "\<not> (\<exists>qs p rest. a # ps = qs @ p # rest
        \<and> list_all (\<lambda>q. rx (cp_regex q) t = RxNoMatch) qs \<and> rx (cp_regex p) t = RxInvalid)"
    proof
      assume "\<exists>qs p rest. a # ps = qs @ p # rest
        \<and> list_all (\<lambda>q. rx (cp_regex q) t = RxNoMatch) qs \<and> rx (cp_regex p) t = RxInvalid"
      then obtain qs p rest where e: "a # ps = qs @ p # rest"
        and n: "list_all (\<lambda>q. rx (cp_regex q) t = RxNoMatch) qs"
        and i: "rx (cp_regex p) t = RxInvalid"
        by blast
      show False
      proof (cases qs)
        case Nil
        with e i RxMatch show False by simp
      next
        case (Cons q qs')
        with e n RxMatch show False by simp
      qed
    qed
    with RxMatch show ?thesis by simp
  next
    case RxNoMatch
    have "(\<exists>qs p rest. a # ps = qs @ p # rest
        \<and> list_all (\<lambda>q. rx (cp_regex q) t = RxNoMatch) qs \<and> rx (cp_regex p) t = RxInvalid)
      = (\<exists>qs p rest. ps = qs @ p # rest
        \<and> list_all (\<lambda>q. rx (cp_regex q) t = RxNoMatch) qs \<and> rx (cp_regex p) t = RxInvalid)"
    proof
      assume "\<exists>qs p rest. a # ps = qs @ p # rest
        \<and> list_all (\<lambda>q. rx (cp_regex q) t = RxNoMatch) qs \<and> rx (cp_regex p) t = RxInvalid"
      then obtain qs p rest where e: "a # ps = qs @ p # rest"
        and n: "list_all (\<lambda>q. rx (cp_regex q) t = RxNoMatch) qs"
        and i: "rx (cp_regex p) t = RxInvalid"
        by blast
      show "\<exists>qs p rest. ps = qs @ p # rest
        \<and> list_all (\<lambda>q. rx (cp_regex q) t = RxNoMatch) qs \<and> rx (cp_regex p) t = RxInvalid"
      proof (cases qs)
        case Nil
        with e i RxNoMatch show ?thesis by simp
      next
        case (Cons q qs')
        with e n have "ps = qs' @ p # rest \<and> list_all (\<lambda>q. rx (cp_regex q) t = RxNoMatch) qs'"
          by simp
        with i show ?thesis by blast
      qed
    next
      assume "\<exists>qs p rest. ps = qs @ p # rest
        \<and> list_all (\<lambda>q. rx (cp_regex q) t = RxNoMatch) qs \<and> rx (cp_regex p) t = RxInvalid"
      then obtain qs p rest where e: "ps = qs @ p # rest"
        and n: "list_all (\<lambda>q. rx (cp_regex q) t = RxNoMatch) qs"
        and i: "rx (cp_regex p) t = RxInvalid"
        by blast
      from e n RxNoMatch
      have "a # ps = (a # qs) @ p # rest \<and> list_all (\<lambda>q. rx (cp_regex q) t = RxNoMatch) (a # qs)"
        by simp
      with i show "\<exists>qs p rest. a # ps = qs @ p # rest
        \<and> list_all (\<lambda>q. rx (cp_regex q) t = RxNoMatch) qs \<and> rx (cp_regex p) t = RxInvalid"
        by blast
    qed
    with RxNoMatch Cons.IH show ?thesis by simp
  qed
qed

lemma detect_country_error: "detect_country rx t d ps = Inl e \<Longrightarrow> e = SyntaxError"
  by (induction ps) (auto split: rx_result.splits)

lemma detect_country_compiles:
  "list_all (\<lambda>p. rx (cp_regex p) t \<noteq> RxInvalid) ps \<Longrightarrow> \<exists>cc. detect_country rx t d ps = Inr cc"
  by (induction ps) (auto split: rx_result.splits)

lemma normalizeManual_value:
  "normalizeManual rx lower t (Some cfg)
     = (case detect_country rx t (str_or (lc_default_country cfg) (Some ''VNM''))
               (lc_country_patterns cfg) of
          Inl e \<Rightarrow> Inl e
        | Inr cc \<Rightarrow>
            Inr \<lparr>l_city = (if keyword_hit lower t (lc_remote_keywords cfg) then Some ''Remote''
                            else Some (map_city t (lc_city_mappings cfg))),
                 l_country = cc, l_isRemote = keyword_hit lower t (lc_remote_keywords cfg),
                 l_isHybrid = Some (keyword_hit lower t (lc_hybrid_keywords cfg))\<rparr>)"
  by (simp add: normalizeManual_def Let_def)

lemma normalizeManual_returns:
  assumes "list_all (\<lambda>p. rx (cp_regex p) t \<noteq> RxInvalid) (lc_country_patterns cfg)"
  shows "\<exists>cc. normalizeManual rx lower t (Some cfg)
     = Inr \<lparr>l_city = (if keyword_hit lower t (lc_remote_keywords cfg) then Some ''Remote''
                       else Some (map_city t (lc_city_mappings cfg))),
            l_country = cc, l_isRemote = keyword_hit lower t (lc_remote_keywords cfg),
            l_isHybrid = Some (keyword_hit lower t (lc_hybrid_keywords cfg))\<rparr>"
proof -
  from assms obtain cc where
    "detect_country rx t (str_or (lc_default_country cfg) (Some ''VNM'')) (lc_country_patterns cfg) = Inr cc"
    using detect_country_compiles by blast
  then show ?thesis
    by (simp add: normalizeManual_value)
qed

text \<open>
  Whenever \<open>normalizeManual\<close> returns, a remote keyword occurring in the text (both in lower
  case) gives \<open>isRemote = true\<close> and the city \<open>Remote\<close> whatever the city mappings say, and
  the city mapping decides the city only when no remote keyword occurs. It returns exactly
  when the country loop does; otherwise it throws a SyntaxError.
\<close>

lemma remote_overrides_city:
  "(normalizeManual rx lower t (Some cfg) = Inr info
      \<longrightarrow> l_isRemote info = keyword_hit lower t (lc_remote_keywords cfg)
        \<and> l_city info = (if keyword_hit lower t (lc_remote_keywords cfg) then Some ''Remote''
                          else Some (map_city t (lc_city_mappings cfg))))
   \<and> ((\<exists>i. normalizeManual rx lower t (Some cfg) = Inr i)
       = (\<not> (\<exists>qs p rest. lc_country_patterns cfg = qs @ p # rest
                \<and> list_all (\<lambda>q. rx (cp_regex q) t = RxNoMatch) qs
                \<and> rx (cp_regex p) t = RxInvalid)))
   \<and> ((\<exists>i. normalizeManual rx lower t (Some cfg) = Inr i)
       \<or> normalizeManual rx lower t (Some cfg) = Inl SyntaxError)"
proof (intro conjI impI)
  assume "normalizeManual rx lower t (Some cfg) = Inr info"
  then show "l_isRemote info = keyword_hit lower t (lc_remote_keywords cfg)"
    and "l_city info = (if keyword_hit lower t (lc_remote_keywords cfg) then Some ''Remote''
                          else Some (map_city t (lc_city_mappings cfg)))"
    by (auto simp: normalizeManual_value split: sum.splits)
next
  have "(\<exists>i. normalizeManual rx lower t (Some cfg) = Inr i)
     = (\<exists>cc. detect_country rx t (str_or (lc_default_country cfg) (Some ''VNM''))
               (lc_country_patterns cfg) = Inr cc)"
    by (auto simp: normalizeManual_value split: sum.splits)
  then show "(\<exists>i. normalizeManual rx lower t (Some cfg) = Inr i)
       = (\<not> (\<exists>qs p rest. lc_country_patterns cfg = qs @ p # rest
                \<and> list_all (\<lambda>q. rx (cp_regex q) t = RxNoMatch) qs
                \<and> rx (cp_regex p) t = RxInvalid))"
    by (simp only: detect_country_returns)
next
  show "(\<exists>i. normalizeManual rx lower t (Some cfg) = Inr i)
       \<or> normalizeManual rx lower t (Some cfg) = Inl SyntaxError"
    using detect_country_error [of rx t "str_or (lc_default_country cfg) (Some ''VNM'')"
        "lc_country_patterns cfg"]
    by (auto simp: normalizeManual_value split: sum.splits)
qed

text \<open>
  C7 does not hold when a configured country pattern does not compile. The text
  \<open>Remote - Ha Noi\<close> contains the configured remote keyword \<open>remote\<close>; with the country
  pattern \<open>(Viet\<close> the country loop throws a SyntaxError out of \<open>normalizeManual\<close>, so the
  normalizer returns nothing (neither \<open>isRemote = true\<close> nor the city \<open>Remote\<close>) and
  \<open>transformJob\<close> loses the record. With the same configuration and no country pattern the
  normalizer returns \<open>isRemote = true\<close> and the city \<open>Remote\<close>, although the city mapping
  \<open>Remote\<close> to \<open>Anywhere\<close> matches the text.
\<close>

theorem remote_text_throws_on_bad_country_pattern:
  "keyword_hit ascii_lower ''Remote - Ha Noi'' (lc_remote_keywords badregex_location)
   \<and> normalizeManual badregex_engine ascii_lower ''Remote - Ha Noi'' (Some badregex_location)
     = Inl SyntaxError
   \<and> normalizeLocation badregex_engine ascii_lower (Some ''Remote - Ha Noi'')
        (Some badregex_location)
     = Inl SyntaxError
   \<and> transformJob badregex_runtime badregex_processor remote_raw demo_global = Inl SyntaxError
   \<and> map_city ''Remote - Ha Noi'' (lc_city_mappings demo_location) = ''Anywhere''
   \<and> normalizeManual badregex_engine ascii_lower ''Remote - Ha Noi'' (Some demo_location)
     = Inr \<lparr>l_city = Some ''Remote'', l_country = Some ''VNM'', l_isRemote = True,
            l_isHybrid = Some False\<rparr>"
  by code_simp

section \<open>Date parser: properties\<close>

lemma relative_loop_no_match:
  "list_all (\<lambda>p. \<not> is_match (rx (rp_regex p) t)) ps \<Longrightarrow> relative_loop rx ck t ps = None"
  by (induction ps) (auto simp: is_match_def split: rx_result.splits)

lemma formats_loop_no_parse:
  "list_all (\<lambda>f. \<not> str_truthy (tryParseFormat ck t f)) fs \<Longrightarrow> formats_loop ck t fs = None"
  by (induction fs) (auto simp: Let_def)

lemma parseDate_null:
  assumes "list_all (\<lambda>p. \<not> is_match (rx (rp_regex p) t))
             (case cfg of None \<Rightarrow> [] | Some c \<Rightarrow> dc_relative c)"
    and "list_all (\<lambda>f. \<not> str_truthy (tryParseFormat ck t f))
             (case cfg of None \<Rightarrow> [] | Some c \<Rightarrow> dc_formats c)"
    and "\<not> fallback_enabled (case cfg of None \<Rightarrow> None | Some c \<Rightarrow> dc_ai_fallback c)"
  shows "parseDate rx ck (Some t) cfg = DateNull"
proof -
  have "date_parseManual rx ck t cfg = None"
    using assms(1,2) by (simp add: date_parseManual_def relative_loop_no_match formats_loop_no_parse)
  with assms(3) show ?thesis
    by (simp add: parseDate_def Let_def str_truthy_def)
qed

lemma transformJob_postedDate:
  assumes "normalizeLocation (rt_rx rt) (rt_lower rt) (r_location rawJob) (cfg_location (pr_config this)) = Inr loc"
    and "parseDate (rt_rx rt) (rt_clock rt) (r_listed_time rawJob) (cfg_date (pr_config this)) = DateNull"
  shows "\<exists>job. transformJob rt this rawJob g = Inr job
     \<and> j_postedDate job = PostedText (ck_today (rt_clock rt))"
  using assms by (simp add: transformJob_def Let_def)

text \<open>
  C8. For a date text that matches no relative pattern and parses under no absolute format,
  with the AI fallback disabled, the date normalizer returns \<open>null\<close>; the processor then sets
  the candidate record's posted date to the current processing date (the \<open>YYYY-MM-DD\<close> part of
  the clock's ISO timestamp).
\<close>

theorem unparseable_date_defaults_to_today:
  "(list_all (\<lambda>p. \<not> is_match (rx (rp_regex p) t))
        (case cfg of None \<Rightarrow> [] | Some c \<Rightarrow> dc_relative c)
    \<and> list_all (\<lambda>f. \<not> str_truthy (tryParseFormat ck t f))
        (case cfg of None \<Rightarrow> [] | Some c \<Rightarrow> dc_formats c)
    \<and> \<not> fallback_enabled (case cfg of None \<Rightarrow> None | Some c \<Rightarrow> dc_ai_fallback c)
    \<longrightarrow> parseDate rx ck (Some t) cfg = DateNull)
   \<and> (parseDate (rt_rx rt) (rt_clock rt) (r_listed_time rawJob) (cfg_date (pr_config this)) = DateNull
      \<and> normalizeLocation (rt_rx rt) (rt_lower rt) (r_location rawJob) (cfg_location (pr_config this)) = Inr loc
    \<longrightarrow> (\<exists>job. transformJob rt this rawJob g = Inr job
          \<and> j_postedDate job = PostedText (ck_today (rt_clock rt))))"
  using parseDate_null [of rx t cfg ck] transformJob_postedDate [of rt rawJob this loc g]
  by blast

lemma soon_null:
  "parseDate zero_engine fixed_clock (Some ''soon'') (Some demo_date) = DateNull"
  by (simp add: parseDate_def Let_def str_truthy_def config_method_def demo_date_def
      date_parseManual_def ago_pattern_def zero_engine_def tryParseFormat_def fixed_clock_def
      fallback_enabled_def)

theorem unparseable_date_defaults_to_today_witness:
  "parseDate zero_engine fixed_clock (Some ''soon'') (Some demo_date) = DateNull
   \<and> (\<exists>job. transformJob zero_runtime date_processor (demo_raw\<lparr>r_listed_time := Some ''soon''\<rparr>)
               demo_global = Inr job
        \<and> j_postedDate job = PostedText ''2026-01-15'')"
proof -
  have r: "list_all (\<lambda>p. \<not> is_match (zero_engine (rp_regex p) ''soon''))
        (case Some demo_date of None \<Rightarrow> [] | Some c \<Rightarrow> dc_relative c)"
    by (simp add: demo_date_def ago_pattern_def zero_engine_def is_match_def)
  have f: "list_all (\<lambda>f. \<not> str_truthy (tryParseFormat fixed_clock ''soon'' f))
        (case Some demo_date of None \<Rightarrow> [] | Some c \<Rightarrow> dc_formats c)"
    by (simp add: demo_date_def tryParseFormat_def fixed_clock_def str_truthy_def)
  have a: "\<not> fallback_enabled (case Some demo_date of None \<Rightarrow> None | Some c \<Rightarrow> dc_ai_fallback c)"
    by (simp add: demo_date_def fallback_enabled_def)
  have l: "normalizeLocation (rt_rx zero_runtime) (rt_lower zero_runtime)
      (r_location (demo_raw\<lparr>r_listed_time := Some ''soon''\<rparr>))
      (cfg_location (pr_config date_processor))
    = Inr (LocationInfo \<lparr>l_city = None, l_country = Some ''VNM'', l_isRemote = False,
                          l_isHybrid = None\<rparr>)"
    by (simp add: normalizeLocation_def demo_raw_def str_truthy_def default_country_def
        date_processor_def demo_location_def str_or_def)
  have d: "parseDate (rt_rx zero_runtime) (rt_clock zero_runtime)
      (r_listed_time (demo_raw\<lparr>r_listed_time := Some ''soon''\<rparr>))
      (cfg_date (pr_config date_processor)) = DateNull"
    using soon_null by (simp add: zero_runtime_def date_processor_def)
  have t: "ck_today (rt_clock zero_runtime) = ''2026-01-15''"
    by (simp add: zero_runtime_def fixed_clock_def)
  show ?thesis
    using unparseable_date_defaults_to_today [of zero_engine "''soon''" "Some demo_date" fixed_clock
        zero_runtime "demo_raw\<lparr>r_listed_time := Some ''soon''\<rparr>" date_processor
        "LocationInfo \<lparr>l_city = None, l_country = Some ''VNM'', l_isRemote = False,
                          l_isHybrid = None\<rparr>" demo_global]
      r f a l d t
    by simp
qed

section \<open>Orchestrator: the re-entrancy flag\<close>

lemma app_inv_init: "app_inv app_init"
  by (simp add: app_inv_def app_init_def)

lemma app_inv_step: "app_inv s \<Longrightarrow> app_inv (app_step s ev)"
  by (cases ev) (auto simp: app_inv_def processAllPlatforms_enter_def)

lemma app_inv_run: "app_inv (app_run evs)"
  unfolding app_run_def
  by (induction evs rule: rev_induct) (simp_all add: app_inv_init app_inv_step)

text \<open>
  C9. The orchestrator's flag gives mutual exclusion. Along every sequence of invocations,
  scheduled ticks, completions and aborts at most one cycle is running, and a running cycle
  has the flag set. A cycle request while the flag is set is dropped: nothing changes but the
  count of dropped requests, so no second cycle starts. A request with the flag clear sets the
  flag and starts one cycle; a cycle that reaches its end clears the flag.
\<close>

theorem cycle_mutual_exclusion:
  "running (app_run evs) \<le> 1
   \<and> (running (app_run evs) = 1 \<longrightarrow> isProcessing (app_run evs))
   \<and> (isProcessing s \<longrightarrow>
        app_step s Invoke = s\<lparr>dropped := dropped s + 1\<rparr>
        \<and> app_step s Tick = s\<lparr>dropped := dropped s + 1\<rparr>)
   \<and> (\<not> isProcessing s \<longrightarrow>
        isProcessing (app_step s Invoke) \<and> started (app_step s Invoke) = started s + 1
        \<and> running (app_step s Invoke) = running s + 1)
   \<and> (0 < running s \<longrightarrow>
        \<not> isProcessing (app_step s Finish) \<and> running (app_step s Finish) = running s - 1)"
  using app_inv_run [of evs]
  by (simp add: app_inv_def processAllPlatforms_enter_def)

theorem cycle_mutual_exclusion_witness:
  "app_run [Invoke, Tick, Invoke]
     = \<lparr>isProcessing = True, running = 1, started = 1, dropped = 2\<rparr>
   \<and> app_step (app_run [Invoke]) Invoke = (app_run [Invoke])\<lparr>dropped := 1\<rparr>
   \<and> app_run [Invoke, Tick, Invoke, Finish, Tick]
     = \<lparr>isProcessing = True, running = 1, started = 2, dropped = 2\<rparr>
   \<and> \<not> isProcessing (app_step (app_run [Invoke, Tick]) Finish)"
  using cycle_mutual_exclusion [of "[Invoke, Tick, Invoke]" "app_run [Invoke]"]
    cycle_mutual_exclusion [of "[Invoke, Tick, Invoke, Finish, Tick]" "app_run [Invoke, Tick]"]
  by (simp add: app_run_def app_init_def processAllPlatforms_enter_def)

section \<open>Duplicate-safe insert: properties\<close>

lemma title_key_repost:
  "title_key one_job_store '' backend developer'' = title_key one_job_store ''Backend Developer''"
  by code_simp

lemma title_key_bd: "title_key one_job_store ''Backend Developer'' = ''backend developer''"
  by code_simp

lemma title_key_updated:
  "title_key one_job_store ''Backend Developer (updated)'' = ''backend developer (updated)''"
  by code_simp

lemma repost_accepted:
  "\<not> job_rejected one_job_store repost \<and> \<not> fk_violated one_job_store repost"
  by code_simp

lemma same_url_accepted: "\<not> job_rejected one_job_store same_url_post"
  by code_simp

lemma repost_url_new:
  "\<not> list_ex (\<lambda>r. Some (jr_postUrl r) = jd_postUrl repost) (db_jobs one_job_store)"
  by code_simp

lemma same_url_stored:
  "list_ex (\<lambda>r. Some (jr_postUrl r) = jd_postUrl same_url_post) (db_jobs one_job_store)"
  by code_simp

lemma repost_lookups:
  "findJobByUrl one_job_store (jd_postUrl repost) = None
   \<and> findJobByCompanyTitlePlatform one_job_store (jd_companyId repost) (jd_title repost)
        (jd_platformId repost) = Some 2
   \<and> findJobByUrl one_job_store (jd_postUrl same_url_post) = Some 2"
  by code_simp

lemma repost_row:
  "add_job one_job_store repost
     = one_job_store
         \<lparr>db_jobs :=
            [\<lparr>jr_id = 2, jr_companyId = 1, jr_title = ''Backend Developer'', jr_platformId = 4,
              jr_postUrl = ''https://jobs.example/1''\<rparr>,
             \<lparr>jr_id = 3, jr_companyId = 1, jr_title = '' backend developer'', jr_platformId = 4,
              jr_postUrl = ''https://jobs.example/2''\<rparr>],
          db_next := 4\<rparr>"
  by (simp add: add_job_def new_job_row_def one_job_store_def repost_def platform_of_def)

text \<open>
  The function-style module's \<open>createJobPost\<close> follows the duplicate policy: a post whose URL
  is in the store, or (the URL being absent) whose company, trimmed lower-cased title and
  platform are, is skipped with the existing id and the store unchanged; otherwise it is
  inserted, when the database accepts the row.
\<close>

lemma createJobPost_duplicate_safe:
  "(findJobByUrl db (jd_postUrl d) = Some i
      \<longrightarrow> createJobPost db d = Inr (db, \<lparr>cr_created = False, cr_jobId = i\<rparr>))
   \<and> (findJobByUrl db (jd_postUrl d) = None
      \<and> findJobByCompanyTitlePlatform db (jd_companyId d) (jd_title d) (jd_platformId d) = Some i
      \<longrightarrow> createJobPost db d = Inr (db, \<lparr>cr_created = False, cr_jobId = i\<rparr>))
   \<and> (findJobByUrl db (jd_postUrl d) = None
      \<and> findJobByCompanyTitlePlatform db (jd_companyId d) (jd_title d) (jd_platformId d) = None
      \<and> \<not> job_rejected db d \<and> \<not> fk_violated db d
      \<longrightarrow> createJobPost db d = Inr (add_job db d, \<lparr>cr_created = True, cr_jobId = db_next db\<rparr>))"
  by (simp add: createJobPost_def)

lemma createJobPost_created:
  assumes "createJobPost db d = Inr (db1, r)" and "cr_created r"
  shows "db1 = add_job db d \<and> \<not> job_rejected db d"
  using assms by (auto simp: createJobPost_def split: option.splits if_splits)

text \<open>
  Once \<open>createJobPost\<close> has inserted a post, a second post of the same company, title (up to
  case and surrounding spaces) and platform is skipped whatever its URL, and the store keeps
  the earlier one.
\<close>

lemma createJobPost_repost_skipped:
  assumes c: "createJobPost db d1 = Inr (db1, r1)" and cr: "cr_created r1"
    and co: "jd_companyId d2 = jd_companyId d1"
    and pl: "jd_platformId d2 = jd_platformId d1"
    and ti: "map_option (title_key db) (jd_title d2) = map_option (title_key db) (jd_title d1)"
  shows "\<exists>i. createJobPost db1 d2 = Inr (db1, \<lparr>cr_created = False, cr_jobId = i\<rparr>)"
proof (cases "findJobByUrl db1 (jd_postUrl d2)")
  case (Some i)
  then show ?thesis by (simp add: createJobPost_def)
next
  case None
  from c cr have db1: "db1 = add_job db d1" and ok: "\<not> job_rejected db d1"
    using createJobPost_created by blast+
  have tk: "title_key db1 = title_key db"
    by (rule ext) (simp add: db1 add_job_def title_key_def)
  let ?row = "new_job_row db d1"
  let ?P = "\<lambda>r. Some (jr_companyId r) = jd_companyId d2
                 \<and> map_option (title_key db1) (jd_title d2) = Some (title_key db1 (jr_title r))
                 \<and> Some (Val (jr_platformId r)) = jd_platformId d2"
  from ok have "?P ?row"
    using co pl ti
    by (auto simp: tk job_rejected_def new_job_row_def platform_of_def
        split: option.splits jsv.splits)
  moreover have "?row \<in> set (db_jobs db1)"
    by (simp add: db1 add_job_def)
  ultimately have "find ?P (db_jobs db1) \<noteq> None"
    unfolding find_None_iff by blast
  then obtain row where "find ?P (db_jobs db1) = Some row" by blast
  then have "findJobByCompanyTitlePlatform db1 (jd_companyId d2) (jd_title d2) (jd_platformId d2)
      = Some (jr_id row)"
    by (simp add: findJobByCompanyTitlePlatform_def)
  with None show ?thesis by (simp add: createJobPost_def)
qed

text \<open>
  C1 does not hold of the orchestrator's \<open>insertJobPost\<close>. The store holds the post
  \<open>Backend Developer\<close> of company 1 on platform 4. A repost under a new URL with the same
  company, title (up to case and spaces) and platform is inserted as a second row, and a post
  with the stored URL is skipped without returning the existing id; \<open>createJobPost\<close> skips
  both and returns the id 2 of the stored row.
\<close>

theorem insertJobPost_inserts_repost:
  "insertJobPost one_job_store repost
     = Inr (one_job_store
              \<lparr>db_jobs :=
                 [\<lparr>jr_id = 2, jr_companyId = 1, jr_title = ''Backend Developer'', jr_platformId = 4,
                   jr_postUrl = ''https://jobs.example/1''\<rparr>,
                  \<lparr>jr_id = 3, jr_companyId = 1, jr_title = '' backend developer'', jr_platformId = 4,
                   jr_postUrl = ''https://jobs.example/2''\<rparr>],
               db_next := 4\<rparr>,
            Some 3)
   \<and> insertJobPost one_job_store same_url_post = Inr (one_job_store, None)
   \<and> createJobPost one_job_store repost
     = Inr (one_job_store, \<lparr>cr_created = False, cr_jobId = 2\<rparr>)
   \<and> createJobPost one_job_store same_url_post
     = Inr (one_job_store, \<lparr>cr_created = False, cr_jobId = 2\<rparr>)"
proof -
  have n: "db_next one_job_store = 3"
    by (simp add: one_job_store_def)
  show ?thesis
    using repost_accepted same_url_accepted repost_url_new same_url_stored repost_lookups
    by (simp add: insertJobPost_def createJobPost_def repost_row n)
qed

section \<open>Per-field failures\<close>

lemma transformJob_location_error:
  "normalizeLocation (rt_rx rt) (rt_lower rt) (r_location rawJob) (cfg_location (pr_config this)) = Inl e
   \<Longrightarrow> transformJob rt this rawJob g = Inl e"
  by (simp add: transformJob_def Let_def)

lemma hanoi_no_section:
  "normalizeLocation zero_engine ascii_lower (Some ''Ha Noi'') None = Inl TypeError"
  by (simp add: normalizeLocation_def str_truthy_def config_method_def normalizeManual_def)

lemma hanoi_bad_regex:
  "normalizeManual badregex_engine ascii_lower ''Ha Noi'' (Some badregex_location) = Inl SyntaxError"
  by (simp add: normalizeManual_def Let_def badregex_location_def badregex_engine_def
      demo_location_def)

text \<open>
  The location normalizer is the only normalizer that can throw: a record without location
  text, or under a configuration whose location section is present and whose country
  patterns compile, is always transformed.
\<close>

lemma normalizeLocation_returns:
  assumes "\<not> str_truthy locationText
      \<or> (\<exists>lc. cfg = Some lc
            \<and> list_all (\<lambda>p. rx (cp_regex p) (the locationText) \<noteq> RxInvalid) (lc_country_patterns lc))"
  shows "\<exists>loc. normalizeLocation rx lower locationText cfg = Inr loc"
proof (cases "str_truthy locationText")
  case False
  then show ?thesis by (simp add: normalizeLocation_def)
next
  case True
  with assms obtain lc where lc: "cfg = Some lc"
    and ok: "list_all (\<lambda>p. rx (cp_regex p) (the locationText) \<noteq> RxInvalid) (lc_country_patterns lc)"
    by blast
  from normalizeManual_returns [of rx "the locationText" lc lower] ok obtain info where
    "normalizeManual rx lower (the locationText) (Some lc) = Inr info" by blast
  with True lc show ?thesis
    by (simp add: normalizeLocation_def Let_def)
qed

lemma transformJob_returns:
  assumes "\<not> str_truthy (r_location rawJob)
      \<or> (\<exists>lc. cfg_location (pr_config this) = Some lc
            \<and> list_all (\<lambda>p. rt_rx rt (cp_regex p) (the (r_location rawJob)) \<noteq> RxInvalid)
                  (lc_country_patterns lc))"
  shows "\<exists>job. transformJob rt this rawJob g = Inr job"
proof -
  from normalizeLocation_returns [of "r_location rawJob" "cfg_location (pr_config this)" "rt_rx rt"
      "rt_lower rt"]
    assms obtain loc where
    "normalizeLocation (rt_rx rt) (rt_lower rt) (r_location rawJob) (cfg_location (pr_config this)) = Inr loc"
    by blast
  then show ?thesis
    by (simp add: transformJob_def Let_def)
qed

lemma hanoi_transform_fails:
  "transformJob zero_runtime nolocation_processor hanoi_raw demo_global = Inl TypeError"
proof -
  have "normalizeLocation (rt_rx zero_runtime) (rt_lower zero_runtime) (r_location hanoi_raw)
      (cfg_location (pr_config nolocation_processor)) = Inl TypeError"
    using hanoi_no_section
    by (simp add: zero_runtime_def hanoi_raw_def demo_raw_def nolocation_processor_def)
  then show ?thesis
    by (rule transformJob_location_error)
qed

text \<open>
  C5 does not hold of the location normalizer. With a source configuration that has no
  \<open>location\<close> section, a raw record with the location \<open>Ha Noi\<close> makes \<open>normalizeManual\<close>
  throw a TypeError; \<open>transformJob\<close> has no \<open>try\<close> around the normalizers, so the whole
  record is lost: \<open>processJobs\<close> counts it as failed and returns no candidate for it. A
  country pattern that does not compile has the same effect (a SyntaxError), while the salary
  and date parsers catch theirs.
\<close>

theorem location_failure_aborts_record:
  "transformJob zero_runtime nolocation_processor hanoi_raw demo_global = Inl TypeError
   \<and> processJobs zero_runtime nolocation_processor empty_stats [hanoi_raw] demo_global
     = ([], \<lparr>st_processed = 1, st_success = 0, st_failed = 1,
              st_errors = [(''job-2'', ''Data Analyst'', TypeError)]\<rparr>)
   \<and> transformJob badregex_runtime badregex_processor hanoi_raw demo_global = Inl SyntaxError"
proof (intro conjI)
  show "transformJob zero_runtime nolocation_processor hanoi_raw demo_global = Inl TypeError"
    by (rule hanoi_transform_fails)
  then show "processJobs zero_runtime nolocation_processor empty_stats [hanoi_raw] demo_global
     = ([], \<lparr>st_processed = 1, st_success = 0, st_failed = 1,
              st_errors = [(''job-2'', ''Data Analyst'', TypeError)]\<rparr>)"
    by (simp add: processJobs_def empty_stats_def hanoi_raw_def demo_raw_def)
  have "normalizeLocation (rt_rx badregex_runtime) (rt_lower badregex_runtime) (r_location hanoi_raw)
      (cfg_location (pr_config badregex_processor)) = Inl SyntaxError"
    using hanoi_bad_regex
    by (simp add: badregex_runtime_def zero_runtime_def hanoi_raw_def demo_raw_def
        badregex_processor_def nolocation_processor_def normalizeLocation_def str_truthy_def
        config_method_def badregex_location_def demo_location_def)
  then show "transformJob badregex_runtime badregex_processor hanoi_raw demo_global = Inl SyntaxError"
    by (rule transformJob_location_error)
qed

section \<open>Marking raw records processed\<close>

subsection \<open>The insert loop of the orchestrator\<close>

lemma upsertCompany_jobs:
  "upsertCompany db c = Inr (db1, i) \<Longrightarrow> db_jobs db1 = db_jobs db"
  by (auto simp: upsertCompany_def split: option.splits if_splits)

lemma insertJobPost_inserted:
  assumes "insertJobPost db (job_data_of c job) = Inr (db2, Some i)"
  shows "j_postUrl job \<notin> urls db \<and> urls db2 = insert (j_postUrl job) (urls db)"
proof -
  from assms have n: "\<not> list_ex (\<lambda>r. Some (jr_postUrl r) = Some (j_postUrl job)) (db_jobs db)"
    and d: "db2 = add_job db (job_data_of c job)"
    by (auto simp: insertJobPost_def job_data_of_def split: if_splits)
  from n have "j_postUrl job \<notin> urls db"
    by (auto simp: urls_def list_ex_iff)
  moreover have "urls db2 = insert (j_postUrl job) (urls db)"
    by (auto simp: d urls_def add_job_def new_job_row_def job_data_of_def)
  ultimately show ?thesis by simp
qed

lemma insertJobPost_conflict:
  "insertJobPost db d = Inr (db2, None) \<Longrightarrow> db2 = db"
  by (auto simp: insertJobPost_def split: if_splits)

text \<open>
  One turn of the insert loop either leaves the URLs of the store and the collected ids as
  they are, or inserts the post under a URL the store did not hold and collects the raw id.
\<close>

lemma insert_loop_step:
  "(\<exists>db'. insert_loop db ids (job # rest) = insert_loop db' ids rest \<and> urls db' = urls db)
   \<or> (\<exists>db'. insert_loop db ids (job # rest) = insert_loop db' (ids @ [j_rawJobId job]) rest
          \<and> j_postUrl job \<notin> urls db \<and> urls db' = insert (j_postUrl job) (urls db))"
proof (cases "upsertCompany db (j_company job)")
  case (Inl e)
  then have "insert_loop db ids (job # rest) = insert_loop db ids rest \<and> urls db = urls db"
    by simp
  then show ?thesis by blast
next
  case (Inr p)
  obtain db1 c where p: "p = (db1, c)" by (cases p)
  have u: "urls db1 = urls db"
    using upsertCompany_jobs [of db "j_company job" db1 c] Inr p by (simp add: urls_def)
  show ?thesis
  proof (cases "insertJobPost db1 (job_data_of c job)")
    case (Inl e)
    then have "insert_loop db ids (job # rest) = insert_loop db1 ids rest"
      using Inr p by simp
    with u show ?thesis by blast
  next
    case r: (Inr q)
    obtain db2 v where q: "q = (db2, v)" by (cases q)
    show ?thesis
    proof (cases v)
      case None
      then have "db2 = db1"
        using insertJobPost_conflict [of db1 "job_data_of c job" db2] r q by simp
      moreover have "insert_loop db ids (job # rest) = insert_loop db2 ids rest"
        using Inr p r q None by simp
      ultimately show ?thesis using u by blast
    next
      case (Some jobId)
      have "j_postUrl job \<notin> urls db1 \<and> urls db2 = insert (j_postUrl job) (urls db1)"
        using insertJobPost_inserted [of db1 c job db2 jobId] r q Some by simp
      moreover have "insert_loop db ids (job # rest)
          = insert_loop db2 (ids @ [j_rawJobId job]) rest"
        using Inr p r q Some by simp
      ultimately show ?thesis using u by auto
    qed
  qed
qed

lemma insert_loop_urls:
  "urls db \<subseteq> urls (fst (insert_loop db ids jobs))"
proof (induction jobs arbitrary: db ids)
  case Nil
  then show ?case by simp
next
  case (Cons job rest)
  from insert_loop_step [of db ids job rest] show ?case
  proof (elim disjE exE conjE)
    fix db'
    assume "insert_loop db ids (job # rest) = insert_loop db' ids rest" and "urls db' = urls db"
    then show ?thesis using Cons.IH [of db' ids] by simp
  next
    fix db'
    assume "insert_loop db ids (job # rest) = insert_loop db' (ids @ [j_rawJobId job]) rest"
      and "urls db' = insert (j_postUrl job) (urls db)"
    then show ?thesis using Cons.IH [of db' "ids @ [j_rawJobId job]"] by auto
  qed
qed

lemma insert_loop_urls_bound:
  "urls (fst (insert_loop db ids jobs)) \<subseteq> urls db \<union> j_postUrl ` set jobs"
proof (induction jobs arbitrary: db ids)
  case Nil
  then show ?case by simp
next
  case (Cons job rest)
  from insert_loop_step [of db ids job rest] show ?case
  proof (elim disjE exE conjE)
    fix db'
    assume "insert_loop db ids (job # rest) = insert_loop db' ids rest" and "urls db' = urls db"
    then show ?thesis using Cons.IH [of db' ids] by auto
  next
    fix db'
    assume "insert_loop db ids (job # rest) = insert_loop db' (ids @ [j_rawJobId job]) rest"
      and "urls db' = insert (j_postUrl job) (urls db)"
    then show ?thesis using Cons.IH [of db' "ids @ [j_rawJobId job]"] by auto
  qed
qed

text \<open>
  The ids the insert loop collects are, in order, the raw ids of the candidates whose URL the
  loop has added to the store.
\<close>

lemma insert_loop_exact:
  "distinct (map j_postUrl jobs) \<Longrightarrow>
   snd (insert_loop db ids jobs)
     = ids @ map j_rawJobId
         (filter (\<lambda>j. j_postUrl j \<in> urls (fst (insert_loop db ids jobs)) \<and> j_postUrl j \<notin> urls db)
            jobs)"
proof (induction jobs arbitrary: db ids)
  case Nil
  then show ?case by simp
next
  case (Cons job rest)
  from Cons.prems have fresh: "j_postUrl job \<notin> j_postUrl ` set rest"
    and dr: "distinct (map j_postUrl rest)"
    by simp_all
  from insert_loop_step [of db ids job rest] show ?case
  proof (elim disjE exE conjE)
    fix db'
    assume e: "insert_loop db ids (job # rest) = insert_loop db' ids rest"
      and u: "urls db' = urls db"
    have "urls (fst (insert_loop db' ids rest)) \<subseteq> urls db' \<union> j_postUrl ` set rest"
      by (rule insert_loop_urls_bound)
    with fresh u
    have skip: "\<not> (j_postUrl job \<in> urls (fst (insert_loop db' ids rest)) \<and> j_postUrl job \<notin> urls db)"
      by auto
    from Cons.IH [OF dr, of db' ids] e u skip show ?thesis
      by simp
  next
    fix db'
    assume e: "insert_loop db ids (job # rest) = insert_loop db' (ids @ [j_rawJobId job]) rest"
      and n: "j_postUrl job \<notin> urls db"
      and u: "urls db' = insert (j_postUrl job) (urls db)"
    have "urls db' \<subseteq> urls (fst (insert_loop db' (ids @ [j_rawJobId job]) rest))"
      by (rule insert_loop_urls)
    with u have here: "j_postUrl job \<in> urls (fst (insert_loop db' (ids @ [j_rawJobId job]) rest))"
      by auto
    have same: "filter (\<lambda>j. j_postUrl j \<in> urls (fst (insert_loop db' (ids @ [j_rawJobId job]) rest))
                         \<and> j_postUrl j \<notin> urls db') rest
        = filter (\<lambda>j. j_postUrl j \<in> urls (fst (insert_loop db' (ids @ [j_rawJobId job]) rest))
                         \<and> j_postUrl j \<notin> urls db) rest"
    proof (intro filter_cong refl)
      fix j
      assume "j \<in> set rest"
      with fresh have "j_postUrl j \<noteq> j_postUrl job"
        by (metis imageI)
      with u show "(j_postUrl j \<in> urls (fst (insert_loop db' (ids @ [j_rawJobId job]) rest))
                         \<and> j_postUrl j \<notin> urls db')
        = (j_postUrl j \<in> urls (fst (insert_loop db' (ids @ [j_rawJobId job]) rest))
                         \<and> j_postUrl j \<notin> urls db)"
        by simp
    qed
    from Cons.IH [OF dr, of db' "ids @ [j_rawJobId job]"] e n here same show ?thesis
      by simp
  qed
qed

subsection \<open>The transformation loop\<close>

lemma transformJob_rawJobId:
  "transformJob rt this x g = Inr job \<Longrightarrow> j_rawJobId job = r_job_id x \<and> j_postUrl job = r_url x"
  by (auto simp: transformJob_def Let_def split: sum.splits)

lemma processJobs_loop_urls:
  "map j_postUrl (fst (processJobs_loop rt this g st acc raws))
     = map j_postUrl acc @ map r_url (filter (transformed rt this g) raws)"
proof (induction raws arbitrary: st acc)
  case Nil
  then show ?case by simp
next
  case (Cons x rest)
  show ?case
  proof (cases "transformJob rt this x g")
    case (Inl e)
    then show ?thesis by (simp add: Cons.IH transformed_def)
  next
    case (Inr job)
    then show ?thesis
      using transformJob_rawJobId [of rt this x g job] by (simp add: Cons.IH transformed_def)
  qed
qed

lemma processJobs_loop_ids:
  "map j_rawJobId (filter (\<lambda>j. Q (j_postUrl j)) (fst (processJobs_loop rt this g st acc raws)))
     = map j_rawJobId (filter (\<lambda>j. Q (j_postUrl j)) acc)
       @ map r_job_id (filter (\<lambda>x. transformed rt this g x \<and> Q (r_url x)) raws)"
proof (induction raws arbitrary: st acc)
  case Nil
  then show ?case by simp
next
  case (Cons x rest)
  show ?case
  proof (cases "transformJob rt this x g")
    case (Inl e)
    then show ?thesis by (simp add: Cons.IH transformed_def)
  next
    case (Inr job)
    then show ?thesis
      using transformJob_rawJobId [of rt this x g job] by (simp add: Cons.IH transformed_def)
  qed
qed

subsection \<open>One cycle of the orchestrator for one source\<close>

lemma distinct_map_sort_key:
  "distinct (map f xs) \<Longrightarrow> distinct (map f (sort_key k xs))"
  by (simp add: distinct_map)

lemma distinct_batch:
  assumes "distinct (map (\<lambda>r. f (rr_job r)) raw)"
  shows "distinct (map f (getUnprocessedJobs raw name limit))"
proof -
  let ?xs = "map rr_job (filter (\<lambda>r. \<not> rr_processed r \<and> rr_platform r = name) raw)"
  have "distinct (map (\<lambda>r. f (rr_job r))
            (filter (\<lambda>r. \<not> rr_processed r \<and> rr_platform r = name) raw))"
    using assms by (rule distinct_map_filter)
  then have "distinct (map f ?xs)"
    by (simp add: comp_def)
  then have "distinct (map f (sort_key r_crawled_time ?xs))"
    by (rule distinct_map_sort_key)
  then have "distinct (take limit (map f (sort_key r_crawled_time ?xs)))"
    by (rule distinct_take)
  then show ?thesis
    by (simp add: getUnprocessedJobs_def take_map)
qed

lemma process_platform_empty:
  "getUnprocessedJobs raw name limit = [] \<Longrightarrow>
   process_platform rt this g name limit raw db
     = \<lparr>cy_raw = raw, cy_clean = db, cy_marked = [], cy_stats = empty_stats\<rparr>"
  unfolding process_platform_def by simp

lemma process_platform_nonempty:
  "getUnprocessedJobs raw name limit \<noteq> [] \<Longrightarrow>
   process_platform rt this g name limit raw db
     = \<lparr>cy_raw =
          (if snd (insert_loop db []
                 (fst (processJobs rt this empty_stats (getUnprocessedJobs raw name limit) g))) \<noteq> []
           then markJobsProcessed raw
                  (snd (insert_loop db []
                     (fst (processJobs rt this empty_stats (getUnprocessedJobs raw name limit) g))))
           else raw),
        cy_clean =
          fst (insert_loop db []
                 (fst (processJobs rt this empty_stats (getUnprocessedJobs raw name limit) g))),
        cy_marked =
          snd (insert_loop db []
                 (fst (processJobs rt this empty_stats (getUnprocessedJobs raw name limit) g))),
        cy_stats = snd (processJobs rt this empty_stats (getUnprocessedJobs raw name limit) g)\<rparr>"
  unfolding process_platform_def Let_def case_prod_unfold by simp

lemma cy_marked_nonempty:
  assumes "getUnprocessedJobs raw name limit \<noteq> []"
  shows "cy_marked (process_platform rt this g name limit raw db)
     = snd (insert_loop db []
                 (fst (processJobs rt this empty_stats (getUnprocessedJobs raw name limit) g)))"
  by (subst process_platform_nonempty [OF assms]) simp

lemma cy_clean_nonempty:
  assumes "getUnprocessedJobs raw name limit \<noteq> []"
  shows "cy_clean (process_platform rt this g name limit raw db)
     = fst (insert_loop db []
                 (fst (processJobs rt this empty_stats (getUnprocessedJobs raw name limit) g)))"
  by (subst process_platform_nonempty [OF assms]) simp

lemma cy_raw_nonempty:
  assumes "getUnprocessedJobs raw name limit \<noteq> []"
  shows "cy_raw (process_platform rt this g name limit raw db)
     = (if snd (insert_loop db []
                 (fst (processJobs rt this empty_stats (getUnprocessedJobs raw name limit) g))) = []
        then raw
        else markJobsProcessed raw (snd (insert_loop db []
                 (fst (processJobs rt this empty_stats (getUnprocessedJobs raw name limit) g)))))"
  by (subst process_platform_nonempty [OF assms]) simp

lemma process_platform_raw:
  "cy_raw (process_platform rt this g name limit raw db)
     = (if cy_marked (process_platform rt this g name limit raw db) = [] then raw
        else markJobsProcessed raw (cy_marked (process_platform rt this g name limit raw db)))"
proof (cases "getUnprocessedJobs raw name limit = []")
  case True
  have "process_platform rt this g name limit raw db
     = \<lparr>cy_raw = raw, cy_clean = db, cy_marked = [], cy_stats = empty_stats\<rparr>"
    using True by (rule process_platform_empty)
  then show ?thesis by simp
next
  case False
  show ?thesis
    by (simp only: cy_raw_nonempty [OF False] cy_marked_nonempty [OF False])
qed

text \<open>
  The ids a cycle marks are, in the order of the batch, the ids of the records that were
  transformed and whose URL the cycle has added to the normalized store.
\<close>

lemma process_platform_marked:
  assumes "distinct (map (\<lambda>r. r_url (rr_job r)) raw)"
  shows "cy_marked (process_platform rt this g name limit raw db)
     = map r_job_id
         (filter (\<lambda>x. transformed rt this g x
                    \<and> r_url x \<in> urls (cy_clean (process_platform rt this g name limit raw db))
                    \<and> r_url x \<notin> urls db)
            (getUnprocessedJobs raw name limit))"
proof (cases "getUnprocessedJobs raw name limit = []")
  case True
  have "process_platform rt this g name limit raw db
     = \<lparr>cy_raw = raw, cy_clean = db, cy_marked = [], cy_stats = empty_stats\<rparr>"
    using True by (rule process_platform_empty)
  with True show ?thesis by simp
next
  case False
  let ?batch = "getUnprocessedJobs raw name limit"
  let ?tj = "fst (processJobs rt this empty_stats ?batch g)"
  let ?final = "fst (insert_loop db [] ?tj)"
  have "distinct (map r_url ?batch)"
    using assms by (rule distinct_batch)
  then have "distinct (map r_url (filter (transformed rt this g) ?batch))"
    by (rule distinct_map_filter)
  then have d: "distinct (map j_postUrl ?tj)"
    by (simp add: processJobs_def processJobs_loop_urls)
  have "snd (insert_loop db [] ?tj)
      = map j_rawJobId (filter (\<lambda>j. j_postUrl j \<in> urls ?final \<and> j_postUrl j \<notin> urls db) ?tj)"
    using insert_loop_exact [OF d, of db "[]"] by simp
  also have "\<dots> = map r_job_id
         (filter (\<lambda>x. transformed rt this g x \<and> r_url x \<in> urls ?final \<and> r_url x \<notin> urls db) ?batch)"
    using processJobs_loop_ids [of "\<lambda>u. u \<in> urls ?final \<and> u \<notin> urls db" rt this g empty_stats
        "[]" ?batch]
    by (simp add: processJobs_def)
  finally show ?thesis
    by (simp only: cy_marked_nonempty [OF False] cy_clean_nonempty [OF False])
qed

lemma process_platform_marks_record:
  assumes u: "distinct (map (\<lambda>r. r_url (rr_job r)) raw)"
    and i: "distinct (map (\<lambda>r. r_job_id (rr_job r)) raw)"
    and x: "x \<in> set (getUnprocessedJobs raw name limit)"
  shows "(r_job_id x \<in> set (cy_marked (process_platform rt this g name limit raw db)))
     = (transformed rt this g x
        \<and> r_url x \<in> urls (cy_clean (process_platform rt this g name limit raw db))
        \<and> r_url x \<notin> urls db)"
proof -
  let ?R = "\<lambda>x. transformed rt this g x
                    \<and> r_url x \<in> urls (cy_clean (process_platform rt this g name limit raw db))
                    \<and> r_url x \<notin> urls db"
  have inj: "inj_on r_job_id (set (getUnprocessedJobs raw name limit))"
    using distinct_batch [OF i, of name limit] by (simp add: distinct_map)
  have "set (cy_marked (process_platform rt this g name limit raw db))
      = r_job_id ` {y \<in> set (getUnprocessedJobs raw name limit). ?R y}"
    by (subst process_platform_marked [OF u]) simp
  then have "(r_job_id x \<in> set (cy_marked (process_platform rt this g name limit raw db)))
      = (\<exists>y \<in> {y \<in> set (getUnprocessedJobs raw name limit). ?R y}. r_job_id x = r_job_id y)"
    by (simp only: image_iff)
  also have "\<dots>
      = (\<exists>y \<in> set (getUnprocessedJobs raw name limit). ?R y \<and> r_job_id y = r_job_id x)"
    by auto
  also have "\<dots> = ?R x"
  proof
    assume "\<exists>y \<in> set (getUnprocessedJobs raw name limit). ?R y \<and> r_job_id y = r_job_id x"
    then obtain y where y: "y \<in> set (getUnprocessedJobs raw name limit)" and r: "?R y"
      and e: "r_job_id y = r_job_id x"
      by blast
    from inj y x e have "y = x" by (auto dest: inj_onD)
    with r show "?R x" by simp
  next
    assume "?R x"
    with x show "\<exists>y \<in> set (getUnprocessedJobs raw name limit). ?R y \<and> r_job_id y = r_job_id x"
      by blast
  qed
  finally show ?thesis .
qed

lemma batch_rows:
  assumes "x \<in> set (getUnprocessedJobs raw name limit)"
  shows "\<exists>row \<in> set raw. rr_job row = x \<and> \<not> rr_processed row \<and> rr_platform row = name"
proof -
  from assms have "x \<in> set (sort_key r_crawled_time
      (map rr_job (filter (\<lambda>r. \<not> rr_processed r \<and> rr_platform r = name) raw)))"
    unfolding getUnprocessedJobs_def by (rule in_set_takeD)
  then have "x \<in> rr_job ` {r \<in> set raw. \<not> rr_processed r \<and> rr_platform r = name}"
    by simp
  then show ?thesis by blast
qed

text \<open>The batched update sets the flag of the rows whose id it is given and of no other row.\<close>

lemma marked_row:
  assumes "row \<in> set raw" and "\<not> rr_processed row"
  shows "\<exists>row' \<in> set (markJobsProcessed raw ids).
           rr_job row' = rr_job row \<and> rr_processed row' = (r_job_id (rr_job row) \<in> set ids)"
proof -
  let ?f = "\<lambda>r. if r_job_id (rr_job r) \<in> set ids then r\<lparr>rr_processed := True\<rparr> else r"
  have "?f row \<in> ?f ` set raw"
    using assms(1) by (rule imageI)
  then have m: "?f row \<in> set (markJobsProcessed raw ids)"
    unfolding markJobsProcessed_def by simp
  have "rr_job (?f row) = rr_job row \<and> rr_processed (?f row) = (r_job_id (rr_job row) \<in> set ids)"
    using assms(2) by simp
  with m show ?thesis by blast
qed

lemma process_platform_row:
  assumes "x \<in> set (getUnprocessedJobs raw name limit)"
  shows "\<exists>row \<in> set (cy_raw (process_platform rt this g name limit raw db)).
           rr_job row = x
           \<and> rr_processed row
             = (r_job_id x \<in> set (cy_marked (process_platform rt this g name limit raw db)))"
proof -
  from assms obtain row where r: "row \<in> set raw" "rr_job row = x" "\<not> rr_processed row"
    using batch_rows by blast
  show ?thesis
  proof (cases "cy_marked (process_platform rt this g name limit raw db) = []")
    case True
    then have "cy_raw (process_platform rt this g name limit raw db) = raw"
      by (simp add: process_platform_raw)
    with r True show ?thesis by auto
  next
    case False
    then have "cy_raw (process_platform rt this g name limit raw db)
        = markJobsProcessed raw (cy_marked (process_platform rt this g name limit raw db))"
      by (simp add: process_platform_raw)
    with marked_row [OF r(1) r(3), of "cy_marked (process_platform rt this g name limit raw db)"] r(2)
    show ?thesis by auto
  qed
qed

subsection \<open>The batch loop of the base processor\<close>

lemma store_extends_refl: "store_extends db db"
  by (simp add: store_extends_def)

lemma store_extends_trans:
  assumes "store_extends a b" and "store_extends b c"
  shows "store_extends a c"
proof -
  from assms have "take (length (db_jobs a)) (db_jobs b) = db_jobs a"
    and "take (length (db_jobs b)) (db_jobs c) = db_jobs b"
    by (simp_all add: store_extends_def)
  then have "take (length (db_jobs a)) (db_jobs c) = db_jobs a"
    by (metis append_eq_conv_conj append_assoc append_take_drop_id)
  with assms show ?thesis
    by (simp add: store_extends_def)
qed

lemma store_extends_add_job: "store_extends db (add_job db d)"
  by (simp add: store_extends_def add_job_def)

lemma store_extends_jobs:
  "store_extends db db' \<Longrightarrow> set (db_jobs db) \<subseteq> set (db_jobs db')"
  by (metis store_extends_def set_take_subset)

lemma store_extends_accepts:
  assumes "store_extends db db'"
  shows "job_rejected db' d = job_rejected db d \<and> fk_violated db' d = fk_violated db d"
proof -
  from assms have c: "db_companies db' = db_companies db"
    and r: "db_refuses db' = db_refuses db" and g: "db_dangling db' = db_dangling db"
    by (simp_all add: store_extends_def)
  have "company_known db' (jd_companyId d) = company_known db (jd_companyId d)"
    by (cases "jd_companyId d") (simp_all add: company_known_def c)
  then show ?thesis
    by (simp add: job_rejected_def fk_violated_def r g)
qed

lemma store_extends_title_key: "store_extends db db' \<Longrightarrow> title_key db' = title_key db"
  by (rule ext) (simp add: store_extends_def title_key_def)

lemma post_stored_mono:
  assumes e: "store_extends db db'" and s: "post_stored db pid d"
  shows "post_stored db' pid d"
proof -
  note sub = store_extends_jobs [OF e]
  note tk = store_extends_title_key [OF e]
  from s have "findJobByUrl db (jd_postUrl d) \<noteq> None
      \<or> findJobByCompanyTitlePlatform db (jd_companyId d) (jd_title d) pid \<noteq> None"
    by (simp add: post_stored_def)
  then show ?thesis
  proof
    assume "findJobByUrl db (jd_postUrl d) \<noteq> None"
    then obtain r where "r \<in> set (db_jobs db)" and "Some (jr_postUrl r) = jd_postUrl d"
      by (auto simp: findJobByUrl_def find_None_iff)
    with sub have "\<exists>r \<in> set (db_jobs db'). Some (jr_postUrl r) = jd_postUrl d"
      by blast
    then have "findJobByUrl db' (jd_postUrl d) \<noteq> None"
      by (auto simp: findJobByUrl_def find_None_iff)
    then show ?thesis by (simp add: post_stored_def)
  next
    assume "findJobByCompanyTitlePlatform db (jd_companyId d) (jd_title d) pid \<noteq> None"
    then obtain r where "r \<in> set (db_jobs db)"
      and "Some (jr_companyId r) = jd_companyId d
           \<and> map_option (title_key db) (jd_title d) = Some (title_key db (jr_title r))
           \<and> Some (Val (jr_platformId r)) = pid"
      by (auto simp: findJobByCompanyTitlePlatform_def find_None_iff)
    with sub have "\<exists>r \<in> set (db_jobs db'). Some (jr_companyId r) = jd_companyId d
           \<and> map_option (title_key db') (jd_title d) = Some (title_key db' (jr_title r))
           \<and> Some (Val (jr_platformId r)) = pid"
      unfolding tk by blast
    then have "findJobByCompanyTitlePlatform db' (jd_companyId d) (jd_title d) pid \<noteq> None"
      by (auto simp: findJobByCompanyTitlePlatform_def find_None_iff)
    then show ?thesis by (simp add: post_stored_def)
  qed
qed

lemma createJobPost_normal:
  assumes "createJobPost db d = Inr (db', r)"
  shows "store_extends db db' \<and> post_stored db' (jd_platformId d) d"
proof (cases "findJobByUrl db (jd_postUrl d)")
  case (Some i)
  with assms have "db' = db" by (simp add: createJobPost_def)
  with Some show ?thesis by (simp add: store_extends_refl post_stored_def)
next
  case None
  show ?thesis
  proof (cases "findJobByCompanyTitlePlatform db (jd_companyId d) (jd_title d) (jd_platformId d)")
    case (Some i)
    with None assms have "db' = db" by (simp add: createJobPost_def)
    with Some show ?thesis by (simp add: store_extends_refl post_stored_def)
  next
    case n: None
    with None assms have ok: "\<not> job_rejected db d" and a: "db' = add_job db d"
      by (auto simp: createJobPost_def split: if_splits)
    from ok obtain u where u: "jd_postUrl d = Some u"
      by (auto simp: job_rejected_def)
    have "new_job_row db d \<in> set (db_jobs db')"
      by (simp add: a add_job_def)
    moreover have "Some (jr_postUrl (new_job_row db d)) = jd_postUrl d"
      by (simp add: new_job_row_def u)
    ultimately have "\<exists>r \<in> set (db_jobs db'). Some (jr_postUrl r) = jd_postUrl d"
      by blast
    then have "findJobByUrl db' (jd_postUrl d) \<noteq> None"
      by (auto simp: findJobByUrl_def find_None_iff)
    then show ?thesis
      by (simp add: a store_extends_add_job post_stored_def)
  qed
qed

lemma insertCleanJob_normal:
  assumes "insertCleanJob pid db d = Inr (db', r)"
  shows "required_fields d \<and> store_extends db db' \<and> post_stored db' pid d"
proof -
  from assms have q: "required_fields d"
    and c: "createJobPost db (d\<lparr>jd_platformId := pid\<rparr>) = Inr (db', r)"
    by (auto simp: insertCleanJob_def required_fields_def split: if_splits)
  from createJobPost_normal [OF c]
  have "store_extends db db'" and "post_stored db' pid (d\<lparr>jd_platformId := pid\<rparr>)"
    by simp_all
  with q show ?thesis
    by (simp add: post_stored_def)
qed

lemma insertCleanJob_accepts:
  assumes "required_fields d"
    and "\<not> job_rejected db (d\<lparr>jd_platformId := pid\<rparr>)"
    and "\<not> fk_violated db (d\<lparr>jd_platformId := pid\<rparr>)"
  shows "\<exists>db' r. insertCleanJob pid db d = Inr (db', r)"
  using assms
  by (auto simp: insertCleanJob_def required_fields_def createJobPost_def split: option.splits)

text \<open>
  One turn of the batch loop either collects nothing, because \<open>processJob\<close> or
  \<open>insertCleanJob\<close> did not return a result, or collects the raw id after \<open>insertCleanJob\<close>
  has returned.
\<close>

lemma batch_loop_step:
  "(\<exists>res'. batch_loop pj pid db res (x # rest) = batch_loop pj pid db res' rest
        \<and> br_processedJobIds res' = br_processedJobIds res
        \<and> \<not> (\<exists>d db' r. pj x = Inr (Some d) \<and> insertCleanJob pid db d = Inr (db', r)))
   \<or> (\<exists>d db' r res'. pj x = Inr (Some d) \<and> insertCleanJob pid db d = Inr (db', r)
        \<and> batch_loop pj pid db res (x # rest) = batch_loop pj pid db' res' rest
        \<and> br_processedJobIds res' = br_processedJobIds res @ [r_job_id x])"
proof (cases "pj x")
  case (Inl e)
  then have "batch_loop pj pid db res (x # rest)
      = batch_loop pj pid db (res\<lparr>br_errors := br_errors res + 1\<rparr>) rest
    \<and> br_processedJobIds (res\<lparr>br_errors := br_errors res + 1\<rparr>) = br_processedJobIds res
    \<and> \<not> (\<exists>d db' r. pj x = Inr (Some d) \<and> insertCleanJob pid db d = Inr (db', r))"
    by simp
  then show ?thesis by blast
next
  case (Inr v)
  show ?thesis
  proof (cases v)
    case None
    with Inr have "batch_loop pj pid db res (x # rest)
        = batch_loop pj pid db (res\<lparr>br_errors := br_errors res + 1\<rparr>) rest
      \<and> br_processedJobIds (res\<lparr>br_errors := br_errors res + 1\<rparr>) = br_processedJobIds res
      \<and> \<not> (\<exists>d db' r. pj x = Inr (Some d) \<and> insertCleanJob pid db d = Inr (db', r))"
      by simp
    then show ?thesis by blast
  next
    case (Some d)
    show ?thesis
    proof (cases "insertCleanJob pid db d")
      case (Inl e)
      with Inr Some have "batch_loop pj pid db res (x # rest)
          = batch_loop pj pid db (res\<lparr>br_errors := br_errors res + 1\<rparr>) rest
        \<and> br_processedJobIds (res\<lparr>br_errors := br_errors res + 1\<rparr>) = br_processedJobIds res
        \<and> \<not> (\<exists>d db' r. pj x = Inr (Some d) \<and> insertCleanJob pid db d = Inr (db', r))"
        by simp
      then show ?thesis by blast
    next
      case i: (Inr q)
      obtain db' r where q: "q = (db', r)" by (cases q)
      let ?res = "res\<lparr>br_created := br_created res + (if cr_created r then 1 else 0),
                      br_skipped := br_skipped res + (if cr_created r then 0 else 1),
                      br_processed := br_processed res + 1,
                      br_processedJobIds := br_processedJobIds res @ [r_job_id x]\<rparr>"
      from Inr Some i q have "pj x = Inr (Some d) \<and> insertCleanJob pid db d = Inr (db', r)
        \<and> batch_loop pj pid db res (x # rest) = batch_loop pj pid db' ?res rest
        \<and> br_processedJobIds ?res = br_processedJobIds res @ [r_job_id x]"
        by simp
      then show ?thesis by blast
    qed
  qed
qed

lemma batch_loop_extends: "store_extends db (fst (batch_loop pj pid db res raws))"
proof (induction raws arbitrary: db res)
  case Nil
  then show ?case by (simp add: store_extends_refl)
next
  case (Cons x rest)
  from batch_loop_step [of pj pid db res x rest] show ?case
  proof (elim disjE exE conjE)
    fix res'
    assume "batch_loop pj pid db res (x # rest) = batch_loop pj pid db res' rest"
    then show ?thesis using Cons.IH [of db res'] by simp
  next
    fix d db' r res'
    assume "insertCleanJob pid db d = Inr (db', r)"
      and e: "batch_loop pj pid db res (x # rest) = batch_loop pj pid db' res' rest"
    then have "store_extends db db'"
      using insertCleanJob_normal by blast
    with Cons.IH [of db' res'] have "store_extends db (fst (batch_loop pj pid db' res' rest))"
      by (rule store_extends_trans [rotated])
    with e show ?thesis by simp
  qed
qed

lemma batch_loop_keeps:
  "set (br_processedJobIds res) \<subseteq> set (br_processedJobIds (snd (batch_loop pj pid db res raws)))"
proof (induction raws arbitrary: db res)
  case Nil
  then show ?case by simp
next
  case (Cons x rest)
  from batch_loop_step [of pj pid db res x rest] show ?case
  proof (elim disjE exE conjE)
    fix res'
    assume "batch_loop pj pid db res (x # rest) = batch_loop pj pid db res' rest"
      and "br_processedJobIds res' = br_processedJobIds res"
    then show ?thesis using Cons.IH [of res' db] by simp
  next
    fix d db' r res'
    assume "batch_loop pj pid db res (x # rest) = batch_loop pj pid db' res' rest"
      and "br_processedJobIds res' = br_processedJobIds res @ [r_job_id x]"
    then show ?thesis using Cons.IH [of res' db'] by auto
  qed
qed

text \<open>
  Every id the batch loop collects is the id of a record for which \<open>processJob\<close> returned a
  job with the three required fields and whose post is in the store at the end of the loop.
\<close>

lemma batch_loop_upper:
  "k \<in> set (br_processedJobIds (snd (batch_loop pj pid db res raws))) \<Longrightarrow>
   k \<in> set (br_processedJobIds res)
   \<or> (\<exists>y \<in> set raws. r_job_id y = k
         \<and> (\<exists>d. pj y = Inr (Some d) \<and> required_fields d
               \<and> post_stored (fst (batch_loop pj pid db res raws)) pid d))"
proof (induction raws arbitrary: db res)
  case Nil
  then show ?case by simp
next
  case (Cons x rest)
  from batch_loop_step [of pj pid db res x rest] show ?case
  proof (elim disjE exE conjE)
    fix res'
    assume e: "batch_loop pj pid db res (x # rest) = batch_loop pj pid db res' rest"
      and i: "br_processedJobIds res' = br_processedJobIds res"
    from Cons.prems e have "k \<in> set (br_processedJobIds (snd (batch_loop pj pid db res' rest)))"
      by simp
    from Cons.IH [OF this] e i show ?thesis by auto
  next
    fix d db' r res'
    assume p: "pj x = Inr (Some d)" and n: "insertCleanJob pid db d = Inr (db', r)"
      and e: "batch_loop pj pid db res (x # rest) = batch_loop pj pid db' res' rest"
      and i: "br_processedJobIds res' = br_processedJobIds res @ [r_job_id x]"
    from insertCleanJob_normal [OF n] have q: "required_fields d" and s: "post_stored db' pid d"
      by simp_all
    have "post_stored (fst (batch_loop pj pid db' res' rest)) pid d"
      using batch_loop_extends s by (rule post_stored_mono)
    with p q e have here: "\<exists>d. pj x = Inr (Some d) \<and> required_fields d
        \<and> post_stored (fst (batch_loop pj pid db res (x # rest))) pid d"
      by auto
    from Cons.prems e have "k \<in> set (br_processedJobIds (snd (batch_loop pj pid db' res' rest)))"
      by simp
    from Cons.IH [OF this] e i here show ?thesis by auto
  qed
qed

text \<open>
  Every record for which \<open>processJob\<close> returned a job with the three required fields that
  the database accepts is collected, whether its post is inserted or found to be a duplicate.
\<close>

lemma batch_loop_lower:
  assumes "y \<in> set raws" and "pj y = Inr (Some d)" and "required_fields d"
    and "\<not> job_rejected db (d\<lparr>jd_platformId := pid\<rparr>)"
    and "\<not> fk_violated db (d\<lparr>jd_platformId := pid\<rparr>)"
  shows "r_job_id y \<in> set (br_processedJobIds (snd (batch_loop pj pid db res raws)))"
  using assms
proof (induction raws arbitrary: db res)
  case Nil
  then show ?case by simp
next
  case (Cons x rest)
  from batch_loop_step [of pj pid db res x rest] show ?case
  proof (elim disjE exE conjE)
    fix res'
    assume e: "batch_loop pj pid db res (x # rest) = batch_loop pj pid db res' rest"
      and no: "\<not> (\<exists>d db' r. pj x = Inr (Some d) \<and> insertCleanJob pid db d = Inr (db', r))"
    have "x \<noteq> y"
    proof
      assume "x = y"
      with Cons.prems(2) have "pj x = Inr (Some d)" by simp
      moreover from insertCleanJob_accepts [OF Cons.prems(3,4,5)]
      obtain db' r where "insertCleanJob pid db d = Inr (db', r)" by blast
      ultimately show False using no by blast
    qed
    with Cons.prems(1) have "y \<in> set rest" by simp
    from Cons.IH [OF this Cons.prems(2,3,4,5), of res'] e show ?thesis by simp
  next
    fix d' db' r res'
    assume n: "insertCleanJob pid db d' = Inr (db', r)"
      and e: "batch_loop pj pid db res (x # rest) = batch_loop pj pid db' res' rest"
      and i: "br_processedJobIds res' = br_processedJobIds res @ [r_job_id x]"
    show ?thesis
    proof (cases "x = y")
      case True
      with i have "r_job_id y \<in> set (br_processedJobIds res')" by simp
      with batch_loop_keeps [of res' pj pid db' rest] e show ?thesis by auto
    next
      case False
      with Cons.prems(1) have m: "y \<in> set rest" by simp
      from insertCleanJob_normal [OF n] have "store_extends db db'" by simp
      from store_extends_accepts [OF this, of "d\<lparr>jd_platformId := pid\<rparr>"] Cons.prems(4,5)
      have "\<not> job_rejected db' (d\<lparr>jd_platformId := pid\<rparr>)"
        and "\<not> fk_violated db' (d\<lparr>jd_platformId := pid\<rparr>)"
        by simp_all
      from Cons.IH [OF m Cons.prems(2,3) this, of res'] e show ?thesis by simp
    qed
  qed
qed

lemma batchProcess_ids:
  "br_processedJobIds (snd (snd (batchProcess pj pid raw db rawJobs)))
     = br_processedJobIds (snd (batch_loop pj pid db
         \<lparr>br_total = length rawJobs, br_processed = 0, br_created = 0, br_skipped = 0,
           br_errors = 0, br_processedJobIds = []\<rparr> rawJobs))"
  by (simp add: batchProcess_def Let_def split_beta)

lemma batchProcess_clean:
  "fst (snd (batchProcess pj pid raw db rawJobs))
     = fst (batch_loop pj pid db
         \<lparr>br_total = length rawJobs, br_processed = 0, br_created = 0, br_skipped = 0,
           br_errors = 0, br_processedJobIds = []\<rparr> rawJobs)"
  by (simp add: batchProcess_def Let_def split_beta)

lemma batchProcess_raw:
  "fst (batchProcess pj pid raw db rawJobs)
     = (if br_processedJobIds (snd (snd (batchProcess pj pid raw db rawJobs))) = [] then raw
        else markJobsProcessed raw
               (br_processedJobIds (snd (snd (batchProcess pj pid raw db rawJobs)))))"
  by (simp add: batchProcess_def Let_def split_beta markJobsAsProcessed_def)

lemma batch_loop_append:
  "batch_loop pj pid db res (xs @ ys)
     = batch_loop pj pid (fst (batch_loop pj pid db res xs)) (snd (batch_loop pj pid db res xs)) ys"
proof (induction xs arbitrary: db res)
  case Nil
  then show ?case by simp
next
  case (Cons x rest)
  show ?case
  proof (cases "pj x")
    case (Inl e)
    then show ?thesis using Cons.IH by simp
  next
    case (Inr v)
    show ?thesis
    proof (cases v)
      case None
      with Inr show ?thesis using Cons.IH by simp
    next
      case (Some d)
      show ?thesis
      proof (cases "insertCleanJob pid db d")
        case (Inl e)
        with Inr Some show ?thesis using Cons.IH by simp
      next
        case i: (Inr q)
        obtain db' r where "q = (db', r)" by (cases q)
        with Inr Some i show ?thesis using Cons.IH by simp
      qed
    qed
  qed
qed

lemma batch_loop_store:
  "fst (batch_loop pj pid db res raws) = fst (batch_loop pj pid db res' raws)"
proof (induction raws arbitrary: db res res')
  case Nil
  then show ?case by simp
next
  case (Cons x rest)
  show ?case
  proof (cases "pj x")
    case (Inl e)
    then show ?thesis using Cons.IH by simp
  next
    case (Inr v)
    show ?thesis
    proof (cases v)
      case None
      with Inr show ?thesis using Cons.IH by simp
    next
      case (Some d)
      show ?thesis
      proof (cases "insertCleanJob pid db d")
        case (Inl e)
        with Inr Some show ?thesis using Cons.IH by simp
      next
        case i: (Inr q)
        obtain db' r where "q = (db', r)" by (cases q)
        with Inr Some i show ?thesis using Cons.IH by simp
      qed
    qed
  qed
qed

lemma batch_loop_turn:
  "br_processedJobIds (snd (batch_loop pj pid db res [x]))
     = br_processedJobIds res @ (if turn_marks pj pid db x then [r_job_id x] else [])"
  by (auto simp: turn_marks_def split: sum.splits option.splits)

text \<open>
  The ids the batch loop collects are, in order, the ids of the records whose turn collects
  one, each turn working on the store as the turns before it have left it.
\<close>

lemma batch_loop_exact:
  "br_processedJobIds (snd (batch_loop pj pid db res raws))
     = br_processedJobIds res
       @ map (\<lambda>i. r_job_id (raws ! i))
           (filter (\<lambda>i. turn_marks pj pid (fst (batch_loop pj pid db res (take i raws))) (raws ! i))
              [0 ..< length raws])"
proof (induction raws rule: rev_induct)
  case Nil
  then show ?case by simp
next
  case (snoc x xs)
  let ?M = "\<lambda>ys i. turn_marks pj pid (fst (batch_loop pj pid db res (take i ys))) (ys ! i)"
  have same: "filter (?M (xs @ [x])) [0 ..< length xs] = filter (?M xs) [0 ..< length xs]"
    by (intro filter_cong refl) (simp add: nth_append)
  have same_ids: "map (\<lambda>i. r_job_id ((xs @ [x]) ! i)) (filter (?M xs) [0 ..< length xs])
      = map (\<lambda>i. r_job_id (xs ! i)) (filter (?M xs) [0 ..< length xs])"
    by (intro map_cong refl) (simp add: nth_append)
  have last: "?M (xs @ [x]) (length xs) = turn_marks pj pid (fst (batch_loop pj pid db res xs)) x"
    by simp
  have "br_processedJobIds (snd (batch_loop pj pid db res (xs @ [x])))
      = br_processedJobIds (snd (batch_loop pj pid db res xs))
        @ (if turn_marks pj pid (fst (batch_loop pj pid db res xs)) x then [r_job_id x] else [])"
    by (simp only: batch_loop_append batch_loop_turn)
  also have "\<dots> = br_processedJobIds res
        @ map (\<lambda>i. r_job_id (xs ! i)) (filter (?M xs) [0 ..< length xs])
        @ (if turn_marks pj pid (fst (batch_loop pj pid db res xs)) x then [r_job_id x] else [])"
    by (simp add: snoc.IH)
  also have "\<dots> = br_processedJobIds res
        @ map (\<lambda>i. r_job_id ((xs @ [x]) ! i)) (filter (?M (xs @ [x])) [0 ..< length (xs @ [x])])"
    using same same_ids last by simp
  finally show ?case .
qed

lemma batchProcess_exact:
  "br_processedJobIds (snd (snd (batchProcess pj pid raw db rawJobs)))
     = map (\<lambda>i. r_job_id (rawJobs ! i))
         (filter (\<lambda>i. turn_marks pj pid (fst (snd (batchProcess pj pid raw db (take i rawJobs))))
                    (rawJobs ! i))
            [0 ..< length rawJobs])"
proof -
  let ?r = "\<lparr>br_total = length rawJobs, br_processed = 0, br_created = 0, br_skipped = 0,
           br_errors = 0, br_processedJobIds = []\<rparr>"
  have "fst (snd (batchProcess pj pid raw db (take i rawJobs)))
      = fst (batch_loop pj pid db ?r (take i rawJobs))" for i
    using batch_loop_store [of pj pid db _ "take i rawJobs" ?r]
    by (simp only: batchProcess_clean)
  then show ?thesis
    using batch_loop_exact [of pj pid db ?r rawJobs]
    by (simp add: batchProcess_ids)
qed

subsection \<open>What a cycle marks\<close>

lemma cycle_marked:
  "cy_marked (process_platform zero_runtime nolocation_processor demo_global ''TopCV'' 100
      two_row_store empty_db) = [''job-1'']"
  by code_simp

lemma cycle_batch: "getUnprocessedJobs two_row_store ''TopCV'' 100 = [demo_raw, hanoi_raw]"
  by code_simp

lemma cycle_distinct:
  "distinct (map (\<lambda>r. r_url (rr_job r)) two_row_store)
   \<and> distinct (map (\<lambda>r. r_job_id (rr_job r)) two_row_store)"
  by code_simp

lemma cycle_ids: "r_job_id demo_raw = ''job-1'' \<and> r_job_id hanoi_raw = ''job-2''"
  by code_simp

lemma hanoi_not_transformed:
  "\<not> transformed zero_runtime nolocation_processor demo_global hanoi_raw"
  by (simp add: transformed_def hanoi_transform_fails)

lemma batch_marked:
  "br_processedJobIds (snd (snd (batchProcess demo_processJob (Some (Val 4)) three_row_store
      one_job_store [demo_raw, hanoi_raw, halong_raw]))) = [''job-1'', ''job-2'']"
  by code_simp

lemma batch_hanoi:
  "demo_processJob hanoi_raw
     = Inr (Some \<lparr>jd_companyId = Some 1, jd_title = Some ''Data Analyst'',
                  jd_platformId = None, jd_postUrl = Some ''https://jobs.example/2'',
                  jd_columns = no_columns\<rparr>)
   \<and> required_fields
        \<lparr>jd_companyId = Some 1, jd_title = Some ''Data Analyst'',
         jd_platformId = None, jd_postUrl = Some ''https://jobs.example/2'',
         jd_columns = no_columns\<rparr>
   \<and> \<not> job_rejected one_job_store
        (\<lparr>jd_companyId = Some 1, jd_title = Some ''Data Analyst'',
          jd_platformId = None, jd_postUrl = Some ''https://jobs.example/2'',
          jd_columns = no_columns\<rparr>\<lparr>jd_platformId := Some (Val 4)\<rparr>)
   \<and> \<not> fk_violated one_job_store
        (\<lparr>jd_companyId = Some 1, jd_title = Some ''Data Analyst'',
          jd_platformId = None, jd_postUrl = Some ''https://jobs.example/2'',
          jd_columns = no_columns\<rparr>\<lparr>jd_platformId := Some (Val 4)\<rparr>)"
  by code_simp

lemma batch_halong: "demo_processJob halong_raw = Inl TypeError"
  by code_simp

text \<open>
  C2, as stated, fails. First, the raw store holds two unprocessed records of the source, and
  the source configuration has no location section. The cycle fetches both. The first has no
  location text, is transformed and inserted, and is marked processed. The second has the
  location \<open>Ha Noi\<close>; its transformation throws, it is counted as failed, and it is not
  marked: its row is still unprocessed after the cycle. Second, with a complete configuration,
  a record whose URL is already in the normalized store is transformed, its insert is a
  conflict that returns no id, and the record is not marked either.
\<close>

theorem failed_record_not_marked_counterexample:
  "getUnprocessedJobs two_row_store ''TopCV'' 100 = [demo_raw, hanoi_raw]
   \<and> transformJob zero_runtime nolocation_processor hanoi_raw demo_global = Inl TypeError
   \<and> cy_marked (process_platform zero_runtime nolocation_processor demo_global ''TopCV'' 100
        two_row_store empty_db) = [''job-1'']
   \<and> map rr_job (cy_raw (process_platform zero_runtime nolocation_processor demo_global ''TopCV'' 100
        two_row_store empty_db)) = [demo_raw, hanoi_raw]
   \<and> map rr_processed (cy_raw (process_platform zero_runtime nolocation_processor demo_global
        ''TopCV'' 100 two_row_store empty_db)) = [True, False]
   \<and> getUnprocessedJobs one_row_store ''TopCV'' 100 = [demo_raw]
   \<and> findJobByUrl one_job_store (Some (r_url demo_raw)) = Some 2
   \<and> cy_marked (process_platform zero_runtime date_processor demo_global ''TopCV'' 100
        one_row_store one_job_store) = []
   \<and> cy_raw (process_platform zero_runtime date_processor demo_global ''TopCV'' 100
        one_row_store one_job_store) = one_row_store"
  by code_simp

text \<open>
  C2, amended. After a cycle has handled a batch of raw records for a source, the raw store
  differs from the one before by a single batched update that marks the collected ids (no
  update when none was collected). The collected ids are exactly, and in the order of the
  batch, the ids of the attempted records whose transformation succeeded and whose job post
  the cycle inserted into the normalized store (its URL is in the store after the cycle and
  was not before); the raw store having unique URLs and ids, an attempted record is marked
  processed if and only if it is such a record. Every other attempted record (its
  transformation failed, its URL was already stored, or its insert failed) is still
  unprocessed after the cycle. Likewise \<open>batchProcess\<close> issues one batched update (none
  when it collected no id), and the ids it marks are exactly, in the order of the batch, the
  ids of the records for which \<open>processJob\<close> returned a job and \<open>insertCleanJob\<close> returned
  normally on the store as the earlier records of the batch left it. So it marks every
  record for which \<open>processJob\<close> returned a job with company id, title and URL that the
  database accepts, whether the post is inserted or skipped as a duplicate, and every id it
  marks is the id of a record for which \<open>processJob\<close> returned a job with these fields and
  whose post is in the normalized store afterwards (found by its URL, or by company, title
  and platform).
\<close>

theorem marks_exactly_inserted_records:
  "cy_raw (process_platform rt this g name limit raw db)
     = (if cy_marked (process_platform rt this g name limit raw db) = [] then raw
        else markJobsProcessed raw (cy_marked (process_platform rt this g name limit raw db)))
   \<and> (distinct (map (\<lambda>r. r_url (rr_job r)) raw) \<longrightarrow>
        cy_marked (process_platform rt this g name limit raw db)
          = map r_job_id
              (filter (\<lambda>x. transformed rt this g x
                         \<and> r_url x \<in> urls (cy_clean (process_platform rt this g name limit raw db))
                         \<and> r_url x \<notin> urls db)
                 (getUnprocessedJobs raw name limit)))
   \<and> (distinct (map (\<lambda>r. r_url (rr_job r)) raw) \<and> distinct (map (\<lambda>r. r_job_id (rr_job r)) raw)
        \<and> x \<in> set (getUnprocessedJobs raw name limit) \<longrightarrow>
        (r_job_id x \<in> set (cy_marked (process_platform rt this g name limit raw db)))
          = (transformed rt this g x
             \<and> r_url x \<in> urls (cy_clean (process_platform rt this g name limit raw db))
             \<and> r_url x \<notin> urls db))
   \<and> (x \<in> set (getUnprocessedJobs raw name limit) \<longrightarrow>
        (\<exists>row \<in> set (cy_raw (process_platform rt this g name limit raw db)).
            rr_job row = x
            \<and> rr_processed row
              = (r_job_id x \<in> set (cy_marked (process_platform rt this g name limit raw db)))))
   \<and> fst (batchProcess pj pid rawStore store rawJobs)
       = (if br_processedJobIds (snd (snd (batchProcess pj pid rawStore store rawJobs))) = []
          then rawStore
          else markJobsProcessed rawStore
                 (br_processedJobIds (snd (snd (batchProcess pj pid rawStore store rawJobs)))))
   \<and> br_processedJobIds (snd (snd (batchProcess pj pid rawStore store rawJobs)))
       = map (\<lambda>i. r_job_id (rawJobs ! i))
           (filter (\<lambda>i. turn_marks pj pid
                           (fst (snd (batchProcess pj pid rawStore store (take i rawJobs))))
                           (rawJobs ! i))
              [0 ..< length rawJobs])
   \<and> (y \<in> set rawJobs \<and> pj y = Inr (Some d) \<and> required_fields d
        \<and> \<not> job_rejected store (d\<lparr>jd_platformId := pid\<rparr>)
        \<and> \<not> fk_violated store (d\<lparr>jd_platformId := pid\<rparr>) \<longrightarrow>
        r_job_id y \<in> set (br_processedJobIds (snd (snd (batchProcess pj pid rawStore store rawJobs)))))
   \<and> (k \<in> set (br_processedJobIds (snd (snd (batchProcess pj pid rawStore store rawJobs)))) \<longrightarrow>
        (\<exists>z \<in> set rawJobs. r_job_id z = k
           \<and> (\<exists>c. pj z = Inr (Some c) \<and> required_fields c
                 \<and> post_stored (fst (snd (batchProcess pj pid rawStore store rawJobs))) pid c)))"
proof (intro conjI impI)
  show "cy_raw (process_platform rt this g name limit raw db)
     = (if cy_marked (process_platform rt this g name limit raw db) = [] then raw
        else markJobsProcessed raw (cy_marked (process_platform rt this g name limit raw db)))"
    by (rule process_platform_raw)
next
  assume "distinct (map (\<lambda>r. r_url (rr_job r)) raw)"
  then show "cy_marked (process_platform rt this g name limit raw db)
          = map r_job_id
              (filter (\<lambda>x. transformed rt this g x
                         \<and> r_url x \<in> urls (cy_clean (process_platform rt this g name limit raw db))
                         \<and> r_url x \<notin> urls db)
                 (getUnprocessedJobs raw name limit))"
    by (rule process_platform_marked)
next
  assume "distinct (map (\<lambda>r. r_url (rr_job r)) raw) \<and> distinct (map (\<lambda>r. r_job_id (rr_job r)) raw)
        \<and> x \<in> set (getUnprocessedJobs raw name limit)"
  then show "(r_job_id x \<in> set (cy_marked (process_platform rt this g name limit raw db)))
          = (transformed rt this g x
             \<and> r_url x \<in> urls (cy_clean (process_platform rt this g name limit raw db))
             \<and> r_url x \<notin> urls db)"
    using process_platform_marks_record [of raw x name limit rt this g db] by blast
next
  assume "x \<in> set (getUnprocessedJobs raw name limit)"
  then show "\<exists>row \<in> set (cy_raw (process_platform rt this g name limit raw db)).
            rr_job row = x
            \<and> rr_processed row
              = (r_job_id x \<in> set (cy_marked (process_platform rt this g name limit raw db)))"
    by (rule process_platform_row)
next
  show "fst (batchProcess pj pid rawStore store rawJobs)
       = (if br_processedJobIds (snd (snd (batchProcess pj pid rawStore store rawJobs))) = []
          then rawStore
          else markJobsProcessed rawStore
                 (br_processedJobIds (snd (snd (batchProcess pj pid rawStore store rawJobs)))))"
    by (rule batchProcess_raw)
next
  show "br_processedJobIds (snd (snd (batchProcess pj pid rawStore store rawJobs)))
       = map (\<lambda>i. r_job_id (rawJobs ! i))
           (filter (\<lambda>i. turn_marks pj pid
                           (fst (snd (batchProcess pj pid rawStore store (take i rawJobs))))
                           (rawJobs ! i))
              [0 ..< length rawJobs])"
    by (rule batchProcess_exact)
next
  assume a: "y \<in> set rawJobs \<and> pj y = Inr (Some d) \<and> required_fields d
        \<and> \<not> job_rejected store (d\<lparr>jd_platformId := pid\<rparr>)
        \<and> \<not> fk_violated store (d\<lparr>jd_platformId := pid\<rparr>)"
  then have "r_job_id y \<in> set (br_processedJobIds (snd (batch_loop pj pid store
         \<lparr>br_total = length rawJobs, br_processed = 0, br_created = 0, br_skipped = 0,
           br_errors = 0, br_processedJobIds = []\<rparr> rawJobs)))"
    by (intro batch_loop_lower [of y rawJobs pj d store pid]) simp_all
  then show "r_job_id y
      \<in> set (br_processedJobIds (snd (snd (batchProcess pj pid rawStore store rawJobs))))"
    by (simp only: batchProcess_ids)
next
  assume "k \<in> set (br_processedJobIds (snd (snd (batchProcess pj pid rawStore store rawJobs))))"
  then have "k \<in> set (br_processedJobIds (snd (batch_loop pj pid store
         \<lparr>br_total = length rawJobs, br_processed = 0, br_created = 0, br_skipped = 0,
           br_errors = 0, br_processedJobIds = []\<rparr> rawJobs)))"
    by (simp only: batchProcess_ids)
  from batch_loop_upper [OF this]
  show "\<exists>z \<in> set rawJobs. r_job_id z = k
           \<and> (\<exists>c. pj z = Inr (Some c) \<and> required_fields c
                 \<and> post_stored (fst (snd (batchProcess pj pid rawStore store rawJobs))) pid c)"
    by (simp add: batchProcess_clean)
qed

theorem marks_exactly_inserted_records_witness:
  "cy_raw (process_platform zero_runtime nolocation_processor demo_global ''TopCV'' 100
       two_row_store empty_db)
     = markJobsProcessed two_row_store [''job-1'']
   \<and> cy_marked (process_platform zero_runtime nolocation_processor demo_global ''TopCV'' 100
       two_row_store empty_db)
     = map r_job_id
         (filter (\<lambda>x. transformed zero_runtime nolocation_processor demo_global x
                    \<and> r_url x \<in> urls (cy_clean (process_platform zero_runtime nolocation_processor
                                   demo_global ''TopCV'' 100 two_row_store empty_db))
                    \<and> r_url x \<notin> urls empty_db)
            [demo_raw, hanoi_raw])
   \<and> (transformed zero_runtime nolocation_processor demo_global demo_raw
       \<and> r_url demo_raw \<in> urls (cy_clean (process_platform zero_runtime nolocation_processor
                                   demo_global ''TopCV'' 100 two_row_store empty_db))
       \<and> r_url demo_raw \<notin> urls empty_db)
   \<and> ''job-2'' \<notin> set (cy_marked (process_platform zero_runtime nolocation_processor demo_global
         ''TopCV'' 100 two_row_store empty_db))
   \<and> (\<exists>row \<in> set (cy_raw (process_platform zero_runtime nolocation_processor demo_global
         ''TopCV'' 100 two_row_store empty_db)). rr_job row = demo_raw \<and> rr_processed row)
   \<and> (\<exists>row \<in> set (cy_raw (process_platform zero_runtime nolocation_processor demo_global
         ''TopCV'' 100 two_row_store empty_db)). rr_job row = hanoi_raw \<and> \<not> rr_processed row)
   \<and> fst (batchProcess demo_processJob (Some (Val 4)) three_row_store one_job_store
         [demo_raw, hanoi_raw, halong_raw])
     = markJobsProcessed three_row_store [''job-1'', ''job-2'']
   \<and> map (\<lambda>i. r_job_id ([demo_raw, hanoi_raw, halong_raw] ! i))
         (filter (\<lambda>i. turn_marks demo_processJob (Some (Val 4))
                    (fst (snd (batchProcess demo_processJob (Some (Val 4)) three_row_store
                       one_job_store (take i [demo_raw, hanoi_raw, halong_raw]))))
                    ([demo_raw, hanoi_raw, halong_raw] ! i))
            [0 ..< length [demo_raw, hanoi_raw, halong_raw]])
     = [''job-1'', ''job-2'']
   \<and> ''job-2'' \<in> set (br_processedJobIds (snd (snd (batchProcess demo_processJob (Some (Val 4))
         three_row_store one_job_store [demo_raw, hanoi_raw, halong_raw]))))
   \<and> (\<exists>z \<in> set [demo_raw, hanoi_raw, halong_raw]. r_job_id z = ''job-1''
         \<and> (\<exists>c. demo_processJob z = Inr (Some c) \<and> required_fields c
               \<and> post_stored (fst (snd (batchProcess demo_processJob (Some (Val 4))
                     three_row_store one_job_store [demo_raw, hanoi_raw, halong_raw])))
                   (Some (Val 4)) c))"
proof -
  let ?P = "process_platform zero_runtime nolocation_processor demo_global ''TopCV'' 100
       two_row_store empty_db"
  let ?B = "batchProcess demo_processJob (Some (Val 4)) three_row_store one_job_store
         [demo_raw, hanoi_raw, halong_raw]"
  let ?d = "\<lparr>jd_companyId = Some 1, jd_title = Some ''Data Analyst'',
         jd_platformId = None, jd_postUrl = Some ''https://jobs.example/2'',
         jd_columns = no_columns\<rparr>"
  note i1 = marks_exactly_inserted_records [of zero_runtime nolocation_processor demo_global
      "''TopCV''" 100 two_row_store empty_db demo_raw demo_processJob "Some (Val 4)"
      three_row_store one_job_store "[demo_raw, hanoi_raw, halong_raw]" hanoi_raw ?d "''job-1''"]
  note i2 = marks_exactly_inserted_records [of zero_runtime nolocation_processor demo_global
      "''TopCV''" 100 two_row_store empty_db hanoi_raw demo_processJob "Some (Val 4)"
      three_row_store one_job_store "[demo_raw, hanoi_raw, halong_raw]" hanoi_raw ?d "''job-1''"]
  have du: "distinct (map (\<lambda>r. r_url (rr_job r)) two_row_store)"
    and di: "distinct (map (\<lambda>r. r_job_id (rr_job r)) two_row_store)"
    using cycle_distinct by simp_all
  have b1: "demo_raw \<in> set (getUnprocessedJobs two_row_store ''TopCV'' 100)"
    and b2: "hanoi_raw \<in> set (getUnprocessedJobs two_row_store ''TopCV'' 100)"
    by (simp_all add: cycle_batch)
  have m1: "r_job_id demo_raw \<in> set (cy_marked ?P)"
    and m2: "r_job_id hanoi_raw \<notin> set (cy_marked ?P)"
    by (simp_all add: cycle_marked cycle_ids)
  from i1 have c1: "cy_raw ?P = markJobsProcessed two_row_store [''job-1'']"
    by (simp add: cycle_marked)
  from i1 du have "cy_marked ?P
     = map r_job_id
         (filter (\<lambda>x. transformed zero_runtime nolocation_processor demo_global x
                    \<and> r_url x \<in> urls (cy_clean ?P) \<and> r_url x \<notin> urls empty_db)
            (getUnprocessedJobs two_row_store ''TopCV'' 100))"
    by blast
  then have c2: "cy_marked ?P
     = map r_job_id
         (filter (\<lambda>x. transformed zero_runtime nolocation_processor demo_global x
                    \<and> r_url x \<in> urls (cy_clean ?P) \<and> r_url x \<notin> urls empty_db)
            [demo_raw, hanoi_raw])"
    by (simp only: cycle_batch)
  from i1 du di b1 have "(r_job_id demo_raw \<in> set (cy_marked ?P))
      = (transformed zero_runtime nolocation_processor demo_global demo_raw
         \<and> r_url demo_raw \<in> urls (cy_clean ?P) \<and> r_url demo_raw \<notin> urls empty_db)"
    by blast
  with m1 have c3: "transformed zero_runtime nolocation_processor demo_global demo_raw
         \<and> r_url demo_raw \<in> urls (cy_clean ?P) \<and> r_url demo_raw \<notin> urls empty_db"
    by blast
  from i2 du di b2 have "(r_job_id hanoi_raw \<in> set (cy_marked ?P))
      = (transformed zero_runtime nolocation_processor demo_global hanoi_raw
         \<and> r_url hanoi_raw \<in> urls (cy_clean ?P) \<and> r_url hanoi_raw \<notin> urls empty_db)"
    by blast
  with hanoi_not_transformed have "r_job_id hanoi_raw \<notin> set (cy_marked ?P)"
    by blast
  then have c4: "''job-2'' \<notin> set (cy_marked ?P)"
    using cycle_ids by simp
  from i1 b1 have "\<exists>row \<in> set (cy_raw ?P). rr_job row = demo_raw
      \<and> rr_processed row = (r_job_id demo_raw \<in> set (cy_marked ?P))"
    by blast
  with m1 have c5: "\<exists>row \<in> set (cy_raw ?P). rr_job row = demo_raw \<and> rr_processed row"
    by blast
  from i2 b2 have "\<exists>row \<in> set (cy_raw ?P). rr_job row = hanoi_raw
      \<and> rr_processed row = (r_job_id hanoi_raw \<in> set (cy_marked ?P))"
    by blast
  with m2 have c6: "\<exists>row \<in> set (cy_raw ?P). rr_job row = hanoi_raw \<and> \<not> rr_processed row"
    by blast
  from i1 have c7: "fst ?B = markJobsProcessed three_row_store [''job-1'', ''job-2'']"
    by (simp add: batch_marked)
  from i1 have "br_processedJobIds (snd (snd ?B))
       = map (\<lambda>i. r_job_id ([demo_raw, hanoi_raw, halong_raw] ! i))
           (filter (\<lambda>i. turn_marks demo_processJob (Some (Val 4))
                           (fst (snd (batchProcess demo_processJob (Some (Val 4)) three_row_store
                              one_job_store (take i [demo_raw, hanoi_raw, halong_raw]))))
                           ([demo_raw, hanoi_raw, halong_raw] ! i))
              [0 ..< length [demo_raw, hanoi_raw, halong_raw]])"
    by blast
  then have c7b: "map (\<lambda>i. r_job_id ([demo_raw, hanoi_raw, halong_raw] ! i))
         (filter (\<lambda>i. turn_marks demo_processJob (Some (Val 4))
                    (fst (snd (batchProcess demo_processJob (Some (Val 4)) three_row_store
                       one_job_store (take i [demo_raw, hanoi_raw, halong_raw]))))
                    ([demo_raw, hanoi_raw, halong_raw] ! i))
            [0 ..< length [demo_raw, hanoi_raw, halong_raw]])
     = [''job-1'', ''job-2'']"
    by (simp only: batch_marked)
  have h: "hanoi_raw \<in> set [demo_raw, hanoi_raw, halong_raw]
      \<and> demo_processJob hanoi_raw = Inr (Some ?d) \<and> required_fields ?d
      \<and> \<not> job_rejected one_job_store (?d\<lparr>jd_platformId := Some (Val 4)\<rparr>)
      \<and> \<not> fk_violated one_job_store (?d\<lparr>jd_platformId := Some (Val 4)\<rparr>)"
    using batch_hanoi by simp
  from i1 h have "r_job_id hanoi_raw \<in> set (br_processedJobIds (snd (snd ?B)))"
    by blast
  then have c8: "''job-2'' \<in> set (br_processedJobIds (snd (snd ?B)))"
    using cycle_ids by simp
  have k: "''job-1'' \<in> set (br_processedJobIds (snd (snd ?B)))"
    by (simp add: batch_marked)
  from i1 k have c9: "\<exists>z \<in> set [demo_raw, hanoi_raw, halong_raw]. r_job_id z = ''job-1''
         \<and> (\<exists>c. demo_processJob z = Inr (Some c) \<and> required_fields c
               \<and> post_stored (fst (snd ?B)) (Some (Val 4)) c)"
    by blast
  from c1 c2 c3 c4 c5 c6 c7 c7b c8 c9 show ?thesis
    by blast
qed


end
